theory Spec2Isabelle
  imports Main "HOL-Library.AList" "HOL-Library.Sublist"
begin

section \<open>Data model of the worker (xinference/core/worker.py)\<close>

text \<open>
  Exceptions of the source are values. The constructors follow the error taxonomy of the
  specification; the Python exception raised by the source is noted where each is used.
\<close>

datatype error =
    InvalidArg | Conflict | NoSlot | BadDevice | Unsupported | Busy
  | AssertionError | Cancelled | Downstream

datatype launch_status = CREATING | READY | TERMINATING | TERMINATED | ERROR

text \<open>\<open>n_gpu: Optional[Union[int, str]]\<close> and \<open>gpu_idx: Optional[Union[int, List[int]]]\<close>.\<close>

datatype n_gpu_arg = NInt int | NStr string

datatype gpu_idx_arg = GInt int | GList "int list"

text \<open>
  The parameters of \<open>launch_builtin_model\<close> that the worker itself inspects; the snapshot
  taken by \<open>locals()\<close> at function entry. The remaining parameters are only handed to
  external collaborators.
\<close>

record launch_args =
  model_uid :: string
  model_name :: string
  model_format :: "string option"
  model_type :: string
  n_gpu :: "n_gpu_arg option"
  n_worker :: int
  shard :: int
  peft_model_config :: bool
  gpu_idx :: "gpu_idx_arg option"
  model_path :: "string option"
  xavier_config :: bool

text \<open>\<open>LaunchInfo\<close>: the handles are modelled by their presence.\<close>

record launch_info =
  cancel_event :: bool
  virtual_env_manager :: bool
  downloader :: bool
  sub_pools :: "string list option"

definition LaunchInfo :: launch_info where
  "LaunchInfo = \<lparr>cancel_event = False, virtual_env_manager = False, downloader = False,
     sub_pools = None\<rparr>"

text \<open>
  The state of \<open>WorkerActor\<close>. A Python \<open>dict\<close> is an association list in insertion order
  (\<open>AList.update\<close> replaces in place or appends, as assignment to a dict does); a Python
  \<open>set\<close> is a list without duplicates. Besides the attributes of the class the state
  carries the two external objects the properties below talk about: the addresses of the live
  sub-pools of the main pool, and the sequence of statuses pushed to the Status Guard.
  A model actor reference is represented by the address it was created at.
\<close>

record worker =
  total_gpu_devices :: "int list"
  supervisor_ref :: bool
  status_guard_ref :: bool
  model_uid_launching_guard :: "(string \<times> launch_info) list"
  model_uid_to_model :: "(string \<times> string) list"
  model_uid_to_model_spec :: "(string \<times> string) list"
  model_uid_to_model_status :: "(string \<times> string) list"
  gpu_to_model_uid :: "(int \<times> string) list"
  gpu_to_embedding_model_uids :: "(int \<times> string list) list"
  user_specified_gpu_to_model_uids :: "(int \<times> (string \<times> string) list) list"
  model_uid_to_addr :: "(string \<times> string) list"
  model_uid_to_recover_count :: "(string \<times> int option) list"
  model_uid_to_launch_args :: "(string \<times> launch_args) list"
  main_pool :: "string list"
  status_guard :: "(string \<times> launch_status) list"

text \<open>\<open>WorkerActor.__init__\<close>: every table starts empty.\<close>

definition init_worker :: "int list \<Rightarrow> worker" where
  "init_worker gpu_devices =
     \<lparr>total_gpu_devices = gpu_devices, supervisor_ref = False, status_guard_ref = False,
      model_uid_launching_guard = [], model_uid_to_model = [], model_uid_to_model_spec = [],
      model_uid_to_model_status = [], gpu_to_model_uid = [],
      gpu_to_embedding_model_uids = [], user_specified_gpu_to_model_uids = [],
      model_uid_to_addr = [], model_uid_to_recover_count = [],
      model_uid_to_launch_args = [], main_pool = [], status_guard = []\<rparr>"

text \<open>\<open>k in d\<close> for a dict.\<close>

definition in_dict :: "'k \<Rightarrow> ('k \<times> 'v) list \<Rightarrow> bool" where
  "in_dict k d = (k \<in> set (map fst d))"

text \<open>\<open>d[k]\<close> for a \<open>defaultdict(set)\<close>: a missing key reads as the empty set.\<close>

definition default_get :: "('k \<times> 'v list) list \<Rightarrow> 'k \<Rightarrow> 'v list" where
  "default_get d k = (case map_of d k of None \<Rightarrow> [] | Some s \<Rightarrow> s)"

text \<open>\<open>d[k].add(x)\<close> for a \<open>defaultdict(set)\<close>.\<close>

definition default_add :: "'k \<Rightarrow> 'v \<Rightarrow> ('k \<times> 'v list) list \<Rightarrow> ('k \<times> 'v list) list" where
  "default_add k x d = AList.update k (List.insert x (default_get d k)) d"

text \<open>\<open>xs[:n]\<close> for a Python integer \<open>n\<close>: a negative \<open>n\<close> counts from the end.\<close>

definition py_slice_to :: "int \<Rightarrow> 'a list \<Rightarrow> 'a list" where
  "py_slice_to n xs =
     (if 0 \<le> n then take (nat n) xs else take (nat (int (length xs) + n)) xs)"

section \<open>Device accountant\<close>

subsection \<open>\<open>allocate_devices_for_embedding\<close>\<close>

text \<open>
  \<open>is_model_vllm_backend\<close> asks the supervisor whether a replica is vLLM-backed; the
  answer is the parameter \<open>vllm\<close>, and the call is taken to return. The inner loop
  over the user-specified tenants stops at the first vLLM model, so its result is whether
  one exists.
\<close>

definition has_vllm_model :: "(string \<Rightarrow> bool) \<Rightarrow> worker \<Rightarrow> int \<Rightarrow> bool" where
  "has_vllm_model vllm w dev =
     (let hv = (case map_of (gpu_to_model_uid w) dev of
                  None \<Rightarrow> False
                | Some existing_model_uid \<Rightarrow> vllm existing_model_uid)
      in if \<not> hv \<and> in_dict dev (user_specified_gpu_to_model_uids w)
         then list_ex (\<lambda>(rep_uid, _). vllm rep_uid)
                (default_get (user_specified_gpu_to_model_uids w) dev)
         else hv)"

definition embedding_candidates :: "(string \<Rightarrow> bool) \<Rightarrow> worker \<Rightarrow> int list" where
  "embedding_candidates vllm w =
     filter (\<lambda>dev.
        if \<not> in_dict dev (gpu_to_model_uid w)
           \<and> \<not> in_dict dev (user_specified_gpu_to_model_uids w)
        then True
        else \<not> has_vllm_model vllm w dev) (total_gpu_devices w)"

definition existing_cnt :: "worker \<Rightarrow> int \<Rightarrow> int" where
  "existing_cnt w dev =
     (if in_dict dev (gpu_to_embedding_model_uids w)
      then int (length (default_get (gpu_to_embedding_model_uids w) dev)) else 0)
   + (if in_dict dev (gpu_to_model_uid w) then 1 else 0)
   + (if in_dict dev (user_specified_gpu_to_model_uids w)
      then int (length (default_get (user_specified_gpu_to_model_uids w) dev)) else 0)"

text \<open>The selection loop, started with \<open>device, min_cnt = -1, -1\<close>.\<close>

fun pick_device :: "worker \<Rightarrow> int list \<Rightarrow> int \<times> int \<Rightarrow> int \<times> int" where
  "pick_device w [] acc = acc"
| "pick_device w (dev # rest) (device, min_cnt) =
     (if min_cnt = - 1 \<or> existing_cnt w dev < min_cnt
      then pick_device w rest (dev, existing_cnt w dev)
      else pick_device w rest (device, min_cnt))"

definition allocate_devices_for_embedding ::
    "(string \<Rightarrow> bool) \<Rightarrow> worker \<Rightarrow> string \<Rightarrow> error + int \<times> worker" where
  "allocate_devices_for_embedding vllm w uid =
     (let candidates = embedding_candidates vllm w in
      if length candidates = 0 then Inl NoSlot
      else
        let device = fst (pick_device w candidates (- 1, - 1)) in
        Inr (device,
             w\<lparr>gpu_to_embedding_model_uids :=
                 default_add device uid (gpu_to_embedding_model_uids w)\<rparr>))"

subsection \<open>\<open>allocate_devices\<close>\<close>

definition user_specified_allocated_devices :: "worker \<Rightarrow> int list" where
  "user_specified_allocated_devices w =
     map fst (filter (\<lambda>(dev, model_infos).
        list_ex (\<lambda>(_, mtype). mtype \<notin> set [''embedding'', ''rerank'']) model_infos)
        (user_specified_gpu_to_model_uids w))"

definition free_devices :: "worker \<Rightarrow> int list" where
  "free_devices w =
     filter (\<lambda>dev. \<not> in_dict dev (gpu_to_model_uid w)
                  \<and> dev \<notin> set (user_specified_allocated_devices w))
       (total_gpu_devices w)"

definition allocate_devices :: "worker \<Rightarrow> string \<Rightarrow> int \<Rightarrow> error + int list \<times> worker" where
  "allocate_devices w uid n =
     (let allocated_devices =
            set (map fst (gpu_to_model_uid w)) \<union> set (user_specified_allocated_devices w)
      in if n > int (length (total_gpu_devices w)) - int (card allocated_devices)
         then Inl NoSlot
         else
           let devices = py_slice_to n (free_devices w) in
           Inr (sort devices,
                w\<lparr>gpu_to_model_uid :=
                    fold (\<lambda>dev g. AList.update dev uid g) devices (gpu_to_model_uid w)\<rparr>))"

subsection \<open>\<open>allocate_devices_with_gpu_idx\<close>\<close>

text \<open>
  The checking loop raises at the first requested index whose entry in
  \<open>_gpu_to_model_uid\<close> is a vLLM model; the warning it logs otherwise has no effect on
  the state. Nothing is recorded before the loop has finished.
\<close>

definition allocate_devices_with_gpu_idx ::
    "(string \<Rightarrow> bool) \<Rightarrow> worker \<Rightarrow> string \<Rightarrow> string \<Rightarrow> int list \<Rightarrow> error + int list \<times> worker" where
  "allocate_devices_with_gpu_idx vllm w uid mtype idxs =
     (if \<not> set idxs \<subseteq> set (total_gpu_devices w) then Inl BadDevice
      else if list_ex (\<lambda>idx. case map_of (gpu_to_model_uid w) idx of
                               None \<Rightarrow> False | Some rep_uid \<Rightarrow> vllm rep_uid) idxs
      then Inl Conflict
      else Inr (sort idxs,
                w\<lparr>user_specified_gpu_to_model_uids :=
                    fold (\<lambda>idx d. default_add idx (uid, mtype) d) idxs
                      (user_specified_gpu_to_model_uids w)\<rparr>))"

subsection \<open>\<open>release_devices\<close>\<close>

definition release_devices :: "worker \<Rightarrow> string \<Rightarrow> worker" where
  "release_devices w uid =
     w\<lparr>gpu_to_model_uid := filter (\<lambda>(dev, u). u \<noteq> uid) (gpu_to_model_uid w),
       gpu_to_embedding_model_uids :=
         map (\<lambda>(dev, s). (dev, removeAll uid s)) (gpu_to_embedding_model_uids w),
       user_specified_gpu_to_model_uids :=
         map (\<lambda>(dev, s). (dev, filter (\<lambda>x. fst x \<noteq> uid) s))
           (user_specified_gpu_to_model_uids w)\<rparr>"

section \<open>External collaborators\<close>

text \<open>
  What the worker takes from outside this module and what does not change while it runs:
  \<open>parse_replica_model_uid\<close> of module \<open>.utils\<close> (the worker only uses the origin uid
  it returns; the parser may raise, which is the \<open>Inl\<close> result), the constant
  \<open>MODEL_ACTOR_AUTO_RECOVER_LIMIT\<close> read from the process environment, and the host
  probe \<open>gpu_count()\<close>.
\<close>

record config =
  parse_replica_model_uid :: "string \<Rightarrow> error + string"
  MODEL_ACTOR_AUTO_RECOVER_LIMIT :: "int option"
  gpu_count :: int

text \<open>
  \<open>get_supervisor_ref\<close> returns at once when \<open>_supervisor_ref\<close> is set. Otherwise it
  resolves the supervisor, stores the reference, and then resolves the Status Guard and
  the other remote actors; the outcome says how far it got: nothing stored, only the
  supervisor stored, the Status Guard stored but a later call failed, or all done.
\<close>

datatype connect_outcome = Refused | Interrupted | Incomplete | Connected

definition get_supervisor_ref :: "connect_outcome \<Rightarrow> worker \<Rightarrow> worker \<times> (error + unit)" where
  "get_supervisor_ref c w =
     (if supervisor_ref w then (w, Inr ())
      else case c of
        Refused \<Rightarrow> (w, Inl Downstream)
      | Interrupted \<Rightarrow> (w\<lparr>supervisor_ref := True\<rparr>, Inl Downstream)
      | Incomplete \<Rightarrow> (w\<lparr>supervisor_ref := True, status_guard_ref := True\<rparr>, Inl Downstream)
      | Connected \<Rightarrow> (w\<lparr>supervisor_ref := True, status_guard_ref := True\<rparr>, Inr ()))"

text \<open>\<open>_status_guard_ref.update_instance_info(origin_uid, {"status": ...})\<close>.\<close>

definition update_instance_info ::
    "bool \<Rightarrow> worker \<Rightarrow> string \<Rightarrow> launch_status \<Rightarrow> worker \<times> (error + unit)" where
  "update_instance_info ok w origin_uid st =
     (if ok then (w\<lparr>status_guard := status_guard w @ [(origin_uid, st)]\<rparr>, Inr ())
      else (w, Inl Downstream))"

text \<open>
  The main pool keeps its sub-processes in a dict keyed by address. Removing an address
  that is not there raises \<open>KeyError\<close>, which every caller in the worker ignores.
\<close>

definition append_sub_pool :: "string \<Rightarrow> worker \<Rightarrow> worker" where
  "append_sub_pool a w =
     w\<lparr>main_pool := (if a \<in> set (main_pool w) then main_pool w else main_pool w @ [a])\<rparr>"

definition remove_sub_pools :: "string list \<Rightarrow> worker \<Rightarrow> worker" where
  "remove_sub_pools addrs w = w\<lparr>main_pool := filter (\<lambda>a. a \<notin> set addrs) (main_pool w)\<rparr>"

section \<open>Introspection\<close>

definition get_model_launch_status :: "worker \<Rightarrow> string \<Rightarrow> launch_status option" where
  "get_model_launch_status w uid =
     (if in_dict uid (model_uid_launching_guard w) then Some CREATING
      else if in_dict uid (model_uid_to_model w) then Some READY
      else None)"

definition list_models :: "worker \<Rightarrow> (string \<times> string) list" where
  "list_models w = model_uid_to_model_spec w"

section \<open>\<open>terminate_model\<close>\<close>

text \<open>
  The outcomes of the external steps of a termination: the connection attempt at the start
  (its error is logged and dropped), the \<open>TERMINATING\<close> update, the extra pool addresses
  the model actor reports (\<open>None\<close> when the call fails or reports none), the connection
  attempt inside \<open>finally\<close>, and the final update. Reporting the event and destroying
  the actor cannot fail the call and do not touch the state.
\<close>

record terminate_env =
  t_connect :: connect_outcome
  t_terminating_ok :: bool
  t_pool_addresses :: "string list option"
  t_reconnect :: connect_outcome
  t_terminal_ok :: bool

text \<open>The suffix \<open>-rank0\<close> is stripped; any other uid goes through the parser.\<close>

definition origin_of :: "config \<Rightarrow> string \<Rightarrow> error + string" where
  "origin_of cfg uid =
     (if suffix ''-rank0'' uid then Inr (take (length uid - 6) uid)
      else parse_replica_model_uid cfg uid)"

text \<open>
  The \<open>try\<close> that removes the sub-pools: the primary address is read from
  \<open>_model_uid_to_addr\<close> (a missing key is caught like every other error there), the
  extra pool addresses are added when the model actor reported some, and all of them are
  removed from the main pool.
\<close>

definition terminate_remove_pools :: "terminate_env \<Rightarrow> worker \<Rightarrow> string \<Rightarrow> worker" where
  "terminate_remove_pools env w uid =
     (case map_of (model_uid_to_addr w) uid of
        None \<Rightarrow> w
      | Some subpool_address \<Rightarrow>
          remove_sub_pools
            (subpool_address #
               (if in_dict uid (model_uid_to_model w)
                then (case t_pool_addresses env of None \<Rightarrow> [] | Some ps \<Rightarrow> ps) else []))
            w)"

text \<open>The table updates of the \<open>finally\<close> block.\<close>

definition terminate_cleanup :: "worker \<Rightarrow> string \<Rightarrow> bool \<Rightarrow> worker" where
  "terminate_cleanup w uid is_model_die =
     (let w1 = release_devices
                 (w\<lparr>model_uid_to_model := AList.delete uid (model_uid_to_model w),
                    model_uid_to_model_spec := AList.delete uid (model_uid_to_model_spec w)\<rparr>)
                 uid;
          w2 = w1\<lparr>model_uid_to_addr := AList.delete uid (model_uid_to_addr w1),
                  model_uid_to_recover_count := AList.delete uid (model_uid_to_recover_count w1),
                  model_uid_to_launch_args := AList.delete uid (model_uid_to_launch_args w1)\<rparr>
      in if is_model_die then w2
         else w2\<lparr>model_uid_to_model_status := AList.delete uid (model_uid_to_model_status w2)\<rparr>)"

text \<open>The end of the \<open>finally\<close> block: connect if needed, assert, push the status.\<close>

definition push_terminal ::
    "terminate_env \<Rightarrow> worker \<Rightarrow> string \<Rightarrow> launch_status \<Rightarrow> worker \<times> (error + unit)" where
  "push_terminal env w origin_uid st =
     (case (if status_guard_ref w then (w, Inr ())
            else get_supervisor_ref (t_reconnect env) w) of
        (w1, Inl e) \<Rightarrow> (w1, Inl e)
      | (w1, Inr _) \<Rightarrow>
          if \<not> status_guard_ref w1 then (w1, Inl AssertionError)
          else update_instance_info (t_terminal_ok env) w1 origin_uid st)"

definition terminate_model ::
    "config \<Rightarrow> terminate_env \<Rightarrow> worker \<Rightarrow> string \<Rightarrow> bool \<Rightarrow> worker \<times> (error + unit)" where
  "terminate_model cfg env w uid is_model_die =
     (if in_dict uid (model_uid_launching_guard w) then (w, Inl Busy)
      else case origin_of cfg uid of
        Inl e \<Rightarrow> (w, Inl e)
      | Inr origin_uid \<Rightarrow>
          let w1 = fst (get_supervisor_ref (t_connect env) w) in
          (case (if status_guard_ref w1
                 then update_instance_info (t_terminating_ok env) w1 origin_uid TERMINATING
                 else (w1, Inr ())) of
             (w2, Inl e) \<Rightarrow> (w2, Inl e)
           | (w2, Inr _) \<Rightarrow>
               push_terminal env
                 (terminate_cleanup (terminate_remove_pools env w2 uid) uid is_model_die)
                 origin_uid (if is_model_die then ERROR else TERMINATED)))"

section \<open>\<open>launch_builtin_model\<close>\<close>

text \<open>
  One field for the outcome of every external step of a launch, in the order of the
  source: the connection attempt before the checks (its error is logged and dropped),
  \<open>os.path.exists(model_path)\<close>, whether the platform is Darwin, the vLLM probe, the
  virtualenv manager (\<open>Inr True\<close> when one is created, \<open>Inr False\<close> when virtualenvs are
  off), the address of the appended sub-pool, then the steps of the inner \<open>try\<close>, and
  last the connection attempt and the \<open>READY\<close> update after the commit.
  \<open>l_download\<close> covers the progressor, \<open>create_model_instance\<close> and
  \<open>update_cache_status\<close> and yields the model description; \<open>l_cancelled1\<close> to
  \<open>l_cancelled4\<close> are what the four calls of \<open>check_cancel\<close> observe; \<open>l_extra_pool i\<close>
  is the outcome of the \<open>i\<close>-th additional \<open>append_sub_pool\<close>.
\<close>

datatype load_outcome = Loaded | LoadFailed error | ServerClosed

record launch_env =
  l_connect :: connect_outcome
  l_path_exists :: bool
  l_is_darwin :: bool
  l_vllm :: "string \<Rightarrow> bool"
  l_venv :: "error + bool"
  l_subpool :: "error + string"
  l_download :: "error + string"
  l_cancelled1 :: bool
  l_install :: "error option"
  l_cancelled2 :: bool
  l_create_actor :: "error option"
  l_need_create_pools :: "error + bool"
  l_extra_pool :: "nat \<Rightarrow> error + string"
  l_set_pool_addresses :: "error option"
  l_cancelled3 :: bool
  l_load :: load_outcome
  l_cancelled4 :: bool
  l_reconnect :: connect_outcome
  l_ready_ok :: bool

subsection \<open>Pre-validation\<close>

definition coerce_gpu_idx :: "gpu_idx_arg option \<Rightarrow> int list option" where
  "coerce_gpu_idx g =
     (case g of None \<Rightarrow> None | Some (GInt i) \<Rightarrow> Some [i] | Some (GList idxs) \<Rightarrow> Some idxs)"

text \<open>The two checks on \<open>n_gpu\<close>, both under \<open>if n_gpu is not None\<close>; each raises \<open>ValueError\<close>.\<close>

definition n_gpu_rejected :: "int \<Rightarrow> n_gpu_arg option \<Rightarrow> bool" where
  "n_gpu_rejected cnt n =
     (case n of
        None \<Rightarrow> False
      | Some (NInt k) \<Rightarrow> k \<le> 0 \<or> k > cnt
      | Some (NStr s) \<Rightarrow> s \<noteq> ''auto'')"

text \<open>
  The checks before the \<open>try\<close>, in the order of the source; the result is the error of the
  first one that fails. The failed \<open>assert\<close> is \<open>AssertionError\<close>, the platform check is
  \<open>Unsupported\<close>, a uid with a launch status is \<open>Conflict\<close>.
\<close>

definition pre_validate :: "config \<Rightarrow> launch_env \<Rightarrow> worker \<Rightarrow> launch_args \<Rightarrow> error option" where
  "pre_validate cfg env w args =
     (if n_gpu_rejected (gpu_count cfg) (n_gpu args) then Some InvalidArg
      else if peft_model_config args \<and> model_type args \<in> set [''embedding'', ''rerank'']
        then Some InvalidArg
      else if peft_model_config args \<and> model_type args = ''LLM''
              \<and> model_format args = Some ''ggufv2''
        then Some InvalidArg
      else if model_path args \<noteq> None \<and> \<not> l_path_exists env then Some InvalidArg
      else if in_dict (model_uid args) (model_uid_to_model w) then Some AssertionError
      else if l_is_darwin env \<and> model_format args = Some ''pytorch''
              \<and> sublist ''baichuan'' (model_name args)
        then Some Unsupported
      else if get_model_launch_status w (model_uid args) \<noteq> None then Some Conflict
      else None)"

subsection \<open>\<open>_create_subpool\<close>\<close>

text \<open>
  The devices are allocated first and the sub-pool is appended afterwards, so the state
  returned with an error of \<open>append_sub_pool\<close> holds the allocation. The environment
  variable built for the sub-pool does not reach the worker's state and is left out.
\<close>

definition create_subpool_devices ::
    "config \<Rightarrow> launch_env \<Rightarrow> worker \<Rightarrow> string \<Rightarrow> string \<Rightarrow> n_gpu_arg option \<Rightarrow> int list option
      \<Rightarrow> error + int list \<times> worker" where
  "create_subpool_devices cfg env w uid mtype n idxs =
     (case idxs of
        None \<Rightarrow>
          (case n of
             Some (NInt k) \<Rightarrow>
               if mtype \<in> set [''embedding'', ''rerank'']
               then map_sum id (\<lambda>(d, w'). ([d], w')) (allocate_devices_for_embedding (l_vllm env) w uid)
               else allocate_devices w uid k
           | Some (NStr s) \<Rightarrow>
               if s = ''auto'' \<and> gpu_count cfg > 0
               then if mtype \<in> set [''embedding'', ''rerank'']
                    then map_sum id (\<lambda>(d, w'). ([d], w'))
                           (allocate_devices_for_embedding (l_vllm env) w uid)
                    else allocate_devices w uid 1
               else Inr ([], w)
           | None \<Rightarrow> Inr ([], w))
      | Some gpu_idxs \<Rightarrow> allocate_devices_with_gpu_idx (l_vllm env) w uid mtype gpu_idxs)"

definition create_subpool ::
    "config \<Rightarrow> launch_env \<Rightarrow> worker \<Rightarrow> string \<Rightarrow> string \<Rightarrow> n_gpu_arg option \<Rightarrow> int list option
      \<Rightarrow> worker \<times> (error + string \<times> int list)" where
  "create_subpool cfg env w uid mtype n idxs =
     (case create_subpool_devices cfg env w uid mtype n idxs of
        Inl e \<Rightarrow> (w, Inl e)
      | Inr (devices, w') \<Rightarrow>
          (case l_subpool env of
             Inl e \<Rightarrow> (w', Inl e)
           | Inr subpool_address \<Rightarrow> (append_sub_pool subpool_address w', Inr (subpool_address, devices))))"

subsection \<open>The inner \<open>try\<close>\<close>

fun first_error :: "(error + 'a) list \<Rightarrow> error option" where
  "first_error [] = None"
| "first_error (Inl e # rest) = Some e"
| "first_error (Inr _ # rest) = first_error rest"

fun successes :: "(error + 'a) list \<Rightarrow> 'a list" where
  "successes [] = []"
| "successes (Inl _ # rest) = successes rest"
| "successes (Inr a # rest) = a # successes rest"

text \<open>\<open>model_ref.load()\<close>: on \<open>ServerClosed\<close> the cancel flag is checked before re-raising.\<close>

definition launch_load :: "launch_env \<Rightarrow> error option" where
  "launch_load env =
     (case l_load env of
        Loaded \<Rightarrow> None
      | LoadFailed e \<Rightarrow> Some e
      | ServerClosed \<Rightarrow> Some (if l_cancelled4 env then Cancelled else Downstream))"

text \<open>
  The body returns the additional sub-pools that were created, the value of
  \<open>all_subpool_addresses\<close> when the body is left, and the model description or the
  error. The additional pools are awaited together: when one of them fails the list
  \<open>all_subpool_addresses\<close> is not extended, whatever the others did.
\<close>

definition launch_finish ::
    "launch_env \<Rightarrow> string list \<Rightarrow> string list \<Rightarrow> string \<Rightarrow> string list \<times> string list \<times> (error + string)" where
  "launch_finish env created all_subpool_addresses description =
     (if l_cancelled3 env then (created, all_subpool_addresses, Inl Cancelled)
      else case launch_load env of
        Some e \<Rightarrow> (created, all_subpool_addresses, Inl e)
      | None \<Rightarrow> (created, all_subpool_addresses, Inr description))"

definition launch_extra_pools ::
    "launch_env \<Rightarrow> string \<Rightarrow> int list \<Rightarrow> string \<Rightarrow> string list \<times> string list \<times> (error + string)" where
  "launch_extra_pools env subpool_address devices description =
     (let outcomes = map (l_extra_pool env) [0..<length devices];
          pool_addresses = successes outcomes
      in case first_error outcomes of
           Some e \<Rightarrow> (pool_addresses, [subpool_address], Inl e)
         | None \<Rightarrow>
             (case l_set_pool_addresses env of
                Some e \<Rightarrow> (pool_addresses, subpool_address # pool_addresses, Inl e)
              | None \<Rightarrow>
                  launch_finish env pool_addresses (subpool_address # pool_addresses) description))"

definition launch_body ::
    "launch_env \<Rightarrow> launch_args \<Rightarrow> bool \<Rightarrow> string \<Rightarrow> int list
      \<Rightarrow> string list \<times> string list \<times> (error + string)" where
  "launch_body env args venv subpool_address devices =
     (case l_download env of
        Inl e \<Rightarrow> ([], [subpool_address], Inl e)
      | Inr description \<Rightarrow>
          if l_cancelled1 env then ([], [subpool_address], Inl Cancelled)
          else case (if venv then l_install env else None) of
            Some e \<Rightarrow> ([], [subpool_address], Inl e)
          | None \<Rightarrow>
              if l_cancelled2 env then ([], [subpool_address], Inl Cancelled)
              else case l_create_actor env of
                Some e \<Rightarrow> ([], [subpool_address], Inl e)
              | None \<Rightarrow>
                  (case l_need_create_pools env of
                     Inl e \<Rightarrow> ([], [subpool_address], Inl e)
                   | Inr need \<Rightarrow>
                       if need \<and> (length devices > 1 \<or> n_worker args > 1)
                       then launch_extra_pools env subpool_address devices description
                       else launch_finish env [] [subpool_address] description))"

subsection \<open>Commit and the steps after it\<close>

definition commit :: "config \<Rightarrow> worker \<Rightarrow> launch_args \<Rightarrow> string \<Rightarrow> string \<Rightarrow> worker" where
  "commit cfg w args subpool_address description =
     w\<lparr>model_uid_to_model := AList.update (model_uid args) subpool_address (model_uid_to_model w),
       model_uid_to_model_spec :=
         AList.update (model_uid args) description (model_uid_to_model_spec w),
       model_uid_to_model_status := AList.update (model_uid args) [] (model_uid_to_model_status w),
       model_uid_to_addr := AList.update (model_uid args) subpool_address (model_uid_to_addr w),
       model_uid_to_recover_count :=
         (if in_dict (model_uid args) (model_uid_to_recover_count w)
          then model_uid_to_recover_count w
          else AList.update (model_uid args) (MODEL_ACTOR_AUTO_RECOVER_LIMIT cfg)
                 (model_uid_to_recover_count w)),
       model_uid_to_launch_args := AList.update (model_uid args) args (model_uid_to_launch_args w)\<rparr>"

text \<open>The \<open>finally\<close> of the launch: \<open>del self._model_uid_launching_guard[model_uid]\<close>.\<close>

definition leave_guard :: "worker \<Rightarrow> string \<Rightarrow> worker" where
  "leave_guard w uid =
     w\<lparr>model_uid_launching_guard := AList.delete uid (model_uid_launching_guard w)\<rparr>"

definition after_commit ::
    "launch_env \<Rightarrow> worker \<Rightarrow> launch_args \<Rightarrow> string \<Rightarrow> string \<Rightarrow> worker \<times> (error + string)" where
  "after_commit env w args origin_uid subpool_address =
     (if model_type args \<notin> set [''embedding'', ''rerank'', ''image'', ''audio'', ''video'',
                                 ''flexible'', ''LLM'']
      then (w, Inl AssertionError)
      else case get_supervisor_ref (l_reconnect env) w of
        (w1, Inl e) \<Rightarrow> (w1, Inl e)
      | (w1, Inr _) \<Rightarrow>
          (case (if status_guard_ref w1 then (w1, Inr ())
                 else get_supervisor_ref (l_reconnect env) w1) of
             (w2, Inl e) \<Rightarrow> (w2, Inl e)
           | (w2, Inr _) \<Rightarrow>
               if \<not> status_guard_ref w2 then (w2, Inl AssertionError)
               else (case update_instance_info (l_ready_ok env) w2 origin_uid READY of
                       (w3, Inl e) \<Rightarrow> (w3, Inl e)
                     | (w3, Inr _) \<Rightarrow> (w3, Inr subpool_address))))"

subsection \<open>The launch\<close>

text \<open>
  The outer \<open>try\<close>: the guard entry, the virtualenv manager and the sub-pool come before
  the inner \<open>try\<close>, so an error of theirs only meets the \<open>finally\<close>. An error of the
  inner \<open>try\<close> meets its \<open>except\<close> clause: the devices are released and the addresses
  in \<open>all_subpool_addresses\<close> are removed.
\<close>

definition launch_pipeline ::
    "config \<Rightarrow> launch_env \<Rightarrow> worker \<Rightarrow> launch_args \<Rightarrow> string \<Rightarrow> worker \<times> (error + string)" where
  "launch_pipeline cfg env w args origin_uid =
     (let uid = model_uid args;
          w1 = w\<lparr>model_uid_launching_guard :=
                   AList.update uid LaunchInfo (model_uid_launching_guard w)\<rparr>
      in case l_venv env of
           Inl e \<Rightarrow> (leave_guard w1 uid, Inl e)
         | Inr venv \<Rightarrow>
             (case create_subpool cfg env w1 uid (model_type args) (n_gpu args)
                     (coerce_gpu_idx (gpu_idx args)) of
                (w2, Inl e) \<Rightarrow> (leave_guard w2 uid, Inl e)
              | (w2, Inr (subpool_address, devices)) \<Rightarrow>
                  (case launch_body env args venv subpool_address devices of
                     (created, all_subpool_addresses, res) \<Rightarrow>
                       let w3 = fold append_sub_pool created w2 in
                       (case res of
                          Inl e \<Rightarrow>
                            (leave_guard
                               (remove_sub_pools all_subpool_addresses (release_devices w3 uid))
                               uid,
                             Inl e)
                        | Inr description \<Rightarrow>
                            after_commit env
                              (leave_guard (commit cfg w3 args subpool_address description) uid)
                              args origin_uid subpool_address))))"

definition launch_builtin_model ::
    "config \<Rightarrow> launch_env \<Rightarrow> worker \<Rightarrow> launch_args \<Rightarrow> worker \<times> (error + string)" where
  "launch_builtin_model cfg env w args =
     (case parse_replica_model_uid cfg (model_uid args) of
        Inl e \<Rightarrow> (w, Inl e)
      | Inr origin_uid \<Rightarrow>
          let w0 = fst (get_supervisor_ref (l_connect env) w) in
          (case pre_validate cfg env w0 args of
             Some e \<Rightarrow> (w0, Inl e)
           | None \<Rightarrow> launch_pipeline cfg env w0 args origin_uid))"

section \<open>\<open>launch_rank0_model\<close>\<close>

text \<open>
  The sub-pool is appended before the guard entry is written, and nothing is checked
  before that. The store address and port are not part of the worker's state; the port
  probe between the two steps is taken to return.
\<close>

record rank0_env =
  k_subpool :: "error + string"
  k_create_actor :: "error option"

definition launch_rank0_model :: "rank0_env \<Rightarrow> worker \<Rightarrow> string \<Rightarrow> worker \<times> (error + string)" where
  "launch_rank0_model env w rep_model_uid =
     (case k_subpool env of
        Inl e \<Rightarrow> (w, Inl e)
      | Inr subpool_address \<Rightarrow>
          let w1 = (append_sub_pool subpool_address w)
                     \<lparr>model_uid_launching_guard :=
                        AList.update rep_model_uid LaunchInfo (model_uid_launching_guard w)\<rparr>
          in case k_create_actor env of
               Some e \<Rightarrow> (leave_guard (remove_sub_pools [subpool_address] w1) rep_model_uid, Inl e)
             | None \<Rightarrow>
                 (leave_guard
                    (w1\<lparr>model_uid_to_model :=
                          AList.update rep_model_uid subpool_address (model_uid_to_model w1),
                        model_uid_to_addr :=
                          AList.update rep_model_uid subpool_address (model_uid_to_addr w1)\<rparr>)
                    rep_model_uid,
                  Inr subpool_address))"

section \<open>Recovery\<close>

text \<open>
  The outcomes of the external steps of a recovery: those of the termination, the
  connection attempt of \<open>recover_model\<close>, the two calls to the collective manager made
  for a xavier replica, and those of the launch.
\<close>

record recover_env =
  r_terminate :: terminate_env
  r_connect :: connect_outcome
  r_unregister_ok :: bool
  r_launch :: launch_env
  r_register_ok :: bool

definition recover_model ::
    "config \<Rightarrow> recover_env \<Rightarrow> worker \<Rightarrow> launch_args \<Rightarrow> worker \<times> (error + unit)" where
  "recover_model cfg env w args =
     (case parse_replica_model_uid cfg (model_uid args) of
        Inl e \<Rightarrow> (w, Inl e)
      | Inr origin_uid \<Rightarrow>
          (case get_supervisor_ref (r_connect env) w of
             (w1, Inl e) \<Rightarrow> (w1, Inl e)
           | (w1, Inr _) \<Rightarrow>
               if xavier_config args \<and> \<not> r_unregister_ok env then (w1, Inl Downstream)
               else (case launch_builtin_model cfg (r_launch env) w1 args of
                       (w2, Inl e) \<Rightarrow> (w2, Inl e)
                     | (w2, Inr _) \<Rightarrow>
                         if xavier_config args \<and> \<not> r_register_ok env then (w2, Inl Downstream)
                         else (w2, Inr ()))))"

text \<open>
  The callback of the main pool. The sub-pool is removed and the termination is
  attempted with their errors dropped. With a positive counter the uid is parsed for the
  event report, outside every \<open>try\<close>, before the counter is written and
  \<open>recover_model\<close> is called; reporting the event cannot fail the call. The second
  component of the result names the uid \<open>recover_model\<close> was called for, when it was
  called.
\<close>

definition recover_sub_pool ::
    "config \<Rightarrow> recover_env \<Rightarrow> worker \<Rightarrow> string \<Rightarrow> worker \<times> string option \<times> (error + unit)" where
  "recover_sub_pool cfg env w address =
     (let w1 = remove_sub_pools [address] w in
      case find (\<lambda>(uid, addr). addr = address) (model_uid_to_addr w1) of
        None \<Rightarrow> (w1, None, Inr ())
      | Some (uid, _) \<Rightarrow>
          (case map_of (model_uid_to_launch_args w1) uid of
             None \<Rightarrow> (w1, None, Inr ())
           | Some args \<Rightarrow>
               let recover_count = map_of (model_uid_to_recover_count w1) uid;
                   w2 = fst (terminate_model cfg (r_terminate env) w1 uid True)
               in (case recover_count of
                     Some (Some c) \<Rightarrow>
                       if c > 0
                       then (case parse_replica_model_uid cfg uid of
                               Inl e \<Rightarrow> (w2, None, Inl e)
                             | Inr event_model_uid \<Rightarrow>
                                 (case recover_model cfg env
                                         (w2\<lparr>model_uid_to_recover_count :=
                                               AList.update uid (Some (c - 1))
                                                 (model_uid_to_recover_count w2)\<rparr>) args of
                                    (w3, res) \<Rightarrow> (w3, Some (model_uid args), res)))
                       else (w2, None, Inr ())
                   | _ \<Rightarrow>
                       (case recover_model cfg env w2 args of
                          (w3, res) \<Rightarrow> (w3, Some (model_uid args), res)))))"

section \<open>Vocabulary of the properties\<close>

text \<open>
  The device tables of a worker are well formed when the GPU indices it may use are
  pairwise different and every index with an exclusive owner or a user-specified tenant is
  one of them. Both allocators that write these tables only use indices of
  \<open>total_gpu_devices\<close>.
\<close>

definition wf_devices :: "worker \<Rightarrow> bool" where
  "wf_devices w \<longleftrightarrow>
     distinct (total_gpu_devices w)
   \<and> set (map fst (gpu_to_model_uid w)) \<subseteq> set (total_gpu_devices w)
   \<and> set (map fst (user_specified_gpu_to_model_uids w)) \<subseteq> set (total_gpu_devices w)"

text \<open>
  The tenant count of a GPU in the words of the specification: its exclusive owner, if it
  has one, plus its embedding tenants plus its user-pinned tenants. A set of tenants is a
  list without duplicates, so its size is the length of the list.
\<close>

definition tenant_count :: "worker \<Rightarrow> int \<Rightarrow> nat" where
  "tenant_count w dev =
     (case map_of (gpu_to_model_uid w) dev of None \<Rightarrow> 0 | Some _ \<Rightarrow> 1)
   + length (default_get (gpu_to_embedding_model_uids w) dev)
   + length (default_get (user_specified_gpu_to_model_uids w) dev)"

text \<open>A uid holds a device when it occurs in one of the three device maps.\<close>

definition holds_device :: "worker \<Rightarrow> string \<Rightarrow> bool" where
  "holds_device w uid \<longleftrightarrow>
     uid \<in> snd ` set (gpu_to_model_uid w)
   \<or> (\<exists>(dev, s) \<in> set (gpu_to_embedding_model_uids w). uid \<in> set s)
   \<or> (\<exists>(dev, s) \<in> set (user_specified_gpu_to_model_uids w). uid \<in> fst ` set s)"

text \<open>No table entry and no device for a uid.\<close>

definition uid_absent :: "worker \<Rightarrow> string \<Rightarrow> bool" where
  "uid_absent w uid \<longleftrightarrow>
     \<not> in_dict uid (model_uid_to_model w) \<and> \<not> in_dict uid (model_uid_to_model_spec w)
   \<and> \<not> in_dict uid (model_uid_to_addr w) \<and> \<not> in_dict uid (model_uid_to_recover_count w)
   \<and> \<not> in_dict uid (model_uid_to_launch_args w) \<and> \<not> holds_device w uid"

text \<open>
  Two states have the same tables when they agree on the Launching Guard and on the six
  tables keyed by uid; the device maps, the sub-pools, the references and the Status
  Guard may differ.
\<close>

definition same_tables :: "worker \<Rightarrow> worker \<Rightarrow> bool" where
  "same_tables w w' \<longleftrightarrow>
     model_uid_launching_guard w' = model_uid_launching_guard w
   \<and> model_uid_to_model w' = model_uid_to_model w
   \<and> model_uid_to_model_spec w' = model_uid_to_model_spec w
   \<and> model_uid_to_model_status w' = model_uid_to_model_status w
   \<and> model_uid_to_addr w' = model_uid_to_addr w
   \<and> model_uid_to_recover_count w' = model_uid_to_recover_count w
   \<and> model_uid_to_launch_args w' = model_uid_to_launch_args w"

text \<open>Invariant 1 of the data model: no uid is in the guard and in the Model Table.\<close>

definition guard_table_disjoint :: "worker \<Rightarrow> bool" where
  "guard_table_disjoint w \<longleftrightarrow>
     list_all (\<lambda>(uid, _). \<not> in_dict uid (model_uid_to_model w)) (model_uid_launching_guard w)"

text \<open>
  Repeated sub-pool deaths: the main pool calls the recover callback once per dead
  address, each time in its own environment. The result lists the uids
  \<open>recover_model\<close> was called for, in order.
\<close>

fun run_deaths :: "config \<Rightarrow> worker \<Rightarrow> (string \<times> recover_env) list \<Rightarrow> worker \<times> string list" where
  "run_deaths cfg w [] = (w, [])"
| "run_deaths cfg w ((address, env) # rest) =
     (case recover_sub_pool cfg env w address of
        (w', relaunched, _) \<Rightarrow>
          (case run_deaths cfg w' rest of
             (w'', uids) \<Rightarrow> (w'', (case relaunched of None \<Rightarrow> [] | Some u \<Rightarrow> [u]) @ uids)))"

text \<open>
  Every stored snapshot of launch arguments is stored under its own \<open>model_uid\<close>, as the
  commit of a launch stores it.
\<close>

definition args_keyed :: "worker \<Rightarrow> bool" where
  "args_keyed w \<longleftrightarrow>
     list_all (\<lambda>(k, args). map_of (model_uid_to_launch_args w) k = Some args
                              \<longrightarrow> model_uid args = k)
       (model_uid_to_launch_args w)"

text \<open>
  The re-launches a uid can still get: its counter when it has launch arguments and a
  non-null counter (a negative counter counts as zero), none without launch arguments.
\<close>

definition recover_budget :: "worker \<Rightarrow> string \<Rightarrow> nat" where
  "recover_budget w uid =
     (case map_of (model_uid_to_launch_args w) uid of
        None \<Rightarrow> 0
      | Some _ \<Rightarrow> (case map_of (model_uid_to_recover_count w) uid of
                     Some (Some c) \<Rightarrow> nat c | _ \<Rightarrow> 0))"

definition recover_bounded :: "worker \<Rightarrow> string \<Rightarrow> bool" where
  "recover_bounded w uid \<longleftrightarrow>
     (map_of (model_uid_to_launch_args w) uid \<noteq> None \<longrightarrow>
        (case map_of (model_uid_to_recover_count w) uid of
           Some (Some c) \<Rightarrow> True | _ \<Rightarrow> False))"

text \<open>
  Every uid with stored launch arguments is one the parser accepts: a launch parses its uid
  before anything else and stores its arguments under that uid.
\<close>

definition uids_parse :: "config \<Rightarrow> worker \<Rightarrow> bool" where
  "uids_parse cfg w \<longleftrightarrow>
     list_all (\<lambda>(k, _). case parse_replica_model_uid cfg k of Inl _ \<Rightarrow> False | Inr _ \<Rightarrow> True)
       (model_uid_to_launch_args w)"

text \<open>The two tables the recovery reads, as maps.\<close>

definition la_of :: "worker \<Rightarrow> string \<Rightarrow> launch_args option" where
  "la_of w = map_of (model_uid_to_launch_args w)"

definition rc_of :: "worker \<Rightarrow> string \<Rightarrow> int option option" where
  "rc_of w = map_of (model_uid_to_recover_count w)"

definition step_ok :: "worker \<Rightarrow> worker \<Rightarrow> string option \<Rightarrow> string \<Rightarrow> bool" where
  "step_ok w w' rel uid \<longleftrightarrow>
     args_keyed w' \<and> recover_bounded w' uid
   \<and> recover_budget w' uid + (if rel = Some uid then 1 else 0) \<le> recover_budget w uid"

section \<open>Example parameters\<close>

text \<open>
  Concrete collaborators for the closed instances below: a parser that takes the part of
  a uid before its first dash and rejects a uid without a dash, a recover limit of one, a
  host with four GPUs, and environments in which every external step succeeds.
\<close>

definition example_config :: config where
  "example_config =
     \<lparr>parse_replica_model_uid =
        (\<lambda>uid. if CHR ''-'' \<in> set uid then Inr (takeWhile (\<lambda>c. c \<noteq> CHR ''-'') uid)
               else Inl InvalidArg),
      MODEL_ACTOR_AUTO_RECOVER_LIMIT = Some 1, gpu_count = 4\<rparr>"

definition example_terminate_env :: terminate_env where
  "example_terminate_env =
     \<lparr>t_connect = Connected, t_terminating_ok = True, t_pool_addresses = None,
      t_reconnect = Connected, t_terminal_ok = True\<rparr>"

definition example_launch_env :: launch_env where
  "example_launch_env =
     \<lparr>l_connect = Connected, l_path_exists = True, l_is_darwin = False,
      l_vllm = (\<lambda>uid. False), l_venv = Inr False, l_subpool = Inr ''addr-1'',
      l_download = Inr ''description'', l_cancelled1 = False, l_install = None,
      l_cancelled2 = False, l_create_actor = None, l_need_create_pools = Inr False,
      l_extra_pool = (\<lambda>i. Inr ''addr-extra''), l_set_pool_addresses = None,
      l_cancelled3 = False, l_load = Loaded, l_cancelled4 = False,
      l_reconnect = Connected, l_ready_ok = True\<rparr>"

definition example_launch_args :: launch_args where
  "example_launch_args =
     \<lparr>model_uid = ''m-0'', model_name = ''x'', model_format = None, model_type = ''LLM'',
      n_gpu = Some (NStr ''auto''), n_worker = 1, shard = 0, peft_model_config = False,
      gpu_idx = None, model_path = None, xavier_config = False\<rparr>"

definition example_recover_env :: recover_env where
  "example_recover_env =
     \<lparr>r_terminate = example_terminate_env, r_connect = Connected, r_unregister_ok = True,
      r_launch = example_launch_env, r_register_ok = True\<rparr>"

definition example_rank0_env :: rank0_env where
  "example_rank0_env = \<lparr>k_subpool = Inr ''addr-0'', k_create_actor = None\<rparr>"

text \<open>The worker with GPU 0 after the example launch has been committed.\<close>

definition example_committed :: worker where
  "example_committed =
     (init_worker [0])
       \<lparr>supervisor_ref := True, status_guard_ref := True,
        model_uid_to_model := [(''m-0'', ''addr-1'')],
        model_uid_to_model_spec := [(''m-0'', ''description'')],
        model_uid_to_model_status := [(''m-0'', [])],
        gpu_to_model_uid := [(0, ''m-0'')],
        model_uid_to_addr := [(''m-0'', ''addr-1'')],
        model_uid_to_recover_count := [(''m-0'', Some 1)],
        model_uid_to_launch_args := [(''m-0'', example_launch_args)],
        main_pool := [''addr-1''],
        status_guard := [(''m'', READY)]\<rparr>"

text \<open>
  The same worker with the model stored under a uid the example parser rejects; no launch
  produces such a state.
\<close>

definition example_unparsable :: worker where
  "example_unparsable =
     example_committed
       \<lparr>model_uid_to_addr := [(''mx'', ''addr-1'')],
        model_uid_to_recover_count := [(''mx'', Some 1)],
        model_uid_to_launch_args := [(''mx'', example_launch_args\<lparr>model_uid := ''mx''\<rparr>)]\<rparr>"

lemmas example_defs =
  example_config_def example_launch_env_def example_launch_args_def example_terminate_env_def
  example_recover_env_def example_committed_def init_worker_def

lemmas launch_defs =
  launch_builtin_model_def get_supervisor_ref_def pre_validate_def
  n_gpu_rejected_def in_dict_def get_model_launch_status_def launch_pipeline_def
  create_subpool_def create_subpool_devices_def coerce_gpu_idx_def append_sub_pool_def
  allocate_devices_def free_devices_def user_specified_allocated_devices_def py_slice_to_def
  launch_body_def launch_finish_def launch_load_def commit_def leave_guard_def
  after_commit_def update_instance_info_def Let_def

section \<open>Lemmas on dictionaries and collaborators\<close>

lemma in_dict_map_of: "in_dict k d \<longleftrightarrow> map_of d k \<noteq> None"
  by (simp add: in_dict_def map_of_eq_None_iff)

lemma in_dict_update [simp]: "in_dict k (AList.update k' v d) \<longleftrightarrow> k = k' \<or> in_dict k d"
  by (auto simp: in_dict_map_of update_conv')

lemma in_dict_delete [simp]: "in_dict k (AList.delete k' d) \<longleftrightarrow> k \<noteq> k' \<and> in_dict k d"
  by (auto simp: in_dict_map_of delete_conv')

lemma guard_table_disjoint_iff:
  "guard_table_disjoint w \<longleftrightarrow>
     (\<forall>uid. \<not> (in_dict uid (model_uid_launching_guard w) \<and> in_dict uid (model_uid_to_model w)))"
proof -
  have "guard_table_disjoint w \<longleftrightarrow>
          (\<forall>p \<in> set (model_uid_launching_guard w). \<not> in_dict (fst p) (model_uid_to_model w))"
    by (simp add: guard_table_disjoint_def list_all_iff case_prod_beta)
  also have "\<dots> \<longleftrightarrow>
          (\<forall>uid \<in> fst ` set (model_uid_launching_guard w). \<not> in_dict uid (model_uid_to_model w))"
    by simp
  also have "\<dots> \<longleftrightarrow>
          (\<forall>uid. \<not> (in_dict uid (model_uid_launching_guard w) \<and> in_dict uid (model_uid_to_model w)))"
    unfolding in_dict_def [of _ "model_uid_launching_guard w"] by (simp add: Ball_def)
  finally show ?thesis .
qed

lemma args_keyed_iff:
  "args_keyed w \<longleftrightarrow>
     (\<forall>k args. map_of (model_uid_to_launch_args w) k = Some args \<longrightarrow> model_uid args = k)"
  by (auto simp: args_keyed_def list_all_iff dest: map_of_SomeD)

lemma recover_bounded_iff:
  "recover_bounded w uid \<longleftrightarrow>
     (map_of (model_uid_to_launch_args w) uid \<noteq> None \<longrightarrow>
        (\<exists>c. map_of (model_uid_to_recover_count w) uid = Some (Some c)))"
  by (auto simp: recover_bounded_def split: option.splits)

lemma get_supervisor_ref_frame:
  "fst (get_supervisor_ref c w) =
     w\<lparr>supervisor_ref := supervisor_ref (fst (get_supervisor_ref c w)),
       status_guard_ref := status_guard_ref (fst (get_supervisor_ref c w))\<rparr>"
  by (cases c) (simp_all add: get_supervisor_ref_def)

section \<open>Lemmas on the device accountant\<close>

lemma existing_cnt_nonneg: "0 \<le> existing_cnt w dev"
  by (simp add: existing_cnt_def)

lemma pick_device_seeded:
  "m0 = existing_cnt w d0 \<Longrightarrow>
   (let r = pick_device w cs (d0, m0) in
      snd r = existing_cnt w (fst r) \<and> fst r \<in> insert d0 (set cs) \<and> snd r \<le> m0
      \<and> (\<forall>c \<in> set cs. snd r \<le> existing_cnt w c))"
proof (induction cs arbitrary: d0 m0)
  case Nil
  then show ?case by simp
next
  case (Cons c cs)
  have nn: "0 \<le> existing_cnt w d0" by (rule existing_cnt_nonneg)
  show ?case
  proof (cases "existing_cnt w c < m0")
    case True
    from Cons.IH [of "existing_cnt w c" c] True Cons.prems nn
    show ?thesis by (auto simp: Let_def)
  next
    case False
    with Cons.prems nn have "m0 \<noteq> - 1" by simp
    with Cons.IH [of m0 d0] False Cons.prems
    show ?thesis by (auto simp: Let_def)
  qed
qed

lemma pick_device_min:
  assumes "cs \<noteq> []"
  shows "fst (pick_device w cs (- 1, - 1)) \<in> set cs
       \<and> (\<forall>c \<in> set cs. existing_cnt w (fst (pick_device w cs (- 1, - 1))) \<le> existing_cnt w c)"
proof -
  from assms obtain c cs' where cs: "cs = c # cs'" by (cases cs) auto
  have eq: "pick_device w cs (- 1, - 1) = pick_device w cs' (c, existing_cnt w c)"
    by (simp add: cs)
  from pick_device_seeded [of "existing_cnt w c" w c cs']
  show ?thesis unfolding eq cs by (auto simp: Let_def)
qed

lemma existing_cnt_tenant_count: "existing_cnt w dev = int (tenant_count w dev)"
  by (simp add: existing_cnt_def tenant_count_def in_dict_map_of default_get_def
        split: option.splits)

lemma pick_device_first:
  "m0 = existing_cnt w d0 \<Longrightarrow>
   (fst (pick_device w cs (d0, m0)) = d0 \<and> (\<forall>c \<in> set cs. m0 \<le> existing_cnt w c))
   \<or> (\<exists>pre post. cs = pre @ fst (pick_device w cs (d0, m0)) # post
         \<and> (\<forall>c \<in> set pre. existing_cnt w (fst (pick_device w cs (d0, m0))) < existing_cnt w c)
         \<and> existing_cnt w (fst (pick_device w cs (d0, m0))) < m0)"
proof (induction cs arbitrary: d0 m0)
  case Nil
  then show ?case by simp
next
  case (Cons c cs)
  have nn: "0 \<le> existing_cnt w d0" by (rule existing_cnt_nonneg)
  show ?case
  proof (cases "existing_cnt w c < m0")
    case True
    let ?r = "fst (pick_device w cs (c, existing_cnt w c))"
    have eq: "pick_device w (c # cs) (d0, m0) = pick_device w cs (c, existing_cnt w c)"
      using True by simp
    from Cons.IH [OF refl, where ?d0.0 = c]
    have "(?r = c \<and> (\<forall>x \<in> set cs. existing_cnt w c \<le> existing_cnt w x))
        \<or> (\<exists>pre post. cs = pre @ ?r # post
              \<and> (\<forall>x \<in> set pre. existing_cnt w ?r < existing_cnt w x)
              \<and> existing_cnt w ?r < existing_cnt w c)" by simp
    then show ?thesis
    proof
      assume a: "?r = c \<and> (\<forall>x \<in> set cs. existing_cnt w c \<le> existing_cnt w x)"
      then have "c # cs = [] @ ?r # cs" by simp
      with a True show ?thesis unfolding eq by fastforce
    next
      assume "\<exists>pre post. cs = pre @ ?r # post
              \<and> (\<forall>x \<in> set pre. existing_cnt w ?r < existing_cnt w x)
              \<and> existing_cnt w ?r < existing_cnt w c"
      then obtain pre post where a: "cs = pre @ ?r # post"
          "\<forall>x \<in> set pre. existing_cnt w ?r < existing_cnt w x"
          "existing_cnt w ?r < existing_cnt w c" by blast
      have "c # cs = (c # pre) @ ?r # post" using a(1) by simp
      moreover have "\<forall>x \<in> set (c # pre). existing_cnt w ?r < existing_cnt w x"
        using a(2,3) by simp
      moreover have "existing_cnt w ?r < m0" using a(3) True by simp
      ultimately show ?thesis unfolding eq by blast
    qed
  next
    case False
    with Cons.prems nn have ne: "m0 \<noteq> - 1" by simp
    let ?r = "fst (pick_device w cs (d0, m0))"
    have eq: "pick_device w (c # cs) (d0, m0) = pick_device w cs (d0, m0)"
      using False ne by simp
    from Cons.IH [OF Cons.prems]
    have "(?r = d0 \<and> (\<forall>x \<in> set cs. m0 \<le> existing_cnt w x))
        \<or> (\<exists>pre post. cs = pre @ ?r # post
              \<and> (\<forall>x \<in> set pre. existing_cnt w ?r < existing_cnt w x)
              \<and> existing_cnt w ?r < m0)" .
    then show ?thesis
    proof
      assume "?r = d0 \<and> (\<forall>x \<in> set cs. m0 \<le> existing_cnt w x)"
      with False show ?thesis unfolding eq by auto
    next
      assume "\<exists>pre post. cs = pre @ ?r # post
              \<and> (\<forall>x \<in> set pre. existing_cnt w ?r < existing_cnt w x)
              \<and> existing_cnt w ?r < m0"
      then obtain pre post where a: "cs = pre @ ?r # post"
          "\<forall>x \<in> set pre. existing_cnt w ?r < existing_cnt w x"
          "existing_cnt w ?r < m0" by blast
      have "c # cs = (c # pre) @ ?r # post" using a(1) by simp
      moreover have "\<forall>x \<in> set (c # pre). existing_cnt w ?r < existing_cnt w x"
        using a(2,3) False by simp
      ultimately show ?thesis unfolding eq using a(3) by blast
    qed
  qed
qed

lemma pick_device_first_min:
  assumes "cs \<noteq> []"
  shows "\<exists>pre post. cs = pre @ fst (pick_device w cs (- 1, - 1)) # post
           \<and> (\<forall>c \<in> set pre. tenant_count w (fst (pick_device w cs (- 1, - 1))) < tenant_count w c)
           \<and> (\<forall>c \<in> set post. tenant_count w (fst (pick_device w cs (- 1, - 1))) \<le> tenant_count w c)"
proof -
  from assms obtain c cs' where cs: "cs = c # cs'" by (cases cs) auto
  let ?r = "fst (pick_device w cs (- 1, - 1))"
  have eq: "pick_device w cs (- 1, - 1) = pick_device w cs' (c, existing_cnt w c)"
    by (simp add: cs)
  have mn: "\<forall>x \<in> set cs. existing_cnt w ?r \<le> existing_cnt w x"
    using pick_device_min [OF assms, of w] by simp
  from pick_device_first [OF refl, where w = w and ?d0.0 = c and cs = cs']
  have "\<exists>pre post. cs = pre @ ?r # post
           \<and> (\<forall>x \<in> set pre. existing_cnt w ?r < existing_cnt w x)"
  proof
    assume "fst (pick_device w cs' (c, existing_cnt w c)) = c
          \<and> (\<forall>x \<in> set cs'. existing_cnt w c \<le> existing_cnt w x)"
    then have "cs = [] @ ?r # cs'" unfolding eq cs by simp
    then show ?thesis by fastforce
  next
    assume "\<exists>pre post. cs' = pre @ fst (pick_device w cs' (c, existing_cnt w c)) # post
         \<and> (\<forall>x \<in> set pre. existing_cnt w (fst (pick_device w cs' (c, existing_cnt w c)))
                < existing_cnt w x)
         \<and> existing_cnt w (fst (pick_device w cs' (c, existing_cnt w c))) < existing_cnt w c"
    then obtain pre post where a: "cs' = pre @ ?r # post"
          "\<forall>x \<in> set pre. existing_cnt w ?r < existing_cnt w x"
          "existing_cnt w ?r < existing_cnt w c" unfolding eq by blast
    have "cs = (c # pre) @ ?r # post" using a(1) cs by simp
    moreover have "\<forall>x \<in> set (c # pre). existing_cnt w ?r < existing_cnt w x"
      using a(2,3) by simp
    ultimately show ?thesis by blast
  qed
  then obtain pre post where p: "cs = pre @ ?r # post"
      "\<forall>x \<in> set pre. existing_cnt w ?r < existing_cnt w x" by blast
  have "\<forall>x \<in> set post. existing_cnt w ?r \<le> existing_cnt w x"
  proof
    fix x assume "x \<in> set post"
    then have "x \<in> set cs" by (subst p(1)) simp
    with mn show "existing_cnt w ?r \<le> existing_cnt w x" by simp
  qed
  with p show ?thesis by (simp add: existing_cnt_tenant_count) blast
qed

lemma embedding_candidates_iff:
  "dev \<in> set (embedding_candidates vllm w) \<longleftrightarrow>
     dev \<in> set (total_gpu_devices w) \<and>
     (\<forall>u. map_of (gpu_to_model_uid w) dev = Some u \<longrightarrow> \<not> vllm u) \<and>
     (\<forall>u t. (u, t) \<in> set (default_get (user_specified_gpu_to_model_uids w) dev) \<longrightarrow> \<not> vllm u)"
  apply (auto simp: embedding_candidates_def has_vllm_model_def in_dict_map_of default_get_def Let_def list_ex_iff split: option.splits)
  done








lemma default_get_default_add:
  "default_get (default_add k x d) k' =
     (if k' = k then List.insert x (default_get d k) else default_get d k')"
  by (simp add: default_get_def default_add_def update_conv')

lemma default_get_fold_add:
  "set (default_get (fold (\<lambda>idx d. default_add idx x d) idxs d) k) =
     (if k \<in> set idxs then insert x (set (default_get d k)) else set (default_get d k))"
  by (induction idxs arbitrary: d) (auto simp: default_get_default_add)

lemma allocate_pinned_records:
  assumes "set idxs \<subseteq> set (total_gpu_devices w)"
      "\<forall>idx \<in> set idxs. \<forall>rep. map_of (gpu_to_model_uid w) idx = Some rep \<longrightarrow> \<not> vllm rep"
  shows "\<exists>w'. allocate_devices_with_gpu_idx vllm w uid mtype idxs = Inr (sort idxs, w')
     \<and> (\<forall>idx \<in> set idxs. (uid, mtype) \<in> set (default_get (user_specified_gpu_to_model_uids w') idx))"
  using assms
  by (auto simp: allocate_devices_with_gpu_idx_def list_ex_iff default_get_fold_add split: option.splits)

lemma allocate_pinned_conflict:
  assumes "set idxs \<subseteq> set (total_gpu_devices w)"
      "idx \<in> set idxs" "map_of (gpu_to_model_uid w) idx = Some rep" "vllm rep"
  shows "allocate_devices_with_gpu_idx vllm w uid mtype idxs = Inl Conflict"
  using assms
  by (auto simp: allocate_devices_with_gpu_idx_def list_ex_iff split: option.splits)

lemma embedding_scenario:
  "\<exists>w'. allocate_devices_for_embedding (\<lambda>u. u = ''A'')
     ((init_worker [0, 1, 2])\<lparr>gpu_to_model_uid := [(0, ''A'')],
        gpu_to_embedding_model_uids := [(2, [''B''])]\<rparr>) ''X'' = Inr (1, w')"
  by (simp add: allocate_devices_for_embedding_def embedding_candidates_def has_vllm_model_def
       init_worker_def in_dict_def existing_cnt_def default_get_def Let_def)

lemma embedding_scenario_each_kind:
  "allocate_devices_for_embedding (\<lambda>u. False)
     ((init_worker [0, 1, 2, 3])\<lparr>gpu_to_model_uid := [(0, ''L'')],
        gpu_to_embedding_model_uids := [(1, [''E''])],
        user_specified_gpu_to_model_uids := [(2, [(''P'', ''rerank'')])]\<rparr>) ''X''
   = Inr (3, (init_worker [0, 1, 2, 3])\<lparr>gpu_to_model_uid := [(0, ''L'')],
        gpu_to_embedding_model_uids := [(1, [''E'']), (3, [''X''])],
        user_specified_gpu_to_model_uids := [(2, [(''P'', ''rerank'')])]\<rparr>)"
  by (simp add: allocate_devices_for_embedding_def embedding_candidates_def has_vllm_model_def
       init_worker_def in_dict_def existing_cnt_def default_get_def default_add_def Let_def)

lemma embedding_scenario_sizes:
  "allocate_devices_for_embedding (\<lambda>u. False)
     ((init_worker [0, 1])\<lparr>gpu_to_model_uid := [(1, ''L'')],
        gpu_to_embedding_model_uids := [(0, [''E1'', ''E2''])]\<rparr>) ''X''
   = Inr (1, (init_worker [0, 1])\<lparr>gpu_to_model_uid := [(1, ''L'')],
        gpu_to_embedding_model_uids := [(0, [''E1'', ''E2'']), (1, [''X''])]\<rparr>)"
  by (simp add: allocate_devices_for_embedding_def embedding_candidates_def has_vllm_model_def
       init_worker_def in_dict_def existing_cnt_def default_get_def default_add_def Let_def)

lemma release_devices_holds: "\<not> holds_device (release_devices w uid) uid"
  by (auto simp: holds_device_def release_devices_def)

text \<open>The allocators and the release keep the device tables well formed.\<close>

lemma keys_fold_update:
  "fst ` set (fold (\<lambda>dev g. AList.update dev uid g) ds g) = set ds \<union> fst ` set g"
  by (induction ds arbitrary: g) (auto simp: dom_update)

lemma keys_fold_default_add:
  "fst ` set (fold (\<lambda>idx d. default_add idx x d) idxs d) = set idxs \<union> fst ` set d"
  by (induction idxs arbitrary: d) (auto simp: default_add_def dom_update)

lemma wf_devices_init: "distinct gpu_devices \<Longrightarrow> wf_devices (init_worker gpu_devices)"
  by (simp add: wf_devices_def init_worker_def)

lemma wf_devices_exclusive:
  assumes "wf_devices w" "allocate_devices w uid n = Inr (ds, w')"
  shows "wf_devices w'"
proof -
  let ?ds = "py_slice_to n (free_devices w)"
  have w': "w' = w\<lparr>gpu_to_model_uid :=
                    fold (\<lambda>dev g. AList.update dev uid g) ?ds (gpu_to_model_uid w)\<rparr>"
    using assms(2) by (simp add: allocate_devices_def Let_def split: if_splits)
  have "set ?ds \<subseteq> set (total_gpu_devices w)"
    by (auto simp: py_slice_to_def free_devices_def dest: in_set_takeD)
  then show ?thesis
    unfolding w' using assms(1) by (simp add: wf_devices_def keys_fold_update)
qed

lemma wf_devices_pinned:
  assumes "wf_devices w" "allocate_devices_with_gpu_idx vllm w uid mtype idxs = Inr (ds, w')"
  shows "wf_devices w'"
proof -
  have w': "w' = w\<lparr>user_specified_gpu_to_model_uids :=
                    fold (\<lambda>idx d. default_add idx (uid, mtype) d) idxs
                      (user_specified_gpu_to_model_uids w)\<rparr>"
    and sub: "set idxs \<subseteq> set (total_gpu_devices w)"
    using assms(2) by (simp_all add: allocate_devices_with_gpu_idx_def split: if_splits)
  show ?thesis
    unfolding w' using assms(1) sub by (simp add: wf_devices_def keys_fold_default_add)
qed

lemma wf_devices_embedding:
  assumes "wf_devices w" "allocate_devices_for_embedding vllm w uid = Inr (d, w')"
  shows "wf_devices w'"
proof -
  have "\<exists>x. w' = w\<lparr>gpu_to_embedding_model_uids := x\<rparr>"
    using assms(2) by (auto simp: allocate_devices_for_embedding_def Let_def split: if_splits)
  then obtain x where w': "w' = w\<lparr>gpu_to_embedding_model_uids := x\<rparr>" by blast
  show ?thesis unfolding w' using assms(1) by (simp add: wf_devices_def)
qed

lemma wf_devices_release:
  assumes "wf_devices w"
  shows "wf_devices (release_devices w uid)"
proof -
  have "fst ` set (filter (\<lambda>(dev, u). u \<noteq> uid) (gpu_to_model_uid w))
          \<subseteq> fst ` set (gpu_to_model_uid w)"
    by auto
  moreover have "map fst (map (\<lambda>(dev, s). (dev, filter (\<lambda>x. fst x \<noteq> uid) s))
                   (user_specified_gpu_to_model_uids w))
                 = map fst (user_specified_gpu_to_model_uids w)"
    by (simp add: case_prod_beta)
  then have "fst ` set (map (\<lambda>(dev, s). (dev, filter (\<lambda>x. fst x \<noteq> uid) s))
                   (user_specified_gpu_to_model_uids w))
                 = fst ` set (user_specified_gpu_to_model_uids w)"
    by (metis set_map)
  ultimately show ?thesis
    using assms unfolding wf_devices_def release_devices_def
    by (simp del: set_map add: set_map [symmetric]) (simp, blast)
qed

section \<open>Lemmas on \<open>terminate_model\<close>\<close>

lemma get_supervisor_ref_fields [simp]:
  "model_uid_launching_guard (fst (get_supervisor_ref c w)) = model_uid_launching_guard w"
  "model_uid_to_model (fst (get_supervisor_ref c w)) = model_uid_to_model w"
  "model_uid_to_model_spec (fst (get_supervisor_ref c w)) = model_uid_to_model_spec w"
  "model_uid_to_model_status (fst (get_supervisor_ref c w)) = model_uid_to_model_status w"
  "model_uid_to_addr (fst (get_supervisor_ref c w)) = model_uid_to_addr w"
  "model_uid_to_recover_count (fst (get_supervisor_ref c w)) = model_uid_to_recover_count w"
  "model_uid_to_launch_args (fst (get_supervisor_ref c w)) = model_uid_to_launch_args w"
  "gpu_to_model_uid (fst (get_supervisor_ref c w)) = gpu_to_model_uid w"
  "gpu_to_embedding_model_uids (fst (get_supervisor_ref c w)) = gpu_to_embedding_model_uids w"
  "user_specified_gpu_to_model_uids (fst (get_supervisor_ref c w)) = user_specified_gpu_to_model_uids w"
  "main_pool (fst (get_supervisor_ref c w)) = main_pool w"
  "status_guard (fst (get_supervisor_ref c w)) = status_guard w"
  "total_gpu_devices (fst (get_supervisor_ref c w)) = total_gpu_devices w"
  by (cases c; simp add: get_supervisor_ref_def)+

lemma release_devices_id:
  assumes "\<not> holds_device w uid"
  shows "release_devices w uid = w"
proof -
  have a: "filter (\<lambda>(dev, u). u \<noteq> uid) (gpu_to_model_uid w) = gpu_to_model_uid w"
    using assms by (auto simp: holds_device_def filter_id_conv image_iff)
  have b: "map (\<lambda>(dev, s). (dev, removeAll uid s)) (gpu_to_embedding_model_uids w)
             = gpu_to_embedding_model_uids w"
    using assms by (intro map_idI) (auto simp: holds_device_def)
  have c: "map (\<lambda>(dev, s). (dev, filter (\<lambda>x. fst x \<noteq> uid) s))
             (user_specified_gpu_to_model_uids w) = user_specified_gpu_to_model_uids w"
    using assms by (intro map_idI) (force simp: holds_device_def filter_id_conv image_iff)
  show ?thesis by (simp add: release_devices_def a b c)
qed

lemma delete_absent: "\<not> in_dict k d \<Longrightarrow> AList.delete k d = d"
  by (simp add: in_dict_def)

lemma terminate_cleanup_absent: "uid_absent (terminate_cleanup w uid d) uid"
  using release_devices_holds [of "w\<lparr>model_uid_to_model := AList.delete uid (model_uid_to_model w),
                    model_uid_to_model_spec := AList.delete uid (model_uid_to_model_spec w)\<rparr>" uid]
  by (simp add: uid_absent_def terminate_cleanup_def Let_def holds_device_def release_devices_def)

lemma terminate_cleanup_frame [simp]:
  "status_guard (terminate_cleanup w uid d) = status_guard w"
  "status_guard_ref (terminate_cleanup w uid d) = status_guard_ref w"
  "supervisor_ref (terminate_cleanup w uid d) = supervisor_ref w"
  "model_uid_launching_guard (terminate_cleanup w uid d) = model_uid_launching_guard w"
  "main_pool (terminate_cleanup w uid d) = main_pool w"
  "total_gpu_devices (terminate_cleanup w uid d) = total_gpu_devices w"
  by (simp_all add: terminate_cleanup_def Let_def release_devices_def)

lemma terminate_remove_pools_frame:
  "terminate_remove_pools env w uid =
     w\<lparr>main_pool := main_pool (terminate_remove_pools env w uid)\<rparr>"
  by (simp add: terminate_remove_pools_def remove_sub_pools_def split: option.splits)

lemma terminate_remove_pools_fields [simp]:
  "status_guard_ref (terminate_remove_pools env w uid) = status_guard_ref w"
  "supervisor_ref (terminate_remove_pools env w uid) = supervisor_ref w"
  "status_guard (terminate_remove_pools env w uid) = status_guard w"
  "model_uid_launching_guard (terminate_remove_pools env w uid) = model_uid_launching_guard w"
  "model_uid_to_model (terminate_remove_pools env w uid) = model_uid_to_model w"
  "model_uid_to_addr (terminate_remove_pools env w uid) = model_uid_to_addr w"
  "model_uid_to_recover_count (terminate_remove_pools env w uid) = model_uid_to_recover_count w"
  "model_uid_to_launch_args (terminate_remove_pools env w uid) = model_uid_to_launch_args w"
  by (simp_all add: terminate_remove_pools_def remove_sub_pools_def split: option.splits)

lemma uid_absent_frame:
  "uid_absent w uid \<Longrightarrow> uid_absent (w\<lparr>status_guard := s\<rparr>) uid"
  "uid_absent w uid \<Longrightarrow> uid_absent (w\<lparr>supervisor_ref := a, status_guard_ref := b\<rparr>) uid"
  by (simp_all add: uid_absent_def holds_device_def)

lemma terminate_model_ok:
  assumes ng: "\<not> in_dict uid (model_uid_launching_guard w)"
      and po: "origin_of cfg uid = Inr origin_uid"
      and sg: "status_guard_ref (fst (get_supervisor_ref (t_connect env) w))"
      and ok: "t_terminating_ok env" "t_terminal_ok env"
  shows "\<exists>w'. terminate_model cfg env w uid die = (w', Inr ())
           \<and> status_guard w' = status_guard w @
                [(origin_uid, TERMINATING), (origin_uid, if die then ERROR else TERMINATED)]
           \<and> uid_absent w' uid
           \<and> status_guard_ref w'
           \<and> model_uid_launching_guard w' = model_uid_launching_guard w"
proof -
  obtain a b where w1: "fst (get_supervisor_ref (t_connect env) w) = w\<lparr>supervisor_ref := a, status_guard_ref := b\<rparr>"
    using get_supervisor_ref_frame [of "t_connect env" w] by blast
  with sg have b: b by simp
  let ?w2 = "w\<lparr>supervisor_ref := a, status_guard_ref := True, status_guard := status_guard w @ [(origin_uid, TERMINATING)]\<rparr>"
  obtain p where rp: "terminate_remove_pools env ?w2 uid = ?w2\<lparr>main_pool := p\<rparr>"
    using terminate_remove_pools_frame [of env ?w2 uid] by blast
  let ?w3 = "terminate_cleanup (?w2\<lparr>main_pool := p\<rparr>) uid die"
  let ?st = "if die then ERROR else TERMINATED"
  have t: "terminate_model cfg env w uid die = (?w3\<lparr>status_guard := status_guard ?w3 @ [(origin_uid, ?st)]\<rparr>, Inr ())"
    using ng po ok b
    by (simp add: terminate_model_def w1 Let_def update_instance_info_def rp push_terminal_def)
  have abs: "uid_absent (?w3\<lparr>status_guard := status_guard ?w3 @ [(origin_uid, ?st)]\<rparr>) uid"
    by (rule uid_absent_frame) (rule terminate_cleanup_absent)
  show ?thesis unfolding t using abs by simp
qed

lemma terminate_absent_noop:
  assumes "uid_absent w uid"
  shows "terminate_cleanup (terminate_remove_pools env w uid) uid die =
           w\<lparr>model_uid_to_model_status :=
               (if die then model_uid_to_model_status w
                else AList.delete uid (model_uid_to_model_status w))\<rparr>"
proof -
  have na: "map_of (model_uid_to_addr w) uid = None"
    using assms by (simp add: uid_absent_def in_dict_map_of)
  then have rp: "terminate_remove_pools env w uid = w"
    by (simp add: terminate_remove_pools_def)
  let ?w0 = "w\<lparr>model_uid_to_model := AList.delete uid (model_uid_to_model w),
               model_uid_to_model_spec := AList.delete uid (model_uid_to_model_spec w)\<rparr>"
  have w0: "?w0 = w" using assms by (simp add: uid_absent_def delete_absent)
  have rel: "release_devices w uid = w"
    using assms by (simp add: uid_absent_def release_devices_id)
  show ?thesis
    using assms
    by (simp add: rp terminate_cleanup_def Let_def w0 rel uid_absent_def delete_absent)
qed

lemma terminate_model_twice:
  assumes "\<not> in_dict uid (model_uid_launching_guard w)"
      and "origin_of cfg uid = Inr origin_uid"
      and "status_guard_ref (fst (get_supervisor_ref (t_connect env) w))"
      and "t_terminating_ok env" and "t_terminal_ok env"
      and "t_terminating_ok env2" and "t_terminal_ok env2"
  shows "\<exists>w' w''.
           terminate_model cfg env w uid die = (w', Inr ())
         \<and> status_guard w' = status_guard w @
              [(origin_uid, TERMINATING), (origin_uid, if die then ERROR else TERMINATED)]
         \<and> uid_absent w' uid
         \<and> terminate_model cfg env2 w' uid die2 = (w'', Inr ())
         \<and> status_guard w'' = status_guard w' @
              [(origin_uid, TERMINATING), (origin_uid, if die2 then ERROR else TERMINATED)]
         \<and> uid_absent w'' uid
         \<and> model_uid_to_model w'' = model_uid_to_model w'
         \<and> model_uid_to_model_spec w'' = model_uid_to_model_spec w'
         \<and> model_uid_to_addr w'' = model_uid_to_addr w'
         \<and> model_uid_to_recover_count w'' = model_uid_to_recover_count w'
         \<and> model_uid_to_launch_args w'' = model_uid_to_launch_args w'
         \<and> gpu_to_model_uid w'' = gpu_to_model_uid w'
         \<and> gpu_to_embedding_model_uids w'' = gpu_to_embedding_model_uids w'
         \<and> user_specified_gpu_to_model_uids w'' = user_specified_gpu_to_model_uids w'
         \<and> main_pool w'' = main_pool w'"
proof -
  from terminate_model_ok [OF assms(1-5), of die]
  obtain w' where 1: "terminate_model cfg env w uid die = (w', Inr ())"
      "status_guard w' = status_guard w @
              [(origin_uid, TERMINATING), (origin_uid, if die then ERROR else TERMINATED)]"
      "uid_absent w' uid" "status_guard_ref w'"
      "model_uid_launching_guard w' = model_uid_launching_guard w"
    by blast
  have g: "\<not> in_dict uid (model_uid_launching_guard w')" using 1(5) assms(1) by simp
  have "fst (get_supervisor_ref (t_connect env2) w') =
       w'\<lparr>supervisor_ref := supervisor_ref (fst (get_supervisor_ref (t_connect env2) w'))\<rparr>"
    using 1(4) by (cases "t_connect env2") (simp_all add: get_supervisor_ref_def)
  then obtain a where eq: "fst (get_supervisor_ref (t_connect env2) w') = w'\<lparr>supervisor_ref := a\<rparr>"
    by blast
  let ?w2 = "w'\<lparr>supervisor_ref := a,
                status_guard := status_guard w' @ [(origin_uid, TERMINATING)]\<rparr>"
  have abs2: "uid_absent ?w2 uid"
    using 1(3) by (simp add: uid_absent_def holds_device_def)
  let ?w3 = "?w2\<lparr>model_uid_to_model_status :=
               (if die2 then model_uid_to_model_status ?w2
                else AList.delete uid (model_uid_to_model_status ?w2))\<rparr>"
  let ?st = "if die2 then ERROR else TERMINATED"
  have t2: "terminate_model cfg env2 w' uid die2 =
              (?w3\<lparr>status_guard := status_guard ?w3 @ [(origin_uid, ?st)]\<rparr>, Inr ())"
    using g assms(2,6,7) 1(4)
    by (simp add: terminate_model_def Let_def eq update_instance_info_def
          terminate_absent_noop [OF abs2] push_terminal_def)
  have abs3: "uid_absent (?w3\<lparr>status_guard := status_guard ?w3 @ [(origin_uid, ?st)]\<rparr>) uid"
    using 1(3) by (simp add: uid_absent_def holds_device_def)
  show ?thesis
    apply (rule exI [of _ w'])
    apply (rule exI [of _ "?w3\<lparr>status_guard := status_guard ?w3 @ [(origin_uid, ?st)]\<rparr>"])
    using 1 t2 abs3 apply simp
    done
qed

lemma terminate_model_reconnect:
  assumes ng: "\<not> in_dict uid (model_uid_launching_guard w)"
      and po: "origin_of cfg uid = Inr origin_uid"
      and ns: "\<not> supervisor_ref w" "\<not> status_guard_ref w"
      and c: "t_connect env = Refused" "t_reconnect env = Connected"
      and ok: "t_terminal_ok env"
  shows "\<exists>w'. terminate_model cfg env w uid die = (w', Inr ())
           \<and> status_guard w' = status_guard w @
                [(origin_uid, if die then ERROR else TERMINATED)]
           \<and> uid_absent w' uid
           \<and> status_guard_ref w'
           \<and> model_uid_launching_guard w' = model_uid_launching_guard w"
proof -
  have w1: "fst (get_supervisor_ref (t_connect env) w) = w"
    using ns c by (simp add: get_supervisor_ref_def)
  let ?w3 = "terminate_cleanup (terminate_remove_pools env w uid) uid die"
  let ?st = "if die then ERROR else TERMINATED"
  let ?w4 = "?w3\<lparr>supervisor_ref := True, status_guard_ref := True\<rparr>"
  have t: "terminate_model cfg env w uid die
             = (?w4\<lparr>status_guard := status_guard ?w4 @ [(origin_uid, ?st)]\<rparr>, Inr ())"
    using ng po ok ns c
    by (simp add: terminate_model_def w1 Let_def update_instance_info_def push_terminal_def
          get_supervisor_ref_def)
  have abs: "uid_absent (?w4\<lparr>status_guard := status_guard ?w4 @ [(origin_uid, ?st)]\<rparr>) uid"
    by (rule uid_absent_frame(1), rule uid_absent_frame(2)) (rule terminate_cleanup_absent)
  show ?thesis unfolding t using abs by simp
qed
section \<open>Lemmas on launching and recovery\<close>


lemma find_update_fresh:
  assumes "\<forall>(u, x) \<in> set al. x \<noteq> a"
  shows "find (\<lambda>(u, x). x = a) (AList.update k a al) = Some (k, a)"
  using assms by (induction al) auto

lemma launch_extra_pool_failure_leaks_pools:
  "launch_builtin_model example_config
     (example_launch_env\<lparr>l_need_create_pools := Inr True,
        l_extra_pool := (\<lambda>i. if i = 0 then Inr ''addr-2'' else Inl Downstream)\<rparr>)
     (init_worker [0, 1]) (example_launch_args\<lparr>n_gpu := Some (NInt 2)\<rparr>)
   = ((init_worker [0, 1])\<lparr>supervisor_ref := True, status_guard_ref := True,
        main_pool := [''addr-2'']\<rparr>, Inl Downstream)"
  by (simp add: launch_builtin_model_def example_config_def example_launch_env_def
        example_launch_args_def init_worker_def get_supervisor_ref_def pre_validate_def
        n_gpu_rejected_def in_dict_def get_model_launch_status_def launch_pipeline_def
        create_subpool_def create_subpool_devices_def coerce_gpu_idx_def
        allocate_devices_def free_devices_def user_specified_allocated_devices_def
        py_slice_to_def leave_guard_def append_sub_pool_def launch_body_def
        launch_extra_pools_def release_devices_def remove_sub_pools_def upt_rec Let_def)

section \<open>Frame lemmas: what each step leaves alone\<close>

lemma same_tables_refl [simp]: "same_tables w w"
  by (simp add: same_tables_def)

lemma same_tables_trans: "same_tables w v \<Longrightarrow> same_tables v u \<Longrightarrow> same_tables w u"
  by (simp add: same_tables_def)

lemma same_tables_connect [simp]: "same_tables w (fst (get_supervisor_ref c w))"
  by (simp add: same_tables_def)

lemma same_tables_release [simp]: "same_tables w (release_devices w uid)"
  by (simp add: same_tables_def release_devices_def)

lemma same_tables_remove [simp]: "same_tables w (remove_sub_pools addrs w)"
  by (simp add: same_tables_def remove_sub_pools_def)

lemma same_tables_append [simp]: "same_tables w (append_sub_pool a w)"
  by (simp add: same_tables_def append_sub_pool_def)

lemma same_tables_fold_append [simp]: "same_tables w (fold append_sub_pool addrs w)"
proof (induction addrs arbitrary: w)
  case Nil
  show ?case by simp
next
  case (Cons a addrs)
  have "same_tables w (append_sub_pool a w)" by simp
  moreover have "same_tables (append_sub_pool a w) (fold append_sub_pool addrs (append_sub_pool a w))"
    by (rule Cons.IH)
  ultimately show ?case by (simp add: same_tables_def)
qed

lemma same_tables_update_instance_info [simp]:
  "same_tables w (fst (update_instance_info ok w origin_uid st))"
  by (simp add: same_tables_def update_instance_info_def)

lemma same_tables_embedding:
  "allocate_devices_for_embedding vllm w uid = Inr (d, w') \<Longrightarrow> same_tables w w'"
  by (auto simp: allocate_devices_for_embedding_def Let_def same_tables_def split: if_splits)

lemma same_tables_exclusive:
  "allocate_devices w uid n = Inr (ds, w') \<Longrightarrow> same_tables w w'"
  by (auto simp: allocate_devices_def Let_def same_tables_def split: if_splits)

lemma same_tables_pinned:
  "allocate_devices_with_gpu_idx vllm w uid mtype idxs = Inr (ds, w') \<Longrightarrow> same_tables w w'"
  by (auto simp: allocate_devices_with_gpu_idx_def same_tables_def split: if_splits)

lemma same_tables_embedding_list:
  "map_sum id (\<lambda>(d, w'). ([d], w')) (allocate_devices_for_embedding vllm w uid) = Inr (ds, w')
     \<Longrightarrow> same_tables w w'"
  by (cases "allocate_devices_for_embedding vllm w uid")
     (auto dest: same_tables_embedding)

lemma same_tables_subpool_devices:
  assumes "create_subpool_devices cfg env w uid mtype n idxs = Inr (ds, w')"
  shows "same_tables w w'"
proof (cases idxs)
  case (Some gpu_idxs)
  with assms show ?thesis
    by (simp add: create_subpool_devices_def) (rule same_tables_pinned)
next
  case None
  note idx = None
  show ?thesis
  proof (cases n)
    case None
    with assms idx show ?thesis by (simp add: create_subpool_devices_def)
  next
    case (Some m)
    show ?thesis
    proof (cases m)
      case (NInt k)
      with assms idx Some show ?thesis
        by (simp add: create_subpool_devices_def split: if_splits)
           (erule same_tables_embedding_list same_tables_exclusive)+
    next
      case (NStr str)
      with assms idx Some show ?thesis
        by (simp add: create_subpool_devices_def split: if_splits)
           (erule same_tables_embedding_list same_tables_exclusive)+
    qed
  qed
qed

lemma same_tables_create_subpool [simp]:
  "same_tables w (fst (create_subpool cfg env w uid mtype n idxs))"
proof (cases "create_subpool_devices cfg env w uid mtype n idxs")
  case (Inl e)
  then show ?thesis by (simp add: create_subpool_def)
next
  case (Inr p)
  obtain ds w' where p: "p = (ds, w')" by (cases p)
  from Inr p have st: "same_tables w w'" by (auto dest: same_tables_subpool_devices)
  show ?thesis
  proof (cases "l_subpool env")
    case (Inl e)
    with Inr p st show ?thesis by (simp add: create_subpool_def)
  next
    case (Inr a)
    have "same_tables w' (append_sub_pool a w')" by simp
    with st have "same_tables w (append_sub_pool a w')" by (rule same_tables_trans)
    with \<open>create_subpool_devices cfg env w uid mtype n idxs = Inr p\<close> p Inr
    show ?thesis by (simp add: create_subpool_def)
  qed
qed

lemma same_tables_bind:
  assumes "same_tables w (fst p)"
      and "\<And>x. same_tables (fst p) (fst (f (fst p) x))"
  shows "same_tables w (fst (case p of (w1, Inl e) \<Rightarrow> (w1, Inl e) | (w1, Inr x) \<Rightarrow> f w1 x))"
proof (cases p)
  case (Pair w1 r)
  show ?thesis
  proof (cases r)
    case (Inl e)
    with Pair assms(1) show ?thesis by simp
  next
    case (Inr x)
    with Pair assms(1) assms(2) [of x] show ?thesis
      by (auto intro: same_tables_trans)
  qed
qed

lemma same_tables_after_commit [simp]:
  "same_tables w (fst (after_commit env w args origin_uid a))"
proof (cases "model_type args \<notin> set [''embedding'', ''rerank'', ''image'', ''audio'', ''video'',
                                 ''flexible'', ''LLM'']")
  case True
  then show ?thesis by (simp add: after_commit_def)
next
  case False
  have inner: "same_tables v
         (fst (case (if status_guard_ref v then (v, Inr ())
                 else get_supervisor_ref (l_reconnect env) v) of
             (w2, Inl e) \<Rightarrow> (w2, Inl e)
           | (w2, Inr _) \<Rightarrow>
               if \<not> status_guard_ref w2 then (w2, Inl AssertionError)
               else (case update_instance_info (l_ready_ok env) w2 origin_uid READY of
                       (w3, Inl e) \<Rightarrow> (w3, Inl e)
                     | (w3, Inr _) \<Rightarrow> (w3, Inr a))))" for v
  proof (rule same_tables_bind)
    show "same_tables v (fst (if status_guard_ref v then (v, Inr ())
                 else get_supervisor_ref (l_reconnect env) v))"
      by simp
  next
    fix x
    let ?v = "fst (if status_guard_ref v then (v, Inr ())
                 else get_supervisor_ref (l_reconnect env) v)"
    have "same_tables ?v (fst (case update_instance_info (l_ready_ok env) ?v origin_uid READY of
                       (w3, Inl e) \<Rightarrow> (w3, Inl e)
                     | (w3, Inr _) \<Rightarrow> (w3, Inr a)))"
      by (rule same_tables_bind) simp_all
    then show "same_tables ?v (fst (if \<not> status_guard_ref ?v then (?v, Inl AssertionError)
               else (case update_instance_info (l_ready_ok env) ?v origin_uid READY of
                       (w3, Inl e) \<Rightarrow> (w3, Inl e)
                     | (w3, Inr _) \<Rightarrow> (w3, Inr a))))"
      by simp
  qed
  have "same_tables w (fst (case get_supervisor_ref (l_reconnect env) w of
        (w1, Inl e) \<Rightarrow> (w1, Inl e)
      | (w1, Inr _) \<Rightarrow>
          (case (if status_guard_ref w1 then (w1, Inr ())
                 else get_supervisor_ref (l_reconnect env) w1) of
             (w2, Inl e) \<Rightarrow> (w2, Inl e)
           | (w2, Inr _) \<Rightarrow>
               if \<not> status_guard_ref w2 then (w2, Inl AssertionError)
               else (case update_instance_info (l_ready_ok env) w2 origin_uid READY of
                       (w3, Inl e) \<Rightarrow> (w3, Inl e)
                     | (w3, Inr _) \<Rightarrow> (w3, Inr a)))))"
    by (rule same_tables_bind) (simp, rule inner)
  with False show ?thesis unfolding after_commit_def by simp
qed

lemma same_tables_sym: "same_tables w v \<Longrightarrow> same_tables v w"
  by (simp add: same_tables_def)

lemma same_tables_commit:
  "same_tables w v \<Longrightarrow> same_tables (commit cfg w args a d) (commit cfg v args a d)"
  by (simp add: same_tables_def commit_def)

lemma same_tables_cleanup:
  "same_tables w v \<Longrightarrow> same_tables (terminate_cleanup w uid die) (terminate_cleanup v uid die)"
  by (simp add: same_tables_def terminate_cleanup_def Let_def release_devices_def)

lemma same_tables_terminate_remove_pools [simp]:
  "same_tables w (terminate_remove_pools env w uid)"
  by (simp add: terminate_remove_pools_def split: option.splits)

lemma same_tables_push_terminal [simp]:
  "same_tables w (fst (push_terminal env w origin_uid st))"
proof -
  have "same_tables w (fst (case (if status_guard_ref w then (w, Inr ())
            else get_supervisor_ref (t_reconnect env) w) of
        (w1, Inl e) \<Rightarrow> (w1, Inl e)
      | (w1, Inr _) \<Rightarrow>
          if \<not> status_guard_ref w1 then (w1, Inl AssertionError)
          else update_instance_info (t_terminal_ok env) w1 origin_uid st))"
    by (rule same_tables_bind) simp_all
  then show ?thesis by (simp add: push_terminal_def)
qed

lemma terminate_model_effect:
  "same_tables w (fst (terminate_model cfg env w uid die))
   \<or> same_tables (terminate_cleanup w uid die) (fst (terminate_model cfg env w uid die))"
proof (cases "in_dict uid (model_uid_launching_guard w)")
  case True
  then show ?thesis by (simp add: terminate_model_def)
next
  case ng: False
  show ?thesis
  proof (cases "origin_of cfg uid")
    case (Inl e)
    with ng show ?thesis by (simp add: terminate_model_def)
  next
    case (Inr origin_uid)
    let ?w1 = "fst (get_supervisor_ref (t_connect env) w)"
    let ?p = "if status_guard_ref ?w1
                 then update_instance_info (t_terminating_ok env) ?w1 origin_uid TERMINATING
                 else (?w1, Inr ())"
    obtain w2 r2 where p: "?p = (w2, r2)" by (cases ?p)
    have "same_tables ?w1 (fst ?p)" by simp
    then have "same_tables ?w1 w2" unfolding p by simp
    with same_tables_connect [of w "t_connect env"] have s2: "same_tables w w2"
      by (rule same_tables_trans)
    have t: "terminate_model cfg env w uid die =
        (case r2 of Inl e \<Rightarrow> (w2, Inl e)
         | Inr _ \<Rightarrow> push_terminal env
                 (terminate_cleanup (terminate_remove_pools env w2 uid) uid die)
                 origin_uid (if die then ERROR else TERMINATED))"
      using ng Inr p by (simp add: terminate_model_def Let_def)
    show ?thesis
    proof (cases r2)
      case (Inl e)
      with t s2 show ?thesis by simp
    next
      case (Inr x)
      have "same_tables w (terminate_remove_pools env w2 uid)"
        using s2 same_tables_terminate_remove_pools [of w2 env uid]
        by (rule same_tables_trans)
      then have "same_tables (terminate_cleanup w uid die)
                   (terminate_cleanup (terminate_remove_pools env w2 uid) uid die)"
        by (rule same_tables_cleanup)
      then have "same_tables (terminate_cleanup w uid die)
                   (fst (push_terminal env
                      (terminate_cleanup (terminate_remove_pools env w2 uid) uid die)
                      origin_uid (if die then ERROR else TERMINATED)))"
        using same_tables_push_terminal by (rule same_tables_trans)
      with t Inr show ?thesis by simp
    qed
  qed
qed

lemma pre_validate_None:
  "pre_validate cfg env w args = None \<Longrightarrow>
     \<not> in_dict (model_uid args) (model_uid_to_model w)
   \<and> \<not> in_dict (model_uid args) (model_uid_launching_guard w)"
  by (simp add: pre_validate_def get_model_launch_status_def split: if_splits)

lemma launch_pipeline_effect:
  assumes ng: "\<not> in_dict (model_uid args) (model_uid_launching_guard w)"
  shows "same_tables w (fst (launch_pipeline cfg env w args origin_uid))
       \<or> (\<exists>a d. same_tables (commit cfg w args a d)
                   (fst (launch_pipeline cfg env w args origin_uid)))"
proof -
  let ?uid = "model_uid args"
  let ?w1 = "w\<lparr>model_uid_launching_guard :=
                   AList.update ?uid LaunchInfo (model_uid_launching_guard w)\<rparr>"
  have g1: "AList.delete ?uid (model_uid_launching_guard ?w1) = model_uid_launching_guard w"
    using ng by (simp add: delete_update_same delete_absent)
  have key: "same_tables w (leave_guard X ?uid)" if "same_tables ?w1 X" for X
    using that g1 by (simp add: same_tables_def leave_guard_def)
  have key2: "same_tables (commit cfg w args a d) (leave_guard (commit cfg X args a d) ?uid)"
    if "same_tables ?w1 X" for X a d
    using that g1 by (simp add: same_tables_def leave_guard_def commit_def)
  show ?thesis
  proof (cases "l_venv env")
    case (Inl e)
    then have "fst (launch_pipeline cfg env w args origin_uid) = leave_guard ?w1 ?uid"
      by (simp add: launch_pipeline_def Let_def)
    with key [of ?w1] show ?thesis by simp
  next
    case (Inr venv)
    let ?cs = "create_subpool cfg env ?w1 ?uid (model_type args) (n_gpu args)
                     (coerce_gpu_idx (gpu_idx args))"
    obtain w2 r2 where cs: "?cs = (w2, r2)" by (cases ?cs)
    have s2: "same_tables ?w1 w2"
      using same_tables_create_subpool [of ?w1 cfg env ?uid "model_type args" "n_gpu args"
          "coerce_gpu_idx (gpu_idx args)"] cs by simp
    show ?thesis
    proof (cases r2)
      case (Inl e)
      with Inr cs have "fst (launch_pipeline cfg env w args origin_uid) = leave_guard w2 ?uid"
        by (simp add: launch_pipeline_def Let_def)
      with key [OF s2] show ?thesis by simp
    next
      case r2: (Inr p)
      obtain a devices where p: "p = (a, devices)" by (cases p)
      obtain created alls res where lb: "launch_body env args venv a devices = (created, alls, res)"
        by (cases "launch_body env args venv a devices")
      let ?w3 = "fold append_sub_pool created w2"
      have s3: "same_tables ?w1 ?w3"
        using s2 same_tables_fold_append by (rule same_tables_trans)
      show ?thesis
      proof (cases res)
        case (Inl e)
        let ?X = "remove_sub_pools alls (release_devices ?w3 ?uid)"
        have "same_tables ?w3 ?X"
          using same_tables_release same_tables_remove by (rule same_tables_trans)
        with s3 have sx: "same_tables ?w1 ?X" by (rule same_tables_trans)
        have "fst (launch_pipeline cfg env w args origin_uid) = leave_guard ?X ?uid"
          using Inr cs r2 p lb Inl by (simp add: launch_pipeline_def Let_def)
        with key [OF sx] show ?thesis by simp
      next
        case res: (Inr d)
        let ?Y = "leave_guard (commit cfg ?w3 args a d) ?uid"
        have "fst (launch_pipeline cfg env w args origin_uid)
                = fst (after_commit env ?Y args origin_uid a)"
          using Inr cs r2 p lb res by (simp add: launch_pipeline_def Let_def)
        moreover have "same_tables (commit cfg w args a d) (fst (after_commit env ?Y args origin_uid a))"
          using key2 [OF s3] same_tables_after_commit by (rule same_tables_trans)
        ultimately show ?thesis by auto
      qed
    qed
  qed
qed

lemma launch_builtin_model_effect:
  "same_tables w (fst (launch_builtin_model cfg env w args))
   \<or> (\<not> in_dict (model_uid args) (model_uid_launching_guard w)
      \<and> \<not> in_dict (model_uid args) (model_uid_to_model w)
      \<and> (\<exists>a d. same_tables (commit cfg w args a d) (fst (launch_builtin_model cfg env w args))))"
proof (cases "parse_replica_model_uid cfg (model_uid args)")
  case (Inl e)
  then show ?thesis by (simp add: launch_builtin_model_def)
next
  case (Inr origin_uid)
  let ?w0 = "fst (get_supervisor_ref (l_connect env) w)"
  have s0: "same_tables w ?w0" by simp
  show ?thesis
  proof (cases "pre_validate cfg env ?w0 args")
    case (Some e)
    with Inr s0 show ?thesis by (simp add: launch_builtin_model_def Let_def)
  next
    case None
    from pre_validate_None [OF None]
    have n: "\<not> in_dict (model_uid args) (model_uid_to_model w)"
            "\<not> in_dict (model_uid args) (model_uid_launching_guard w)" by simp_all
    then have ng0: "\<not> in_dict (model_uid args) (model_uid_launching_guard ?w0)" by simp
    have l: "launch_builtin_model cfg env w args = launch_pipeline cfg env ?w0 args origin_uid"
      using Inr None by (simp add: launch_builtin_model_def Let_def)
    from launch_pipeline_effect [OF ng0, of cfg env origin_uid]
    show ?thesis
    proof
      assume "same_tables ?w0 (fst (launch_pipeline cfg env ?w0 args origin_uid))"
      with s0 have "same_tables w (fst (launch_pipeline cfg env ?w0 args origin_uid))"
        by (rule same_tables_trans)
      with l show ?thesis by simp
    next
      assume "\<exists>a d. same_tables (commit cfg ?w0 args a d)
                   (fst (launch_pipeline cfg env ?w0 args origin_uid))"
      then obtain a d where "same_tables (commit cfg ?w0 args a d)
                   (fst (launch_pipeline cfg env ?w0 args origin_uid))" by blast
      with same_tables_commit [OF s0, of cfg args a d]
      have "same_tables (commit cfg w args a d)
                   (fst (launch_pipeline cfg env ?w0 args origin_uid))"
        by (rule same_tables_trans)
      with l n show ?thesis by auto
    qed
  qed
qed

section \<open>The guard and the Model Table\<close>

lemma disjoint_same_tables:
  "same_tables w v \<Longrightarrow> guard_table_disjoint v = guard_table_disjoint w"
  by (simp add: same_tables_def guard_table_disjoint_iff)

lemma disjoint_cleanup:
  "guard_table_disjoint w \<Longrightarrow> guard_table_disjoint (terminate_cleanup w uid die)"
  by (simp add: guard_table_disjoint_iff terminate_cleanup_def Let_def release_devices_def)

lemma disjoint_commit:
  "guard_table_disjoint w \<Longrightarrow> \<not> in_dict (model_uid args) (model_uid_launching_guard w) \<Longrightarrow>
   guard_table_disjoint (commit cfg w args a d)"
  by (auto simp: guard_table_disjoint_iff commit_def)

lemma disjoint_terminate:
  assumes "guard_table_disjoint w"
  shows "guard_table_disjoint (fst (terminate_model cfg env w uid die))"
  using terminate_model_effect [of w cfg env uid die] assms disjoint_cleanup [OF assms, of uid die]
  by (auto simp: disjoint_same_tables)

lemma disjoint_launch:
  assumes "guard_table_disjoint w"
  shows "guard_table_disjoint (fst (launch_builtin_model cfg env w args))"
  using launch_builtin_model_effect [of w cfg env args] assms
  by (auto simp: disjoint_same_tables dest: disjoint_commit [OF assms])

lemma disjoint_recover_count [simp]:
  "guard_table_disjoint (w\<lparr>model_uid_to_recover_count := x\<rparr>) = guard_table_disjoint w"
  by (simp add: guard_table_disjoint_iff)

lemma disjoint_recover_model:
  assumes "guard_table_disjoint w"
  shows "guard_table_disjoint (fst (recover_model cfg env w args))"
proof -
  let ?w1 = "fst (get_supervisor_ref (r_connect env) w)"
  have c: "guard_table_disjoint ?w1"
    using assms disjoint_same_tables [OF same_tables_connect [of w "r_connect env"]] by simp
  have l: "guard_table_disjoint (fst (launch_builtin_model cfg (r_launch env) ?w1 args))"
    using c by (rule disjoint_launch)
  obtain w1 r1 where g: "get_supervisor_ref (r_connect env) w = (w1, r1)"
    by (cases "get_supervisor_ref (r_connect env) w")
  then have w1: "w1 = ?w1" by simp
  show ?thesis
    using assms c l unfolding recover_model_def g w1 [symmetric]
    by (simp add: case_prod_beta split: sum.splits)
qed

lemma disjoint_recover_sub_pool:
  assumes "guard_table_disjoint w"
  shows "guard_table_disjoint (fst (recover_sub_pool cfg env w address))"
proof -
  let ?w1 = "remove_sub_pools [address] w"
  have 1: "guard_table_disjoint ?w1"
    using assms disjoint_same_tables [OF same_tables_remove [of w "[address]"]] by simp
  have 2: "guard_table_disjoint (fst (terminate_model cfg (r_terminate env) ?w1 uid True))" for uid
    using 1 by (rule disjoint_terminate)
  have 3: "guard_table_disjoint (fst (recover_model cfg env
             ((fst (terminate_model cfg (r_terminate env) ?w1 uid True))
                \<lparr>model_uid_to_recover_count := x\<rparr>) args))" for uid x args
    by (rule disjoint_recover_model) (simp add: 2)
  have 4: "guard_table_disjoint (fst (recover_model cfg env
             (fst (terminate_model cfg (r_terminate env) ?w1 uid True)) args))" for uid args
    by (rule disjoint_recover_model) (simp add: 2)
  show ?thesis
    unfolding recover_sub_pool_def Let_def
    by (simp add: case_prod_beta 1 2 3 4 split: option.splits sum.splits)
qed

lemma disjoint_rank0:
  assumes "guard_table_disjoint w"
  shows "guard_table_disjoint (fst (launch_rank0_model env w uid))"
  using assms
  by (auto simp: launch_rank0_model_def Let_def guard_table_disjoint_iff leave_guard_def
        append_sub_pool_def remove_sub_pools_def split: sum.splits option.splits)

lemma launch_guard_unchanged:
  "model_uid_launching_guard (fst (launch_builtin_model cfg env w args))
     = model_uid_launching_guard w"
  using launch_builtin_model_effect [of w cfg env args]
  by (auto simp: same_tables_def commit_def)

lemma guard_after_commit [simp]:
  "model_uid_launching_guard (fst (after_commit env w args origin_uid a))
     = model_uid_launching_guard w"
  using same_tables_after_commit [of w env args origin_uid a] by (simp add: same_tables_def)

lemma launch_pipeline_guard_removed:
  "\<not> in_dict (model_uid args)
      (model_uid_launching_guard (fst (launch_pipeline cfg env w args origin_uid)))"
  by (simp add: launch_pipeline_def Let_def leave_guard_def case_prod_beta
        split: sum.splits)

lemma rank0_guard_removed:
  "k_subpool env = Inr a \<Longrightarrow>
   model_uid_launching_guard (fst (launch_rank0_model env w uid))
     = AList.delete uid (model_uid_launching_guard w)"
  by (simp add: launch_rank0_model_def Let_def leave_guard_def append_sub_pool_def
        remove_sub_pools_def delete_update_same split: option.splits)

section \<open>The recovery counter\<close>

lemma same_tables_maps:
  "same_tables w v \<Longrightarrow> la_of v = la_of w \<and> rc_of v = rc_of w"
  by (simp add: same_tables_def la_of_def rc_of_def)

lemma cleanup_maps:
  "la_of (terminate_cleanup w k die) = (la_of w)(k := None)"
  "rc_of (terminate_cleanup w k die) = (rc_of w)(k := None)"
  by (simp_all add: la_of_def rc_of_def terminate_cleanup_def Let_def release_devices_def
        delete_conv')

lemma commit_maps:
  "la_of (commit cfg w args a d) = (la_of w)(model_uid args \<mapsto> args)"
  "rc_of (commit cfg w args a d) =
     (if rc_of w (model_uid args) = None
      then (rc_of w)(model_uid args \<mapsto> MODEL_ACTOR_AUTO_RECOVER_LIMIT cfg) else rc_of w)"
  by (simp_all add: la_of_def rc_of_def commit_def update_conv' in_dict_map_of)

lemma terminate_maps:
  "(la_of (fst (terminate_model cfg env w k die)) = la_of w
      \<and> rc_of (fst (terminate_model cfg env w k die)) = rc_of w)
   \<or> (la_of (fst (terminate_model cfg env w k die)) = (la_of w)(k := None)
      \<and> rc_of (fst (terminate_model cfg env w k die)) = (rc_of w)(k := None))"
  using terminate_model_effect [of w cfg env k die]
  by (auto dest!: same_tables_maps simp: cleanup_maps)

lemma launch_maps:
  "(la_of (fst (launch_builtin_model cfg env w args)) = la_of w
      \<and> rc_of (fst (launch_builtin_model cfg env w args)) = rc_of w)
   \<or> (la_of (fst (launch_builtin_model cfg env w args)) = (la_of w)(model_uid args \<mapsto> args)
      \<and> rc_of (fst (launch_builtin_model cfg env w args)) =
          (if rc_of w (model_uid args) = None
           then (rc_of w)(model_uid args \<mapsto> MODEL_ACTOR_AUTO_RECOVER_LIMIT cfg) else rc_of w))"
  using launch_builtin_model_effect [of w cfg env args]
  by (auto dest!: same_tables_maps simp: commit_maps)

lemma recover_model_maps:
  "(la_of (fst (recover_model cfg env w args)) = la_of w
      \<and> rc_of (fst (recover_model cfg env w args)) = rc_of w)
   \<or> (la_of (fst (recover_model cfg env w args)) = (la_of w)(model_uid args \<mapsto> args)
      \<and> rc_of (fst (recover_model cfg env w args)) =
          (if rc_of w (model_uid args) = None
           then (rc_of w)(model_uid args \<mapsto> MODEL_ACTOR_AUTO_RECOVER_LIMIT cfg) else rc_of w))"
proof -
  let ?w1 = "fst (get_supervisor_ref (r_connect env) w)"
  have c: "la_of ?w1 = la_of w" "rc_of ?w1 = rc_of w"
    using same_tables_maps [OF same_tables_connect [of w "r_connect env"]] by simp_all
  obtain w1 r1 where g: "get_supervisor_ref (r_connect env) w = (w1, r1)"
    by (cases "get_supervisor_ref (r_connect env) w")
  then have w1: "w1 = ?w1" by simp
  show ?thesis
    using launch_maps [of cfg "r_launch env" ?w1 args] c
    unfolding recover_model_def g w1 [symmetric]
    by (auto simp: case_prod_beta split: sum.splits)
qed

lemma args_keyed_alt: "args_keyed w \<longleftrightarrow> (\<forall>k args. la_of w k = Some args \<longrightarrow> model_uid args = k)"
  by (simp add: args_keyed_iff la_of_def)

lemma recover_budget_alt:
  "recover_budget w uid =
     (case la_of w uid of None \<Rightarrow> 0
      | Some _ \<Rightarrow> (case rc_of w uid of Some (Some c) \<Rightarrow> nat c | _ \<Rightarrow> 0))"
  by (simp add: recover_budget_def la_of_def rc_of_def split: option.splits)

lemma recover_bounded_alt:
  "recover_bounded w uid \<longleftrightarrow> (la_of w uid \<noteq> None \<longrightarrow> (\<exists>c. rc_of w uid = Some (Some c)))"
  by (simp add: recover_bounded_iff la_of_def rc_of_def)

lemma step_ok_unchanged:
  assumes "args_keyed w" "recover_bounded w uid" "la_of w' = la_of w" "rc_of w' = rc_of w"
  shows "step_ok w w' None uid"
  using assms
  by (auto simp: step_ok_def args_keyed_alt recover_bounded_alt recover_budget_alt
        split: option.splits)

lemma step_ok_deleted:
  assumes "args_keyed w" "recover_bounded w uid"
    "la_of w' = (la_of w)(k := None)" "rc_of w' = (rc_of w)(k := None)"
  shows "step_ok w w' None uid"
  using assms
  by (auto simp: step_ok_def args_keyed_alt recover_bounded_alt recover_budget_alt
        split: option.splits)

lemma step_ok_decrement:
  assumes ak: "args_keyed w" and rb: "recover_bounded w uid"
    and la: "la_of w k = Some args" and rc: "rc_of w k = Some (Some c)" and c: "0 < c"
    and la2: "la2 = la_of w \<or> la2 = (la_of w)(k := None)"
    and la3: "la_of w' = la2 \<or> la_of w' = la2(k \<mapsto> args)"
    and rc2: "rc2 = rc_of w \<or> rc2 = (rc_of w)(k := None)"
    and rc3: "rc_of w' = rc2(k \<mapsto> Some (c - 1))"
  shows "step_ok w w' (Some k) uid"
proof -
  have mk: "model_uid args = k" using ak la by (simp add: args_keyed_alt)
  have keyed: "args_keyed w'"
    using ak la2 la3 mk by (auto simp: args_keyed_alt split: if_splits)
  show ?thesis
  proof (cases "uid = k")
    case True
    have r: "rc_of w' uid = Some (Some (c - 1))" using rc3 True by simp
    have b0: "recover_budget w uid = nat c" using la rc True by (simp add: recover_budget_alt)
    have b1: "recover_budget w' uid \<le> nat (c - 1)"
      using r by (simp add: recover_budget_alt split: option.splits)
    have "nat (c - 1) + 1 = nat c" using c by simp
    with b0 b1 have "recover_budget w' uid + 1 \<le> recover_budget w uid" by simp
    with keyed r True show ?thesis by (simp add: step_ok_def recover_bounded_alt)
  next
    case False
    have l: "la_of w' uid = la_of w uid" using la2 la3 False by auto
    have r: "rc_of w' uid = rc_of w uid" using rc2 rc3 False by auto
    show ?thesis
      using keyed rb l r False
      by (auto simp: step_ok_def recover_bounded_alt recover_budget_alt split: option.splits)
  qed
qed

lemma step_ok_unlimited:
  assumes ak: "args_keyed w" and rb: "recover_bounded w uid"
    and la: "la_of w k = Some args" and rc: "rc_of w k = None \<or> rc_of w k = Some None"
    and la2: "la2 = la_of w \<or> la2 = (la_of w)(k := None)"
    and la3: "la_of w' = la2 \<or> la_of w' = la2(k \<mapsto> args)"
    and rc2: "rc2 = rc_of w \<or> rc2 = (rc_of w)(k := None)"
    and rc3: "rc_of w' = rc2 \<or> rc_of w' = rc2(k \<mapsto> lim)"
  shows "step_ok w w' (Some k) uid"
proof -
  have mk: "model_uid args = k" using ak la by (simp add: args_keyed_alt)
  have keyed: "args_keyed w'"
    using ak la2 la3 mk by (auto simp: args_keyed_alt split: if_splits)
  have ne: "uid \<noteq> k" using rb la rc by (auto simp: recover_bounded_alt)
  have l: "la_of w' uid = la_of w uid" using la2 la3 ne by auto
  have r: "rc_of w' uid = rc_of w uid" using rc2 rc3 ne by auto
  show ?thesis
    using keyed rb l r ne
    by (auto simp: step_ok_def recover_bounded_alt recover_budget_alt split: option.splits)
qed

lemma recover_model_maps_key:
  assumes "model_uid args = k"
  shows "(la_of (fst (recover_model cfg env w args)) = la_of w
           \<or> la_of (fst (recover_model cfg env w args)) = (la_of w)(k \<mapsto> args))
       \<and> (rc_of w k \<noteq> None \<longrightarrow> rc_of (fst (recover_model cfg env w args)) = rc_of w)
       \<and> (rc_of (fst (recover_model cfg env w args)) = rc_of w
           \<or> rc_of (fst (recover_model cfg env w args))
               = (rc_of w)(k \<mapsto> MODEL_ACTOR_AUTO_RECOVER_LIMIT cfg))"
  using recover_model_maps [of cfg env w args] assms by auto

lemma recover_step:
  assumes ak: "args_keyed w" and rb: "recover_bounded w uid"
  shows "step_ok w (fst (recover_sub_pool cfg env w address))
           (fst (snd (recover_sub_pool cfg env w address))) uid"
proof -
  let ?w1 = "remove_sub_pools [address] w"
  have m1: "la_of ?w1 = la_of w" "rc_of ?w1 = rc_of w"
    using same_tables_maps [OF same_tables_remove [of w "[address]"]] by simp_all
  show ?thesis
  proof (cases "find (\<lambda>(uid, addr). addr = address) (model_uid_to_addr ?w1)")
    case None
    then have "recover_sub_pool cfg env w address = (?w1, None, Inr ())"
      by (simp add: recover_sub_pool_def Let_def)
    with step_ok_unchanged [OF ak rb m1] show ?thesis by simp
  next
    case (Some p)
    obtain k x where p: "p = (k, x)" by (cases p)
    show ?thesis
    proof (cases "la_of ?w1 k")
      case None
      then have "recover_sub_pool cfg env w address = (?w1, None, Inr ())"
        using Some p by (simp add: recover_sub_pool_def Let_def la_of_def)
      with step_ok_unchanged [OF ak rb m1] show ?thesis by simp
    next
      case la1: (Some args)
      have la: "la_of w k = Some args" using la1 m1 by simp
      have mk: "model_uid args = k" using ak la by (simp add: args_keyed_alt)
      let ?w2 = "fst (terminate_model cfg (r_terminate env) ?w1 k True)"
      have t: "(la_of ?w2 = la_of w \<and> rc_of ?w2 = rc_of w)
             \<or> (la_of ?w2 = (la_of w)(k := None) \<and> rc_of ?w2 = (rc_of w)(k := None))"
        using terminate_maps [of cfg "r_terminate env" ?w1 k True] m1 by simp
      have unl: "step_ok w (fst (recover_model cfg env ?w2 args)) (Some k) uid"
        if "rc_of w k = None \<or> rc_of w k = Some None"
      proof (rule step_ok_unlimited [OF ak rb la that, of "la_of ?w2" _ "rc_of ?w2"])
        show "la_of ?w2 = la_of w \<or> la_of ?w2 = (la_of w)(k := None)" using t by auto
        show "rc_of ?w2 = rc_of w \<or> rc_of ?w2 = (rc_of w)(k := None)" using t by auto
        show "la_of (fst (recover_model cfg env ?w2 args)) = la_of ?w2
            \<or> la_of (fst (recover_model cfg env ?w2 args)) = (la_of ?w2)(k \<mapsto> args)"
          using recover_model_maps_key [OF mk, of cfg env ?w2] by simp
        show "rc_of (fst (recover_model cfg env ?w2 args)) = rc_of ?w2
            \<or> rc_of (fst (recover_model cfg env ?w2 args))
                 = (rc_of ?w2)(k \<mapsto> MODEL_ACTOR_AUTO_RECOVER_LIMIT cfg)"
          using recover_model_maps_key [OF mk, of cfg env ?w2] by simp
      qed
      show ?thesis
      proof (cases "rc_of ?w1 k")
        case None
        then have r: "recover_sub_pool cfg env w address
            = (fst (recover_model cfg env ?w2 args), Some (model_uid args),
               snd (recover_model cfg env ?w2 args))"
          using Some p la1
          by (simp add: recover_sub_pool_def Let_def la_of_def rc_of_def case_prod_beta)
        from None m1 have "rc_of w k = None \<or> rc_of w k = Some None" by simp
        from unl [OF this] r mk show ?thesis by simp
      next
        case rc1: (Some oc)
        show ?thesis
        proof (cases oc)
          case None
          then have r: "recover_sub_pool cfg env w address
              = (fst (recover_model cfg env ?w2 args), Some (model_uid args),
                 snd (recover_model cfg env ?w2 args))"
            using Some p la1 rc1
            by (simp add: recover_sub_pool_def Let_def la_of_def rc_of_def case_prod_beta)
          from None rc1 m1 have "rc_of w k = None \<or> rc_of w k = Some None" by simp
          from unl [OF this] r mk show ?thesis by simp
        next
          case c: (Some c)
          have rc: "rc_of w k = Some (Some c)" using rc1 c m1 by simp
          show ?thesis
          proof (cases "c > 0")
            case False
            then have r: "recover_sub_pool cfg env w address = (?w2, None, Inr ())"
              using Some p la1 rc1 c
              by (simp add: recover_sub_pool_def Let_def la_of_def rc_of_def)
            from t show ?thesis
            proof
              assume "la_of ?w2 = la_of w \<and> rc_of ?w2 = rc_of w"
              then show ?thesis using step_ok_unchanged [OF ak rb, of ?w2] r by simp
            next
              assume "la_of ?w2 = (la_of w)(k := None) \<and> rc_of ?w2 = (rc_of w)(k := None)"
              then show ?thesis using step_ok_deleted [OF ak rb, of ?w2 k] r by simp
            qed
          next
            case True
            show ?thesis
            proof (cases "parse_replica_model_uid cfg k")
              case (Inl e)
              then have r: "recover_sub_pool cfg env w address = (?w2, None, Inl e)"
                using Some p la1 rc1 c True
                by (simp add: recover_sub_pool_def Let_def la_of_def rc_of_def)
              from t show ?thesis
              proof
                assume "la_of ?w2 = la_of w \<and> rc_of ?w2 = rc_of w"
                then show ?thesis using step_ok_unchanged [OF ak rb, of ?w2] r by simp
              next
                assume "la_of ?w2 = (la_of w)(k := None) \<and> rc_of ?w2 = (rc_of w)(k := None)"
                then show ?thesis using step_ok_deleted [OF ak rb, of ?w2 k] r by simp
              qed
            next
              case (Inr event_model_uid)
              let ?w2' = "?w2\<lparr>model_uid_to_recover_count :=
                               AList.update k (Some (c - 1)) (model_uid_to_recover_count ?w2)\<rparr>"
              have r: "recover_sub_pool cfg env w address
                  = (fst (recover_model cfg env ?w2' args), Some (model_uid args),
                     snd (recover_model cfg env ?w2' args))"
                using Some p la1 rc1 c True Inr
                by (simp add: recover_sub_pool_def Let_def la_of_def rc_of_def case_prod_beta)
              have l2': "la_of ?w2' = la_of ?w2" by (simp add: la_of_def)
              have r2': "rc_of ?w2' = (rc_of ?w2)(k \<mapsto> Some (c - 1))"
                by (simp add: rc_of_def update_conv')
              have "step_ok w (fst (recover_model cfg env ?w2' args)) (Some k) uid"
              proof (rule step_ok_decrement [OF ak rb la rc True, of "la_of ?w2" _ "rc_of ?w2"])
                show "la_of ?w2 = la_of w \<or> la_of ?w2 = (la_of w)(k := None)" using t by auto
                show "rc_of ?w2 = rc_of w \<or> rc_of ?w2 = (rc_of w)(k := None)" using t by auto
                show "la_of (fst (recover_model cfg env ?w2' args)) = la_of ?w2
                    \<or> la_of (fst (recover_model cfg env ?w2' args)) = (la_of ?w2)(k \<mapsto> args)"
                  using recover_model_maps_key [OF mk, of cfg env ?w2'] l2' by simp
                show "rc_of (fst (recover_model cfg env ?w2' args)) = (rc_of ?w2)(k \<mapsto> Some (c - 1))"
                  using recover_model_maps_key [OF mk, of cfg env ?w2'] r2' by simp
              qed
              with r mk show ?thesis by simp
            qed
          qed
        qed
      qed
    qed
  qed
qed

lemma run_deaths_bounded:
  assumes "args_keyed w" "recover_bounded w uid"
  shows "count_list (snd (run_deaths cfg w deaths)) uid \<le> recover_budget w uid"
  using assms
proof (induction deaths arbitrary: w)
  case Nil
  then show ?case by simp
next
  case (Cons d deaths)
  obtain address env where d: "d = (address, env)" by (cases d)
  let ?r = "recover_sub_pool cfg env w address"
  let ?w' = "fst ?r"
  let ?rel = "fst (snd ?r)"
  from recover_step [OF Cons.prems, of cfg env address]
  have s: "args_keyed ?w'" "recover_bounded ?w' uid"
     "recover_budget ?w' uid + (if ?rel = Some uid then 1 else 0) \<le> recover_budget w uid"
    by (simp_all add: step_ok_def)
  from Cons.IH [OF s(1,2)]
  have ih: "count_list (snd (run_deaths cfg ?w' deaths)) uid \<le> recover_budget ?w' uid" .
  have "count_list (snd (run_deaths cfg w (d # deaths))) uid
          = (if ?rel = Some uid then 1 else 0) + count_list (snd (run_deaths cfg ?w' deaths)) uid"
    by (simp add: d case_prod_beta split: option.splits)
  with ih s(3) show ?case by simp
qed

lemma example_committed_launched:
  "launch_builtin_model example_config example_launch_env (init_worker [0]) example_launch_args
     = (example_committed, Inr ''addr-1'')"
  by (simp add: example_defs launch_defs)

lemma recover_sub_pool_committed:
  assumes f: "find (\<lambda>(u, a). a = address) (model_uid_to_addr w) = Some (uid, x)"
      and la: "map_of (model_uid_to_launch_args w) uid = Some args"
  shows "(\<forall>c ev. map_of (model_uid_to_recover_count w) uid = Some (Some c) \<and> 0 < c
              \<and> parse_replica_model_uid cfg uid = Inr ev \<longrightarrow>
            fst (snd (recover_sub_pool cfg env w address)) = Some (model_uid args)
          \<and> map_of (model_uid_to_recover_count (fst (recover_sub_pool cfg env w address))) uid
              = Some (Some (c - 1)))
       \<and> (\<forall>c e. map_of (model_uid_to_recover_count w) uid = Some (Some c) \<and> 0 < c
              \<and> parse_replica_model_uid cfg uid = Inl e \<longrightarrow>
            snd (recover_sub_pool cfg env w address) = (None, Inl e)
          \<and> (map_of (model_uid_to_recover_count (fst (recover_sub_pool cfg env w address))) uid
                = Some (Some c)
             \<or> map_of (model_uid_to_recover_count (fst (recover_sub_pool cfg env w address))) uid
                = None))
       \<and> (\<forall>c. map_of (model_uid_to_recover_count w) uid = Some (Some c) \<and> c \<le> 0 \<longrightarrow>
            fst (snd (recover_sub_pool cfg env w address)) = None
          \<and> (map_of (model_uid_to_recover_count (fst (recover_sub_pool cfg env w address))) uid
                = Some (Some c)
             \<or> map_of (model_uid_to_recover_count (fst (recover_sub_pool cfg env w address))) uid
                = None))
       \<and> (map_of (model_uid_to_recover_count w) uid = None
            \<or> map_of (model_uid_to_recover_count w) uid = Some None \<longrightarrow>
            fst (snd (recover_sub_pool cfg env w address)) = Some (model_uid args))
       \<and> (map_of (model_uid_to_recover_count w) uid = Some None
            \<and> MODEL_ACTOR_AUTO_RECOVER_LIMIT cfg = None \<and> model_uid args = uid \<longrightarrow>
            map_of (model_uid_to_recover_count (fst (recover_sub_pool cfg env w address))) uid
                = Some None
          \<or> map_of (model_uid_to_recover_count (fst (recover_sub_pool cfg env w address))) uid
                = None)"
proof -
  let ?w1 = "remove_sub_pools [address] w"
  let ?w2 = "fst (terminate_model cfg (r_terminate env) ?w1 uid True)"
  have f1: "find (\<lambda>(u, a). a = address) (model_uid_to_addr ?w1) = Some (uid, x)"
    using f by (simp add: remove_sub_pools_def)
  have la1: "map_of (model_uid_to_launch_args ?w1) uid = Some args"
    using la by (simp add: remove_sub_pools_def)
  have rc1: "map_of (model_uid_to_recover_count ?w1) uid = map_of (model_uid_to_recover_count w) uid"
    by (simp add: remove_sub_pools_def)
  have m1: "rc_of ?w1 = rc_of w"
    using same_tables_maps [OF same_tables_remove [of w "[address]"]] by simp
  have t: "rc_of ?w2 = rc_of w \<or> rc_of ?w2 = (rc_of w)(uid := None)"
    using terminate_maps [of cfg "r_terminate env" ?w1 uid True] m1 by auto
  have rm: "rc_of (fst (recover_model cfg env v args)) = rc_of v
          \<or> rc_of (fst (recover_model cfg env v args))
               = (rc_of v)(model_uid args \<mapsto> MODEL_ACTOR_AUTO_RECOVER_LIMIT cfg)
             \<and> rc_of v (model_uid args) = None" for v
    using recover_model_maps [of cfg env v args] by (auto split: if_splits)
  show ?thesis
  proof (intro conjI allI impI)
    fix c ev
    assume a: "map_of (model_uid_to_recover_count w) uid = Some (Some c) \<and> 0 < c
              \<and> parse_replica_model_uid cfg uid = Inr ev"
    let ?v = "?w2\<lparr>model_uid_to_recover_count :=
                    AList.update uid (Some (c - 1)) (model_uid_to_recover_count ?w2)\<rparr>"
    have r: "recover_sub_pool cfg env w address
                = (fst (recover_model cfg env ?v args), Some (model_uid args),
                   snd (recover_model cfg env ?v args))"
      using f1 la1 rc1 a by (simp add: recover_sub_pool_def Let_def case_prod_beta)
    have v: "rc_of ?v uid = Some (Some (c - 1))" by (simp add: rc_of_def update_conv')
    from rm [of ?v] v have "rc_of (fst (recover_model cfg env ?v args)) uid = Some (Some (c - 1))"
      by (auto split: if_splits)
    with r show "fst (snd (recover_sub_pool cfg env w address)) = Some (model_uid args)"
      and "map_of (model_uid_to_recover_count (fst (recover_sub_pool cfg env w address))) uid
              = Some (Some (c - 1))"
      by (simp_all add: rc_of_def)
  next
    fix c e
    assume a: "map_of (model_uid_to_recover_count w) uid = Some (Some c) \<and> 0 < c
              \<and> parse_replica_model_uid cfg uid = Inl e"
    have r: "recover_sub_pool cfg env w address = (?w2, None, Inl e)"
      using f1 la1 rc1 a by (simp add: recover_sub_pool_def Let_def)
    then show "snd (recover_sub_pool cfg env w address) = (None, Inl e)" by simp
    from t a r
    show "map_of (model_uid_to_recover_count (fst (recover_sub_pool cfg env w address))) uid
                = Some (Some c)
             \<or> map_of (model_uid_to_recover_count (fst (recover_sub_pool cfg env w address))) uid
                = None"
      by (auto simp: rc_of_def)
  next
    fix c
    assume a: "map_of (model_uid_to_recover_count w) uid = Some (Some c) \<and> c \<le> 0"
    have r: "recover_sub_pool cfg env w address = (?w2, None, Inr ())"
      using f1 la1 rc1 a by (simp add: recover_sub_pool_def Let_def)
    then show "fst (snd (recover_sub_pool cfg env w address)) = None" by simp
    from t a r
    show "map_of (model_uid_to_recover_count (fst (recover_sub_pool cfg env w address))) uid
                = Some (Some c)
             \<or> map_of (model_uid_to_recover_count (fst (recover_sub_pool cfg env w address))) uid
                = None"
      by (auto simp: rc_of_def)
  next
    assume a: "map_of (model_uid_to_recover_count w) uid = None
            \<or> map_of (model_uid_to_recover_count w) uid = Some None"
    then show "fst (snd (recover_sub_pool cfg env w address)) = Some (model_uid args)"
      using f1 la1 rc1
      by (auto simp: recover_sub_pool_def Let_def case_prod_beta)
  next
    assume a: "map_of (model_uid_to_recover_count w) uid = Some None
            \<and> MODEL_ACTOR_AUTO_RECOVER_LIMIT cfg = None \<and> model_uid args = uid"
    have r: "fst (recover_sub_pool cfg env w address) = fst (recover_model cfg env ?w2 args)"
      using f1 la1 rc1 a by (simp add: recover_sub_pool_def Let_def case_prod_beta)
    from a have w: "rc_of w uid = Some None" by (simp add: rc_of_def)
    from t w have "rc_of ?w2 uid = Some None \<or> rc_of ?w2 uid = None" by auto
    with rm [of ?w2] a
    have "rc_of (fst (recover_model cfg env ?w2 args)) uid = Some None
        \<or> rc_of (fst (recover_model cfg env ?w2 args)) uid = None"
      by (auto split: if_splits)
    with r
    show "map_of (model_uid_to_recover_count (fst (recover_sub_pool cfg env w address))) uid
                = Some None
          \<or> map_of (model_uid_to_recover_count (fst (recover_sub_pool cfg env w address))) uid
                = None"
      by (simp add: rc_of_def)
  qed
qed

lemma args_keyed_init: "args_keyed (init_worker gpu_devices)"
  by (simp add: args_keyed_iff init_worker_def)

lemma args_keyed_launch:
  "args_keyed w \<Longrightarrow> args_keyed (fst (launch_builtin_model cfg env w args))"
  using launch_maps [of cfg env w args] by (auto simp: args_keyed_alt split: if_splits)

lemma args_keyed_terminate:
  "args_keyed w \<Longrightarrow> args_keyed (fst (terminate_model cfg env w uid die))"
  using terminate_maps [of cfg env w uid die] by (auto simp: args_keyed_alt split: if_splits)

lemma args_keyed_rank0:
  "args_keyed w \<Longrightarrow> args_keyed (fst (launch_rank0_model env w uid))"
  by (auto simp: args_keyed_iff launch_rank0_model_def Let_def leave_guard_def
        append_sub_pool_def remove_sub_pools_def split: sum.splits option.splits)

lemma args_keyed_recover:
  assumes "args_keyed w"
  shows "args_keyed (fst (recover_sub_pool cfg env w address))"
proof -
  have "\<exists>u. u \<notin> fst ` set (model_uid_to_launch_args w)"
    using ex_new_if_finite [OF infinite_UNIV_listI, of "fst ` set (model_uid_to_launch_args w)"]
    by simp
  then obtain u where "map_of (model_uid_to_launch_args w) u = None"
    by (auto simp: map_of_eq_None_iff)
  then have "recover_bounded w u" by (simp add: recover_bounded_iff)
  from recover_step [OF assms this, of cfg env address] show ?thesis
    by (simp add: step_ok_def)
qed

lemma uids_parse_alt:
  "uids_parse cfg w \<longleftrightarrow>
     (\<forall>k. la_of w k \<noteq> None \<longrightarrow> (\<exists>ev. parse_replica_model_uid cfg k = Inr ev))"
proof -
  have "uids_parse cfg w \<longleftrightarrow>
          (\<forall>k \<in> fst ` set (model_uid_to_launch_args w).
              \<exists>ev. parse_replica_model_uid cfg k = Inr ev)"
    by (auto simp: uids_parse_def list_all_iff split: sum.splits)
  then show ?thesis
    by (auto simp: la_of_def map_of_eq_None_iff)
qed

lemma uids_parse_init: "uids_parse cfg (init_worker gpu_devices)"
  by (simp add: uids_parse_def init_worker_def)

lemma uids_parse_launch:
  assumes "uids_parse cfg w"
  shows "uids_parse cfg (fst (launch_builtin_model cfg env w args))"
proof (cases "parse_replica_model_uid cfg (model_uid args)")
  case (Inl e)
  with assms show ?thesis by (simp add: launch_builtin_model_def)
next
  case (Inr origin_uid)
  with assms launch_maps [of cfg env w args] show ?thesis
    by (auto simp: uids_parse_alt split: if_splits)
qed

lemma uids_parse_terminate:
  "uids_parse cfg w \<Longrightarrow> uids_parse cfg (fst (terminate_model cfg env w uid die))"
  using terminate_maps [of cfg env w uid die] by (auto simp: uids_parse_alt split: if_splits)

lemma uids_parse_rank0:
  "uids_parse cfg w \<Longrightarrow> uids_parse cfg (fst (launch_rank0_model env w uid))"
  by (auto simp: uids_parse_def launch_rank0_model_def Let_def leave_guard_def
        append_sub_pool_def remove_sub_pools_def split: sum.splits option.splits)

lemma uids_parse_recover_model:
  assumes "uids_parse cfg w"
  shows "uids_parse cfg (fst (recover_model cfg env w args))"
proof (cases "parse_replica_model_uid cfg (model_uid args)")
  case (Inl e)
  with assms show ?thesis by (simp add: recover_model_def)
next
  case (Inr origin_uid)
  with assms recover_model_maps [of cfg env w args] show ?thesis
    by (auto simp: uids_parse_alt split: if_splits)
qed

lemma uids_parse_recover_count [simp]:
  "uids_parse cfg (w\<lparr>model_uid_to_recover_count := x\<rparr>) = uids_parse cfg w"
  by (simp add: uids_parse_def)

lemma uids_parse_recover:
  assumes "uids_parse cfg w"
  shows "uids_parse cfg (fst (recover_sub_pool cfg env w address))"
proof -
  let ?w1 = "remove_sub_pools [address] w"
  have 1: "uids_parse cfg ?w1"
    using assms by (simp add: uids_parse_def remove_sub_pools_def)
  have 2: "uids_parse cfg (fst (terminate_model cfg (r_terminate env) ?w1 uid True))" for uid
    using 1 by (rule uids_parse_terminate)
  have 3: "uids_parse cfg (fst (recover_model cfg env
             ((fst (terminate_model cfg (r_terminate env) ?w1 uid True))
                \<lparr>model_uid_to_recover_count := x\<rparr>) args))" for uid x args
    by (rule uids_parse_recover_model) (simp add: 2)
  have 4: "uids_parse cfg (fst (recover_model cfg env
             (fst (terminate_model cfg (r_terminate env) ?w1 uid True)) args))" for uid args
    by (rule uids_parse_recover_model) (rule 2)
  show ?thesis
    unfolding recover_sub_pool_def Let_def
    by (simp add: case_prod_beta 1 2 3 4 split: option.splits sum.splits)
qed

lemma example_committed_facts:
  "args_keyed example_committed"
  "map_of (model_uid_to_recover_count example_committed) ''m-0'' = Some (Some 1)"
  "find (\<lambda>(u, a). a = ''addr-1'') (model_uid_to_addr example_committed) = Some (''m-0'', ''addr-1'')"
  "map_of (model_uid_to_launch_args example_committed) ''m-0'' = Some example_launch_args"
  "uids_parse example_config example_committed"
  by (simp_all add: args_keyed_iff uids_parse_def example_committed_def init_worker_def
        example_launch_args_def example_config_def)

lemma crash_recovery_with_limit_one:
  "snd (run_deaths example_config example_committed
          [(''addr-1'', example_recover_env), (''addr-1'', example_recover_env)]) = [''m-0'']"
  by (simp add: example_defs launch_defs recover_sub_pool_def recover_model_def
        terminate_model_def origin_of_def suffix_to_prefix terminate_remove_pools_def
        terminate_cleanup_def release_devices_def remove_sub_pools_def push_terminal_def)

section \<open>Failures of a launch\<close>

text \<open>
  A uid of the Model Table is not launched again: the launch fails before it writes.
\<close>

lemma launch_committed_uid_rejected:
  assumes "in_dict (model_uid args) (model_uid_to_model w)"
  shows "same_tables w (fst (launch_builtin_model cfg env w args))"
  using launch_builtin_model_effect [of w cfg env args] assms by auto

text \<open>
  A failure inside the inner \<open>try\<close>, with no failed additional sub-pool, leaves no
  device, no sub-pool and no guard entry of the launch behind.
\<close>

lemma successes_first_error:
  "first_error outcomes = None \<Longrightarrow> map Inr (successes outcomes) = outcomes"
  by (induction outcomes rule: first_error.induct) auto

lemma launch_body_recorded:
  assumes "launch_body env args venv a devices = (created, alls, res)"
  shows "a \<in> set alls"
    and "first_error (map (l_extra_pool env) [0..<length devices]) = None \<Longrightarrow>
         set created \<subseteq> set alls"
  using assms
  by (auto simp: launch_body_def launch_extra_pools_def launch_finish_def Let_def
        split: sum.splits if_splits option.splits)

lemma main_pool_release [simp]: "main_pool (release_devices w uid) = main_pool w"
  by (simp add: release_devices_def)

lemma holds_device_frame [simp]:
  "holds_device (remove_sub_pools addrs w) uid = holds_device w uid"
  "holds_device (leave_guard w u) uid = holds_device w uid"
  by (simp_all add: holds_device_def remove_sub_pools_def leave_guard_def)

lemma launch_inner_failure_cleans_up:
  assumes p: "parse_replica_model_uid cfg (model_uid args) = Inr origin_uid"
    and v: "pre_validate cfg env (fst (get_supervisor_ref (l_connect env) w)) args = None"
    and ve: "l_venv env = Inr venv"
    and cs: "create_subpool cfg env
               ((fst (get_supervisor_ref (l_connect env) w))
                  \<lparr>model_uid_launching_guard :=
                     AList.update (model_uid args) LaunchInfo (model_uid_launching_guard w)\<rparr>)
               (model_uid args) (model_type args) (n_gpu args) (coerce_gpu_idx (gpu_idx args))
             = (w2, Inr (a, devices))"
    and lb: "launch_body env args venv a devices = (created, alls, Inl e)"
    and fe: "first_error (map (l_extra_pool env) [0..<length devices]) = None"
  shows "snd (launch_builtin_model cfg env w args) = Inl e"
    and "\<not> holds_device (fst (launch_builtin_model cfg env w args)) (model_uid args)"
    and "\<forall>x \<in> set (a # created). x \<notin> set (main_pool (fst (launch_builtin_model cfg env w args)))"
    and "\<not> in_dict (model_uid args)
            (model_uid_launching_guard (fst (launch_builtin_model cfg env w args)))"
    and "\<not> in_dict (model_uid args) (model_uid_to_model (fst (launch_builtin_model cfg env w args)))"
proof -
  let ?uid = "model_uid args"
  let ?X = "remove_sub_pools alls (release_devices (fold append_sub_pool created w2) ?uid)"
  have l: "launch_builtin_model cfg env w args = (leave_guard ?X ?uid, Inl e)"
    using p v ve cs lb by (simp add: launch_builtin_model_def launch_pipeline_def Let_def)
  show "snd (launch_builtin_model cfg env w args) = Inl e" by (simp add: l)
  show "\<not> holds_device (fst (launch_builtin_model cfg env w args)) ?uid"
    by (simp add: l release_devices_holds)
  have sub: "set (a # created) \<subseteq> set alls"
    using launch_body_recorded [OF lb] fe by simp
  have "set (main_pool ?X) \<inter> set alls = {}"
    by (auto simp: remove_sub_pools_def)
  with sub show "\<forall>x \<in> set (a # created). x \<notin> set (main_pool (fst (launch_builtin_model cfg env w args)))"
    by (auto simp: l leave_guard_def)
  from pre_validate_None [OF v]
  have n: "\<not> in_dict ?uid (model_uid_to_model w)" "\<not> in_dict ?uid (model_uid_launching_guard w)"
    by simp_all
  show "\<not> in_dict ?uid (model_uid_launching_guard (fst (launch_builtin_model cfg env w args)))"
    using n by (simp add: launch_guard_unchanged)
  let ?w1 = "(fst (get_supervisor_ref (l_connect env) w))
                \<lparr>model_uid_launching_guard :=
                   AList.update ?uid LaunchInfo (model_uid_launching_guard w)\<rparr>"
  have "same_tables ?w1 w2"
    using same_tables_create_subpool [of ?w1 cfg env ?uid "model_type args" "n_gpu args"
        "coerce_gpu_idx (gpu_idx args)"] cs by simp
  then have "model_uid_to_model w2 = model_uid_to_model w"
    by (simp add: same_tables_def)
  moreover have "model_uid_to_model (fold append_sub_pool created w2) = model_uid_to_model w2"
    using same_tables_fold_append [of w2 created] by (simp add: same_tables_def)
  ultimately have "model_uid_to_model (leave_guard ?X ?uid) = model_uid_to_model w"
    by (simp add: leave_guard_def remove_sub_pools_def release_devices_def)
  with n show "\<not> in_dict ?uid (model_uid_to_model (fst (launch_builtin_model cfg env w args)))"
    by (simp add: l)
qed

section \<open>Properties of the specification\<close>

text \<open>
  C1. The specification asks that every failure of the launch pipeline, from the preparation of
  the virtualenv on, releases the devices of the uid and removes the sub-pools of the
  launch. The inner \<open>try\<close> of the source starts after \<open>_create_subpool\<close>, which
  allocates the devices before it appends the sub-pool. On a worker with the single GPU
  0, a launch of \<open>m-0\<close> with \<open>n_gpu = 1\<close> whose \<open>append_sub_pool\<close> fails returns the
  error and leaves GPU 0 recorded as owned by \<open>m-0\<close>, although the uid is in no table.
\<close>

theorem launch_subpool_failure_leaks_devices:
  "launch_builtin_model example_config (example_launch_env\<lparr>l_subpool := Inl Downstream\<rparr>)
     (init_worker [0]) (example_launch_args\<lparr>n_gpu := Some (NInt 1)\<rparr>)
   = ((init_worker [0])\<lparr>supervisor_ref := True, status_guard_ref := True,
        gpu_to_model_uid := [(0, ''m-0'')]\<rparr>, Inl Downstream)"
  by (simp add: launch_builtin_model_def example_config_def example_launch_env_def
        example_launch_args_def init_worker_def get_supervisor_ref_def pre_validate_def
        n_gpu_rejected_def in_dict_def get_model_launch_status_def launch_pipeline_def
        create_subpool_def create_subpool_devices_def coerce_gpu_idx_def
        allocate_devices_def free_devices_def user_specified_allocated_devices_def
        py_slice_to_def leave_guard_def Let_def)

text \<open>
  C2. Between operations no uid is both in the Launching Guard and in the Model Table:
  this holds for a new worker and is kept by every launch, rank-0 launch, termination and
  recovery, whatever their environment does, from any state in which it holds (the guard
  of that state may hold the entries of other launches). A launch leaves the guard as it
  found it; the pipeline that starts with the guard entry ends without it in every
  environment, so the entry created once the pre-validation has passed is gone on every
  exit, by success, failure or cancellation; and a rank-0 launch that got its sub-pool
  leaves the guard without an entry of its uid.
\<close>

theorem guard_and_table_exclusive:
  "guard_table_disjoint (init_worker gpu_devices)
   \<and> (guard_table_disjoint w \<longrightarrow>
         guard_table_disjoint (fst (launch_builtin_model cfg lenv w args))
       \<and> guard_table_disjoint (fst (launch_rank0_model kenv w uid))
       \<and> guard_table_disjoint (fst (terminate_model cfg tenv w uid die))
       \<and> guard_table_disjoint (fst (recover_sub_pool cfg renv w address)))
   \<and> model_uid_launching_guard (fst (launch_builtin_model cfg lenv w args))
       = model_uid_launching_guard w
   \<and> \<not> in_dict (model_uid args)
         (model_uid_launching_guard (fst (launch_pipeline cfg lenv w args origin_uid)))
   \<and> (parse_replica_model_uid cfg (model_uid args) = Inr origin_uid
        \<and> pre_validate cfg lenv (fst (get_supervisor_ref (l_connect lenv) w)) args = None \<longrightarrow>
        \<not> in_dict (model_uid args)
            (model_uid_launching_guard (fst (launch_builtin_model cfg lenv w args))))
   \<and> (k_subpool kenv = Inr a \<longrightarrow>
        model_uid_launching_guard (fst (launch_rank0_model kenv w uid))
          = AList.delete uid (model_uid_launching_guard w)
        \<and> \<not> in_dict uid (model_uid_launching_guard (fst (launch_rank0_model kenv w uid))))"
proof (intro conjI impI)
  show "guard_table_disjoint (init_worker gpu_devices)"
    by (simp add: guard_table_disjoint_iff init_worker_def in_dict_def)
next
  assume "parse_replica_model_uid cfg (model_uid args) = Inr origin_uid
        \<and> pre_validate cfg lenv (fst (get_supervisor_ref (l_connect lenv) w)) args = None"
  then have "\<not> in_dict (model_uid args) (model_uid_launching_guard w)"
    using pre_validate_None [of cfg lenv "fst (get_supervisor_ref (l_connect lenv) w)" args]
    by simp
  then show "\<not> in_dict (model_uid args)
            (model_uid_launching_guard (fst (launch_builtin_model cfg lenv w args)))"
    by (simp add: launch_guard_unchanged)
next
  assume "k_subpool kenv = Inr a"
  then show "\<not> in_dict uid (model_uid_launching_guard (fst (launch_rank0_model kenv w uid)))"
    by (simp add: rank0_guard_removed)
qed (simp_all add: disjoint_launch disjoint_rank0 disjoint_terminate disjoint_recover_sub_pool
       launch_guard_unchanged launch_pipeline_guard_removed rank0_guard_removed)

theorem guard_and_table_exclusive_witness:
  "guard_table_disjoint (init_worker [0])
   \<and> guard_table_disjoint
        (fst (launch_builtin_model example_config example_launch_env (init_worker [0])
                example_launch_args))
   \<and> \<not> in_dict ''m-0'' (model_uid_launching_guard
        (fst (launch_builtin_model example_config example_launch_env (init_worker [0])
                example_launch_args)))
   \<and> \<not> in_dict ''m-rank0'' (model_uid_launching_guard
        (fst (launch_rank0_model example_rank0_env (init_worker [0]) ''m-rank0'')))"
proof -
  have p: "parse_replica_model_uid example_config (model_uid example_launch_args) = Inr ''m''"
    by (simp add: example_config_def example_launch_args_def)
  have v: "pre_validate example_config example_launch_env
             (fst (get_supervisor_ref (l_connect example_launch_env) (init_worker [0])))
             example_launch_args = None"
    by (simp add: example_defs launch_defs)
  have k: "k_subpool example_rank0_env = Inr ''addr-0''" by (simp add: example_rank0_env_def)
  have m: "model_uid example_launch_args = ''m-0''" by (simp add: example_launch_args_def)
  note t = guard_and_table_exclusive
    [where gpu_devices = "[0]" and w = "init_worker [0]" and cfg = example_config
       and lenv = example_launch_env and args = example_launch_args
       and kenv = example_rank0_env and uid = "''m-rank0''" and origin_uid = "''m''"
       and a = "''addr-0''"]
  have a: "guard_table_disjoint (init_worker [0])" by (rule t [THEN conjunct1])
  have b: "guard_table_disjoint
        (fst (launch_builtin_model example_config example_launch_env (init_worker [0])
                example_launch_args))"
    by (rule t [THEN conjunct2, THEN conjunct1, THEN mp, THEN conjunct1]) (rule a)
  have c: "\<not> in_dict (model_uid example_launch_args) (model_uid_launching_guard
        (fst (launch_builtin_model example_config example_launch_env (init_worker [0])
                example_launch_args)))"
    by (rule t [THEN conjunct2, THEN conjunct2, THEN conjunct2, THEN conjunct2, THEN conjunct1,
                THEN mp])
       (simp only: p v simp_thms)
  have d: "\<not> in_dict ''m-rank0'' (model_uid_launching_guard
        (fst (launch_rank0_model example_rank0_env (init_worker [0]) ''m-rank0'')))"
    by (rule t [THEN conjunct2, THEN conjunct2, THEN conjunct2, THEN conjunct2, THEN conjunct2,
                THEN mp, THEN conjunct2]) (rule k)
  from a b c d show ?thesis unfolding m by blast
qed

text \<open>
  C3. Launch arguments are always stored under their own uid, and only under a uid the
  parser accepts. In such a state, a uid whose recovery counter is \<open>N\<close> is re-launched at
  most \<open>N\<close> times by any sequence of sub-pool deaths, in any environments. When the pool
  of a committed uid dies: a counter \<open>c > 0\<close> makes the callback call \<open>recover_model\<close>
  with the stored arguments and leaves the counter at \<open>c - 1\<close>; a counter \<open>c \<le> 0\<close>
  makes it call nothing and leaves the counter at \<open>c\<close> or removed; a null or missing
  counter makes it call \<open>recover_model\<close>, and with a null recover limit the counter is
  null or removed afterwards, never a number. For a stored uid the parser rejected, a
  counter \<open>c > 0\<close> would make the callback raise the parser's error before the counter
  is written, with nothing called.
\<close>

theorem recovery_counter_bounds_relaunches:
  "args_keyed (init_worker gpu_devices)
   \<and> (args_keyed w \<longrightarrow>
         args_keyed (fst (launch_builtin_model cfg lenv w args))
       \<and> args_keyed (fst (launch_rank0_model kenv w uid))
       \<and> args_keyed (fst (terminate_model cfg tenv w uid die))
       \<and> args_keyed (fst (recover_sub_pool cfg env w address)))
   \<and> uids_parse cfg (init_worker gpu_devices)
   \<and> (uids_parse cfg w \<longrightarrow>
         uids_parse cfg (fst (launch_builtin_model cfg lenv w args))
       \<and> uids_parse cfg (fst (launch_rank0_model kenv w uid))
       \<and> uids_parse cfg (fst (terminate_model cfg tenv w uid die))
       \<and> uids_parse cfg (fst (recover_sub_pool cfg env w address)))
   \<and> (args_keyed w \<and> map_of (model_uid_to_recover_count w) uid = Some (Some N) \<longrightarrow>
         count_list (snd (run_deaths cfg w deaths)) uid \<le> nat N)
   \<and> (find (\<lambda>(u, a). a = address) (model_uid_to_addr w) = Some (uid, address)
        \<and> map_of (model_uid_to_launch_args w) uid = Some args \<longrightarrow>
         (uids_parse cfg w \<longrightarrow>
           (\<forall>c. map_of (model_uid_to_recover_count w) uid = Some (Some c) \<and> 0 < c \<longrightarrow>
              fst (snd (recover_sub_pool cfg env w address)) = Some (model_uid args)
            \<and> map_of (model_uid_to_recover_count (fst (recover_sub_pool cfg env w address))) uid
                = Some (Some (c - 1))))
       \<and> (\<forall>c e. map_of (model_uid_to_recover_count w) uid = Some (Some c) \<and> 0 < c
              \<and> parse_replica_model_uid cfg uid = Inl e \<longrightarrow>
            snd (recover_sub_pool cfg env w address) = (None, Inl e)
          \<and> (map_of (model_uid_to_recover_count (fst (recover_sub_pool cfg env w address))) uid
                = Some (Some c)
             \<or> map_of (model_uid_to_recover_count (fst (recover_sub_pool cfg env w address))) uid
                = None))
       \<and> (\<forall>c. map_of (model_uid_to_recover_count w) uid = Some (Some c) \<and> c \<le> 0 \<longrightarrow>
            fst (snd (recover_sub_pool cfg env w address)) = None
          \<and> (map_of (model_uid_to_recover_count (fst (recover_sub_pool cfg env w address))) uid
                = Some (Some c)
             \<or> map_of (model_uid_to_recover_count (fst (recover_sub_pool cfg env w address))) uid
                = None))
       \<and> (map_of (model_uid_to_recover_count w) uid = None
            \<or> map_of (model_uid_to_recover_count w) uid = Some None \<longrightarrow>
            fst (snd (recover_sub_pool cfg env w address)) = Some (model_uid args))
       \<and> (map_of (model_uid_to_recover_count w) uid = Some None
            \<and> MODEL_ACTOR_AUTO_RECOVER_LIMIT cfg = None \<and> model_uid args = uid \<longrightarrow>
            map_of (model_uid_to_recover_count (fst (recover_sub_pool cfg env w address))) uid
                = Some None
          \<or> map_of (model_uid_to_recover_count (fst (recover_sub_pool cfg env w address))) uid
                = None))"
proof -
  have inv: "args_keyed w \<longrightarrow>
         args_keyed (fst (launch_builtin_model cfg lenv w args))
       \<and> args_keyed (fst (launch_rank0_model kenv w uid))
       \<and> args_keyed (fst (terminate_model cfg tenv w uid die))
       \<and> args_keyed (fst (recover_sub_pool cfg env w address))"
    by (simp add: args_keyed_launch args_keyed_rank0 args_keyed_terminate args_keyed_recover)
  have inv2: "uids_parse cfg w \<longrightarrow>
         uids_parse cfg (fst (launch_builtin_model cfg lenv w args))
       \<and> uids_parse cfg (fst (launch_rank0_model kenv w uid))
       \<and> uids_parse cfg (fst (terminate_model cfg tenv w uid die))
       \<and> uids_parse cfg (fst (recover_sub_pool cfg env w address))"
    by (simp add: uids_parse_launch uids_parse_rank0 uids_parse_terminate uids_parse_recover)
  have bound: "args_keyed w \<and> map_of (model_uid_to_recover_count w) uid = Some (Some N) \<longrightarrow>
         count_list (snd (run_deaths cfg w deaths)) uid \<le> nat N"
  proof
    assume a: "args_keyed w \<and> map_of (model_uid_to_recover_count w) uid = Some (Some N)"
    then have b: "recover_bounded w uid" by (simp add: recover_bounded_iff)
    have "recover_budget w uid \<le> nat N"
      using a by (simp add: recover_budget_def split: option.splits)
    with run_deaths_bounded [of w uid cfg deaths] a b
    show "count_list (snd (run_deaths cfg w deaths)) uid \<le> nat N" by simp
  qed
  have step: "find (\<lambda>(u, a). a = address) (model_uid_to_addr w) = Some (uid, address)
        \<and> map_of (model_uid_to_launch_args w) uid = Some args \<longrightarrow>
         (uids_parse cfg w \<longrightarrow>
           (\<forall>c. map_of (model_uid_to_recover_count w) uid = Some (Some c) \<and> 0 < c \<longrightarrow>
              fst (snd (recover_sub_pool cfg env w address)) = Some (model_uid args)
            \<and> map_of (model_uid_to_recover_count (fst (recover_sub_pool cfg env w address))) uid
                = Some (Some (c - 1))))
       \<and> (\<forall>c e. map_of (model_uid_to_recover_count w) uid = Some (Some c) \<and> 0 < c
              \<and> parse_replica_model_uid cfg uid = Inl e \<longrightarrow>
            snd (recover_sub_pool cfg env w address) = (None, Inl e)
          \<and> (map_of (model_uid_to_recover_count (fst (recover_sub_pool cfg env w address))) uid
                = Some (Some c)
             \<or> map_of (model_uid_to_recover_count (fst (recover_sub_pool cfg env w address))) uid
                = None))
       \<and> (\<forall>c. map_of (model_uid_to_recover_count w) uid = Some (Some c) \<and> c \<le> 0 \<longrightarrow>
            fst (snd (recover_sub_pool cfg env w address)) = None
          \<and> (map_of (model_uid_to_recover_count (fst (recover_sub_pool cfg env w address))) uid
                = Some (Some c)
             \<or> map_of (model_uid_to_recover_count (fst (recover_sub_pool cfg env w address))) uid
                = None))
       \<and> (map_of (model_uid_to_recover_count w) uid = None
            \<or> map_of (model_uid_to_recover_count w) uid = Some None \<longrightarrow>
            fst (snd (recover_sub_pool cfg env w address)) = Some (model_uid args))
       \<and> (map_of (model_uid_to_recover_count w) uid = Some None
            \<and> MODEL_ACTOR_AUTO_RECOVER_LIMIT cfg = None \<and> model_uid args = uid \<longrightarrow>
            map_of (model_uid_to_recover_count (fst (recover_sub_pool cfg env w address))) uid
                = Some None
          \<or> map_of (model_uid_to_recover_count (fst (recover_sub_pool cfg env w address))) uid
                = None)"
  proof
    assume a: "find (\<lambda>(u, a). a = address) (model_uid_to_addr w) = Some (uid, address)
        \<and> map_of (model_uid_to_launch_args w) uid = Some args"
    then have f: "find (\<lambda>(u, a). a = address) (model_uid_to_addr w) = Some (uid, address)"
      and la: "map_of (model_uid_to_launch_args w) uid = Some args" by simp_all
    note r = recover_sub_pool_committed [OF f la, of cfg env]
    have p: "\<exists>ev. parse_replica_model_uid cfg uid = Inr ev" if "uids_parse cfg w"
      using that la by (simp add: uids_parse_alt la_of_def)
    have 1: "uids_parse cfg w \<longrightarrow>
           (\<forall>c. map_of (model_uid_to_recover_count w) uid = Some (Some c) \<and> 0 < c \<longrightarrow>
              fst (snd (recover_sub_pool cfg env w address)) = Some (model_uid args)
            \<and> map_of (model_uid_to_recover_count (fst (recover_sub_pool cfg env w address))) uid
                = Some (Some (c - 1)))"
      using r [THEN conjunct1] p by blast
    from 1 r [THEN conjunct2]
    show "(uids_parse cfg w \<longrightarrow>
           (\<forall>c. map_of (model_uid_to_recover_count w) uid = Some (Some c) \<and> 0 < c \<longrightarrow>
              fst (snd (recover_sub_pool cfg env w address)) = Some (model_uid args)
            \<and> map_of (model_uid_to_recover_count (fst (recover_sub_pool cfg env w address))) uid
                = Some (Some (c - 1))))
       \<and> (\<forall>c e. map_of (model_uid_to_recover_count w) uid = Some (Some c) \<and> 0 < c
              \<and> parse_replica_model_uid cfg uid = Inl e \<longrightarrow>
            snd (recover_sub_pool cfg env w address) = (None, Inl e)
          \<and> (map_of (model_uid_to_recover_count (fst (recover_sub_pool cfg env w address))) uid
                = Some (Some c)
             \<or> map_of (model_uid_to_recover_count (fst (recover_sub_pool cfg env w address))) uid
                = None))
       \<and> (\<forall>c. map_of (model_uid_to_recover_count w) uid = Some (Some c) \<and> c \<le> 0 \<longrightarrow>
            fst (snd (recover_sub_pool cfg env w address)) = None
          \<and> (map_of (model_uid_to_recover_count (fst (recover_sub_pool cfg env w address))) uid
                = Some (Some c)
             \<or> map_of (model_uid_to_recover_count (fst (recover_sub_pool cfg env w address))) uid
                = None))
       \<and> (map_of (model_uid_to_recover_count w) uid = None
            \<or> map_of (model_uid_to_recover_count w) uid = Some None \<longrightarrow>
            fst (snd (recover_sub_pool cfg env w address)) = Some (model_uid args))
       \<and> (map_of (model_uid_to_recover_count w) uid = Some None
            \<and> MODEL_ACTOR_AUTO_RECOVER_LIMIT cfg = None \<and> model_uid args = uid \<longrightarrow>
            map_of (model_uid_to_recover_count (fst (recover_sub_pool cfg env w address))) uid
                = Some None
          \<or> map_of (model_uid_to_recover_count (fst (recover_sub_pool cfg env w address))) uid
                = None)"
      by (rule conjI)
  qed
  from args_keyed_init inv uids_parse_init inv2 bound step show ?thesis
    by (intro conjI)
qed

theorem recovery_counter_bounds_relaunches_witness:
  "args_keyed example_committed
   \<and> uids_parse example_config example_committed
   \<and> map_of (model_uid_to_recover_count example_committed) ''m-0'' = Some (Some 1)
   \<and> count_list (snd (run_deaths example_config example_committed
        [(''addr-1'', example_recover_env), (''addr-1'', example_recover_env)])) ''m-0'' \<le> 1
   \<and> fst (snd (recover_sub_pool example_config example_recover_env example_committed ''addr-1''))
        = Some ''m-0''
   \<and> map_of (model_uid_to_recover_count
        (fst (recover_sub_pool example_config example_recover_env example_committed ''addr-1'')))
        ''m-0'' = Some (Some 0)
   \<and> snd (recover_sub_pool example_config example_recover_env example_unparsable ''addr-1'')
        = (None, Inl InvalidArg)
   \<and> map_of (model_uid_to_recover_count
        (fst (recover_sub_pool example_config example_recover_env example_unparsable ''addr-1'')))
        ''mx'' = Some (Some 1)"
proof -
  note t = recovery_counter_bounds_relaunches
    [where w = example_committed and cfg = example_config and uid = "''m-0''"
       and env = example_recover_env and address = "''addr-1''" and N = 1
       and deaths = "[(''addr-1'', example_recover_env), (''addr-1'', example_recover_env)]"
       and args = example_launch_args]
  note f = example_committed_facts
  have m: "model_uid example_launch_args = ''m-0''" by (simp add: example_launch_args_def)
  have "count_list (snd (run_deaths example_config example_committed
        [(''addr-1'', example_recover_env), (''addr-1'', example_recover_env)])) ''m-0'' \<le> nat 1"
    by (rule t [THEN conjunct2, THEN conjunct2, THEN conjunct2, THEN conjunct2,
                THEN conjunct1, THEN mp])
       (simp only: f simp_thms)
  then have c: "count_list (snd (run_deaths example_config example_committed
        [(''addr-1'', example_recover_env), (''addr-1'', example_recover_env)])) ''m-0'' \<le> 1"
    by (simp del: run_deaths.simps)
  have s: "\<forall>c. map_of (model_uid_to_recover_count example_committed) ''m-0'' = Some (Some c) \<and> 0 < c \<longrightarrow>
            fst (snd (recover_sub_pool example_config example_recover_env example_committed ''addr-1''))
              = Some (model_uid example_launch_args)
          \<and> map_of (model_uid_to_recover_count
               (fst (recover_sub_pool example_config example_recover_env example_committed ''addr-1'')))
               ''m-0'' = Some (Some (c - 1))"
    by (rule t [THEN conjunct2, THEN conjunct2, THEN conjunct2, THEN conjunct2,
                THEN conjunct2, THEN mp, THEN conjunct1, THEN mp])
       (simp_all only: f simp_thms)
  from s [rule_format, of 1] f(2) m
  have d: "fst (snd (recover_sub_pool example_config example_recover_env example_committed ''addr-1''))
        = Some ''m-0''
   \<and> map_of (model_uid_to_recover_count
        (fst (recover_sub_pool example_config example_recover_env example_committed ''addr-1'')))
        ''m-0'' = Some (Some 0)"
    by simp
  have u: "find (\<lambda>(u, a). a = ''addr-1'') (model_uid_to_addr example_unparsable)
             = Some (''mx'', ''addr-1'')"
      "map_of (model_uid_to_launch_args example_unparsable) ''mx''
             = Some (example_launch_args\<lparr>model_uid := ''mx''\<rparr>)"
      "map_of (model_uid_to_recover_count example_unparsable) ''mx'' = Some (Some 1)"
      "parse_replica_model_uid example_config ''mx'' = Inl InvalidArg"
    by (simp_all add: example_unparsable_def example_committed_def init_worker_def
          example_config_def)
  have "\<forall>c e. map_of (model_uid_to_recover_count example_unparsable) ''mx'' = Some (Some c)
            \<and> 0 < c \<and> parse_replica_model_uid example_config ''mx'' = Inl e \<longrightarrow>
          snd (recover_sub_pool example_config example_recover_env example_unparsable ''addr-1'')
            = (None, Inl e)
        \<and> (map_of (model_uid_to_recover_count
               (fst (recover_sub_pool example_config example_recover_env example_unparsable
                  ''addr-1''))) ''mx'' = Some (Some c)
           \<or> map_of (model_uid_to_recover_count
               (fst (recover_sub_pool example_config example_recover_env example_unparsable
                  ''addr-1''))) ''mx'' = None)"
    by (rule recovery_counter_bounds_relaunches
          [where w = example_unparsable and cfg = example_config and uid = "''mx''"
             and env = example_recover_env and address = "''addr-1''"
             and args = "example_launch_args\<lparr>model_uid := ''mx''\<rparr>",
           THEN conjunct2, THEN conjunct2, THEN conjunct2, THEN conjunct2, THEN conjunct2,
           THEN mp, THEN conjunct2, THEN conjunct1])
       (simp only: u simp_thms)
  from this [rule_format, of 1 InvalidArg] u(3,4)
  have x: "snd (recover_sub_pool example_config example_recover_env example_unparsable ''addr-1'')
        = (None, Inl InvalidArg)"
    by simp
  have y: "map_of (model_uid_to_recover_count
        (fst (recover_sub_pool example_config example_recover_env example_unparsable ''addr-1'')))
        ''mx'' = Some (Some 1)"
    by (simp add: recover_sub_pool_def example_unparsable_def example_defs remove_sub_pools_def
          terminate_model_def origin_of_def suffix_to_prefix in_dict_def Let_def)
  from f(1,2,5) c d x y show ?thesis by blast
qed


text \<open>
  C5. The candidates of the embedding allocator are the GPUs of the worker whose exclusive
  owner, if any, and whose user-specified tenants are all not vLLM-backed (which includes
  the GPUs without owner and tenant). The count the allocator compares is the tenant count
  of the specification: exclusive owner plus embedding tenants plus user-pinned tenants.
  Without a candidate the allocator fails with \<open>NoSlot\<close>; otherwise it returns the first
  candidate, in the order of the worker's GPUs, whose tenant count is smallest among the
  candidates, and records the uid as an embedding tenant there, changing nothing else.
  With a vLLM-backed model on GPU 0, nothing on GPU 1 and an embedding model on GPU 2 the
  allocator returns GPU 1. With an exclusive owner on GPU 0, an embedding tenant on GPU 1, a
  user-pinned tenant on GPU 2 and nothing on GPU 3 it returns GPU 3; with two embedding
  tenants on GPU 0 and an exclusive owner on GPU 1 it returns GPU 1.
\<close>

theorem embedding_fewest_tenants:
  "(dev \<in> set (embedding_candidates vllm w) \<longleftrightarrow>
      dev \<in> set (total_gpu_devices w)
    \<and> (\<forall>u. map_of (gpu_to_model_uid w) dev = Some u \<longrightarrow> \<not> vllm u)
    \<and> (\<forall>u t. (u, t) \<in> set (default_get (user_specified_gpu_to_model_uids w) dev) \<longrightarrow> \<not> vllm u))
   \<and> existing_cnt w dev = int (tenant_count w dev)
   \<and> (embedding_candidates vllm w = [] \<longrightarrow>
        allocate_devices_for_embedding vllm w uid = Inl NoSlot)
   \<and> (embedding_candidates vllm w \<noteq> [] \<longrightarrow>
        (\<exists>d w' pre post. allocate_devices_for_embedding vllm w uid = Inr (d, w')
           \<and> d \<in> set (embedding_candidates vllm w)
           \<and> (\<forall>c \<in> set (embedding_candidates vllm w). tenant_count w d \<le> tenant_count w c)
           \<and> embedding_candidates vllm w = pre @ d # post
           \<and> (\<forall>c \<in> set pre. tenant_count w d < tenant_count w c)
           \<and> w' = w\<lparr>gpu_to_embedding_model_uids :=
                       default_add d uid (gpu_to_embedding_model_uids w)\<rparr>
           \<and> uid \<in> set (default_get (gpu_to_embedding_model_uids w') d)))
   \<and> (\<exists>w'. allocate_devices_for_embedding (\<lambda>u. u = ''A'')
         ((init_worker [0, 1, 2])\<lparr>gpu_to_model_uid := [(0, ''A'')],
            gpu_to_embedding_model_uids := [(2, [''B''])]\<rparr>) ''X'' = Inr (1, w'))
   \<and> (\<exists>w'. allocate_devices_for_embedding (\<lambda>u. False)
         ((init_worker [0, 1, 2, 3])\<lparr>gpu_to_model_uid := [(0, ''L'')],
            gpu_to_embedding_model_uids := [(1, [''E''])],
            user_specified_gpu_to_model_uids := [(2, [(''P'', ''rerank'')])]\<rparr>) ''X''
         = Inr (3, w'))
   \<and> (\<exists>w'. allocate_devices_for_embedding (\<lambda>u. False)
         ((init_worker [0, 1])\<lparr>gpu_to_model_uid := [(1, ''L'')],
            gpu_to_embedding_model_uids := [(0, [''E1'', ''E2''])]\<rparr>) ''X'' = Inr (1, w'))"
proof (intro conjI impI)
  show "dev \<in> set (embedding_candidates vllm w) \<longleftrightarrow>
      dev \<in> set (total_gpu_devices w)
    \<and> (\<forall>u. map_of (gpu_to_model_uid w) dev = Some u \<longrightarrow> \<not> vllm u)
    \<and> (\<forall>u t. (u, t) \<in> set (default_get (user_specified_gpu_to_model_uids w) dev) \<longrightarrow> \<not> vllm u)"
    by (rule embedding_candidates_iff)
next
  show "existing_cnt w dev = int (tenant_count w dev)"
    by (rule existing_cnt_tenant_count)
next
  assume "embedding_candidates vllm w = []"
  then show "allocate_devices_for_embedding vllm w uid = Inl NoSlot"
    by (simp add: allocate_devices_for_embedding_def)
next
  assume ne: "embedding_candidates vllm w \<noteq> []"
  let ?cs = "embedding_candidates vllm w"
  let ?d = "fst (pick_device w ?cs (- 1, - 1))"
  let ?w' = "w\<lparr>gpu_to_embedding_model_uids := default_add ?d uid (gpu_to_embedding_model_uids w)\<rparr>"
  from pick_device_min [OF ne, of w]
  have m: "?d \<in> set ?cs" "\<forall>c \<in> set ?cs. tenant_count w ?d \<le> tenant_count w c"
    by (simp_all add: existing_cnt_tenant_count)
  from pick_device_first_min [OF ne, of w]
  obtain pre post where p: "?cs = pre @ ?d # post"
      "\<forall>c \<in> set pre. tenant_count w ?d < tenant_count w c" by blast
  have a: "allocate_devices_for_embedding vllm w uid = Inr (?d, ?w')"
    using ne by (simp add: allocate_devices_for_embedding_def Let_def)
  have u: "uid \<in> set (default_get (gpu_to_embedding_model_uids ?w') ?d)"
    by (simp add: default_get_default_add)
  from a m p u
  show "\<exists>d w' pre post. allocate_devices_for_embedding vllm w uid = Inr (d, w')
           \<and> d \<in> set (embedding_candidates vllm w)
           \<and> (\<forall>c \<in> set (embedding_candidates vllm w). tenant_count w d \<le> tenant_count w c)
           \<and> embedding_candidates vllm w = pre @ d # post
           \<and> (\<forall>c \<in> set pre. tenant_count w d < tenant_count w c)
           \<and> w' = w\<lparr>gpu_to_embedding_model_uids :=
                       default_add d uid (gpu_to_embedding_model_uids w)\<rparr>
           \<and> uid \<in> set (default_get (gpu_to_embedding_model_uids w') d)"
    by blast
next
  show "\<exists>w'. allocate_devices_for_embedding (\<lambda>u. u = ''A'')
         ((init_worker [0, 1, 2])\<lparr>gpu_to_model_uid := [(0, ''A'')],
            gpu_to_embedding_model_uids := [(2, [''B''])]\<rparr>) ''X'' = Inr (1, w')"
    by (rule embedding_scenario)
next
  show "\<exists>w'. allocate_devices_for_embedding (\<lambda>u. False)
         ((init_worker [0, 1, 2, 3])\<lparr>gpu_to_model_uid := [(0, ''L'')],
            gpu_to_embedding_model_uids := [(1, [''E''])],
            user_specified_gpu_to_model_uids := [(2, [(''P'', ''rerank'')])]\<rparr>) ''X''
         = Inr (3, w')"
    using embedding_scenario_each_kind by blast
next
  show "\<exists>w'. allocate_devices_for_embedding (\<lambda>u. False)
         ((init_worker [0, 1])\<lparr>gpu_to_model_uid := [(1, ''L'')],
            gpu_to_embedding_model_uids := [(0, [''E1'', ''E2''])]\<rparr>) ''X'' = Inr (1, w')"
    using embedding_scenario_sizes by blast
qed

theorem embedding_fewest_tenants_witness:
  "embedding_candidates (\<lambda>u. False)
     ((init_worker [0, 1, 2])\<lparr>gpu_to_model_uid := [(0, ''L'')],
        gpu_to_embedding_model_uids := [(0, [''E1'']), (1, [''E2'', ''E3''])],
        user_specified_gpu_to_model_uids := [(1, [(''P'', ''rerank'')])]\<rparr>) = [0, 1, 2]
   \<and> tenant_count
     ((init_worker [0, 1, 2])\<lparr>gpu_to_model_uid := [(0, ''L'')],
        gpu_to_embedding_model_uids := [(0, [''E1'']), (1, [''E2'', ''E3''])],
        user_specified_gpu_to_model_uids := [(1, [(''P'', ''rerank'')])]\<rparr>) 0 = 2
   \<and> tenant_count
     ((init_worker [0, 1, 2])\<lparr>gpu_to_model_uid := [(0, ''L'')],
        gpu_to_embedding_model_uids := [(0, [''E1'']), (1, [''E2'', ''E3''])],
        user_specified_gpu_to_model_uids := [(1, [(''P'', ''rerank'')])]\<rparr>) 1 = 3
   \<and> tenant_count
     ((init_worker [0, 1, 2])\<lparr>gpu_to_model_uid := [(0, ''L'')],
        gpu_to_embedding_model_uids := [(0, [''E1'']), (1, [''E2'', ''E3''])],
        user_specified_gpu_to_model_uids := [(1, [(''P'', ''rerank'')])]\<rparr>) 2 = 0
   \<and> (\<exists>w'. allocate_devices_for_embedding (\<lambda>u. False)
     ((init_worker [0, 1, 2])\<lparr>gpu_to_model_uid := [(0, ''L'')],
        gpu_to_embedding_model_uids := [(0, [''E1'']), (1, [''E2'', ''E3''])],
        user_specified_gpu_to_model_uids := [(1, [(''P'', ''rerank'')])]\<rparr>) ''e'' = Inr (2, w'))
   \<and> embedding_candidates (\<lambda>u. False) (init_worker []) = []
   \<and> allocate_devices_for_embedding (\<lambda>u. False) (init_worker []) ''e'' = Inl NoSlot"
proof -
  let ?w = "(init_worker [0, 1, 2])\<lparr>gpu_to_model_uid := [(0, ''L'')],
        gpu_to_embedding_model_uids := [(0, [''E1'']), (1, [''E2'', ''E3''])],
        user_specified_gpu_to_model_uids := [(1, [(''P'', ''rerank'')])]\<rparr>"
  have c: "embedding_candidates (\<lambda>u. False) ?w = [0, 1, 2]"
    by (simp add: embedding_candidates_def has_vllm_model_def init_worker_def in_dict_def
          default_get_def)
  have t: "tenant_count ?w 0 = 2" "tenant_count ?w 1 = 3" "tenant_count ?w 2 = 0"
    by (simp_all add: tenant_count_def default_get_def)
  have e: "embedding_candidates (\<lambda>u. False) (init_worker []) = []"
    by (simp add: embedding_candidates_def init_worker_def)
  have ne: "embedding_candidates (\<lambda>u. False) ?w \<noteq> []" by (simp only: c) simp
  from embedding_fewest_tenants [where w = ?w and vllm = "\<lambda>u. False" and uid = "''e''",
      THEN conjunct2, THEN conjunct2, THEN conjunct2, THEN conjunct1, THEN mp, OF ne]
  obtain d w' where a: "allocate_devices_for_embedding (\<lambda>u. False) ?w ''e'' = Inr (d, w')"
      "d \<in> set (embedding_candidates (\<lambda>u. False) ?w)"
      "\<forall>c \<in> set (embedding_candidates (\<lambda>u. False) ?w). tenant_count ?w d \<le> tenant_count ?w c"
    by blast
  from a(2,3) t have "d = 2" unfolding c by auto
  with a(1) have s: "\<exists>w'. allocate_devices_for_embedding (\<lambda>u. False) ?w ''e'' = Inr (2, w')"
    by blast
  have n: "allocate_devices_for_embedding (\<lambda>u. False) (init_worker []) ''e'' = Inl NoSlot"
    by (rule embedding_fewest_tenants [where w = "init_worker []" and vllm = "\<lambda>u. False"
        and uid = "''e''", THEN conjunct2, THEN conjunct2, THEN conjunct1, THEN mp, OF e])
  from c t s e n show ?thesis by (intro conjI)
qed
text \<open>
  C6. Pinning checks the exclusive owner of each requested GPU and fails with \<open>Conflict\<close>
  when that owner is vLLM-backed, but it never reads the user-specified tenants of the
  GPU. After the vLLM-backed \<open>v\<close> has been pinned on GPU 0 of a worker with one GPU,
  pinning \<open>x\<close> on GPU 0 succeeds and records \<open>x\<close> next to \<open>v\<close>, where the
  specification asks for \<open>Conflict\<close>. In the same state the embedding allocator, which
  probes the user-specified tenants as well, finds the GPU held by a vLLM model and has no
  candidate; and with \<open>v\<close> as the exclusive owner of GPU 0 the same request is refused.
\<close>

theorem allocate_pinned_misses_pinned_vllm:
  "allocate_devices_with_gpu_idx (\<lambda>u. u = ''v'') (init_worker [0]) ''v'' ''LLM'' [0]
     = Inr ([0], (init_worker [0])\<lparr>user_specified_gpu_to_model_uids :=
                   [(0, [(''v'', ''LLM'')])]\<rparr>)
   \<and> allocate_devices_with_gpu_idx (\<lambda>u. u = ''v'')
        ((init_worker [0])\<lparr>user_specified_gpu_to_model_uids := [(0, [(''v'', ''LLM'')])]\<rparr>)
        ''x'' ''LLM'' [0]
     = Inr ([0], (init_worker [0])\<lparr>user_specified_gpu_to_model_uids :=
                   [(0, [(''x'', ''LLM''), (''v'', ''LLM'')])]\<rparr>)
   \<and> allocate_devices_for_embedding (\<lambda>u. u = ''v'')
        ((init_worker [0])\<lparr>user_specified_gpu_to_model_uids := [(0, [(''v'', ''LLM'')])]\<rparr>)
        ''e''
     = Inl NoSlot
   \<and> allocate_devices_with_gpu_idx (\<lambda>u. u = ''v'')
        ((init_worker [0])\<lparr>gpu_to_model_uid := [(0, ''v'')]\<rparr>) ''x'' ''LLM'' [0]
     = Inl Conflict"
proof (intro conjI)
  show "allocate_devices_with_gpu_idx (\<lambda>u. u = ''v'') (init_worker [0]) ''v'' ''LLM'' [0]
     = Inr ([0], (init_worker [0])\<lparr>user_specified_gpu_to_model_uids :=
                   [(0, [(''v'', ''LLM'')])]\<rparr>)"
    by (simp add: allocate_devices_with_gpu_idx_def init_worker_def default_add_def
          default_get_def)
next
  show "allocate_devices_with_gpu_idx (\<lambda>u. u = ''v'')
        ((init_worker [0])\<lparr>user_specified_gpu_to_model_uids := [(0, [(''v'', ''LLM'')])]\<rparr>)
        ''x'' ''LLM'' [0]
     = Inr ([0], (init_worker [0])\<lparr>user_specified_gpu_to_model_uids :=
                   [(0, [(''x'', ''LLM''), (''v'', ''LLM'')])]\<rparr>)"
    by (simp add: allocate_devices_with_gpu_idx_def init_worker_def default_add_def
          default_get_def)
next
  show "allocate_devices_for_embedding (\<lambda>u. u = ''v'')
        ((init_worker [0])\<lparr>user_specified_gpu_to_model_uids := [(0, [(''v'', ''LLM'')])]\<rparr>)
        ''e''
     = Inl NoSlot"
    by (simp add: allocate_devices_for_embedding_def embedding_candidates_def
          has_vllm_model_def init_worker_def in_dict_def default_get_def)
next
  show "allocate_devices_with_gpu_idx (\<lambda>u. u = ''v'')
        ((init_worker [0])\<lparr>gpu_to_model_uid := [(0, ''v'')]\<rparr>) ''x'' ''LLM'' [0]
     = Inl Conflict"
    by (simp add: allocate_devices_with_gpu_idx_def init_worker_def)
qed



text \<open>
  C8. Terminating a uid that is in the Launching Guard raises \<open>Busy\<close> and returns the
  worker state as it was: guard, tables, device maps, sub-pools and the Status Guard are
  unchanged.
\<close>

theorem terminate_while_launching_is_busy:
  "in_dict uid (model_uid_launching_guard w) \<Longrightarrow>
   terminate_model cfg env w uid is_model_die = (w, Inl Busy)"
  by (simp add: terminate_model_def)

theorem terminate_while_launching_is_busy_witness:
  "in_dict ''t-0'' (model_uid_launching_guard
       ((init_worker [0])\<lparr>model_uid_launching_guard := [(''t-0'', LaunchInfo)]\<rparr>))
   \<and> terminate_model example_config example_terminate_env
       ((init_worker [0])\<lparr>model_uid_launching_guard := [(''t-0'', LaunchInfo)]\<rparr>) ''t-0'' False
     = ((init_worker [0])\<lparr>model_uid_launching_guard := [(''t-0'', LaunchInfo)]\<rparr>, Inl Busy)"
proof -
  have g: "in_dict ''t-0'' (model_uid_launching_guard
       ((init_worker [0])\<lparr>model_uid_launching_guard := [(''t-0'', LaunchInfo)]\<rparr>))"
    by (simp add: in_dict_def)
  show ?thesis
    using g terminate_while_launching_is_busy [OF g, of example_config example_terminate_env False]
    by simp
qed

text \<open>
  C9. Amended: terminating a uid that is in the Launching Guard is refused with \<open>Busy\<close>,
  and a uid the parser rejects raises the parser's error, both before anything is pushed or
  removed and whether or not the Model Table knows the uid. Terminating any other uid,
  whether or not the Model Table knows it, returns normally when the Status Guard is known
  once the first connection attempt has been made and accepts the two updates: it pushes
  \<open>TERMINATING\<close> and then \<open>ERROR\<close> (model died) or \<open>TERMINATED\<close>, and leaves no
  entry of the uid in the Model Table, the description table, the address map, the
  recovery counters, the launch arguments and the three device maps. A second call for
  the same uid returns normally again, pushes its two statuses, and changes none of these
  tables nor the sub-pools. When the worker has neither a supervisor nor a Status Guard
  reference and the first connection attempt is refused, \<open>TERMINATING\<close> is not pushed:
  the call cleans up, connects in its \<open>finally\<close> block and, when that connection
  succeeds and the update is accepted, pushes the terminal status only.
\<close>

theorem terminate_unknown_uid_idempotent:
  "(in_dict uid (model_uid_launching_guard w) \<longrightarrow>
      terminate_model cfg env w uid die = (w, Inl Busy))
   \<and> (\<not> in_dict uid (model_uid_launching_guard w) \<and> origin_of cfg uid = Inl e \<longrightarrow>
      terminate_model cfg env w uid die = (w, Inl e))
   \<and> (\<not> in_dict uid (model_uid_launching_guard w) \<and> origin_of cfg uid = Inr origin_uid
      \<and> status_guard_ref (fst (get_supervisor_ref (t_connect env) w))
      \<and> t_terminating_ok env \<and> t_terminal_ok env
      \<and> t_terminating_ok env2 \<and> t_terminal_ok env2 \<longrightarrow>
        (\<exists>w' w''.
           terminate_model cfg env w uid die = (w', Inr ())
         \<and> status_guard w' = status_guard w @
              [(origin_uid, TERMINATING), (origin_uid, if die then ERROR else TERMINATED)]
         \<and> uid_absent w' uid
         \<and> terminate_model cfg env2 w' uid die2 = (w'', Inr ())
         \<and> status_guard w'' = status_guard w' @
              [(origin_uid, TERMINATING), (origin_uid, if die2 then ERROR else TERMINATED)]
         \<and> uid_absent w'' uid
         \<and> model_uid_to_model w'' = model_uid_to_model w'
         \<and> model_uid_to_model_spec w'' = model_uid_to_model_spec w'
         \<and> model_uid_to_addr w'' = model_uid_to_addr w'
         \<and> model_uid_to_recover_count w'' = model_uid_to_recover_count w'
         \<and> model_uid_to_launch_args w'' = model_uid_to_launch_args w'
         \<and> gpu_to_model_uid w'' = gpu_to_model_uid w'
         \<and> gpu_to_embedding_model_uids w'' = gpu_to_embedding_model_uids w'
         \<and> user_specified_gpu_to_model_uids w'' = user_specified_gpu_to_model_uids w'
         \<and> main_pool w'' = main_pool w'))
   \<and> (\<not> in_dict uid (model_uid_launching_guard w) \<and> origin_of cfg uid = Inr origin_uid
      \<and> \<not> supervisor_ref w \<and> \<not> status_guard_ref w
      \<and> t_connect env = Refused \<and> t_reconnect env = Connected \<and> t_terminal_ok env \<longrightarrow>
        (\<exists>w'. terminate_model cfg env w uid die = (w', Inr ())
           \<and> status_guard w' = status_guard w @
                [(origin_uid, if die then ERROR else TERMINATED)]
           \<and> uid_absent w' uid))"
proof (intro conjI impI)
  assume "in_dict uid (model_uid_launching_guard w)"
  then show "terminate_model cfg env w uid die = (w, Inl Busy)"
    by (simp add: terminate_model_def)
next
  assume "\<not> in_dict uid (model_uid_launching_guard w) \<and> origin_of cfg uid = Inl e"
  then show "terminate_model cfg env w uid die = (w, Inl e)"
    by (simp add: terminate_model_def)
next
  assume a: "\<not> in_dict uid (model_uid_launching_guard w) \<and> origin_of cfg uid = Inr origin_uid
      \<and> status_guard_ref (fst (get_supervisor_ref (t_connect env) w))
      \<and> t_terminating_ok env \<and> t_terminal_ok env
      \<and> t_terminating_ok env2 \<and> t_terminal_ok env2"
  then have h: "\<not> in_dict uid (model_uid_launching_guard w)"
      "origin_of cfg uid = Inr origin_uid"
      "status_guard_ref (fst (get_supervisor_ref (t_connect env) w))"
      "t_terminating_ok env" "t_terminal_ok env" "t_terminating_ok env2" "t_terminal_ok env2"
    by simp_all
  show "\<exists>w' w''.
           terminate_model cfg env w uid die = (w', Inr ())
         \<and> status_guard w' = status_guard w @
              [(origin_uid, TERMINATING), (origin_uid, if die then ERROR else TERMINATED)]
         \<and> uid_absent w' uid
         \<and> terminate_model cfg env2 w' uid die2 = (w'', Inr ())
         \<and> status_guard w'' = status_guard w' @
              [(origin_uid, TERMINATING), (origin_uid, if die2 then ERROR else TERMINATED)]
         \<and> uid_absent w'' uid
         \<and> model_uid_to_model w'' = model_uid_to_model w'
         \<and> model_uid_to_model_spec w'' = model_uid_to_model_spec w'
         \<and> model_uid_to_addr w'' = model_uid_to_addr w'
         \<and> model_uid_to_recover_count w'' = model_uid_to_recover_count w'
         \<and> model_uid_to_launch_args w'' = model_uid_to_launch_args w'
         \<and> gpu_to_model_uid w'' = gpu_to_model_uid w'
         \<and> gpu_to_embedding_model_uids w'' = gpu_to_embedding_model_uids w'
         \<and> user_specified_gpu_to_model_uids w'' = user_specified_gpu_to_model_uids w'
         \<and> main_pool w'' = main_pool w'"
    by (rule terminate_model_twice [OF h])
next
  assume a: "\<not> in_dict uid (model_uid_launching_guard w) \<and> origin_of cfg uid = Inr origin_uid
      \<and> \<not> supervisor_ref w \<and> \<not> status_guard_ref w
      \<and> t_connect env = Refused \<and> t_reconnect env = Connected \<and> t_terminal_ok env"
  then have h: "\<not> in_dict uid (model_uid_launching_guard w)"
      "origin_of cfg uid = Inr origin_uid" "\<not> supervisor_ref w" "\<not> status_guard_ref w"
      "t_connect env = Refused" "t_reconnect env = Connected" "t_terminal_ok env"
    by simp_all
  from terminate_model_reconnect [OF h, of die]
  show "\<exists>w'. terminate_model cfg env w uid die = (w', Inr ())
           \<and> status_guard w' = status_guard w @
                [(origin_uid, if die then ERROR else TERMINATED)]
           \<and> uid_absent w' uid"
    by blast
qed

theorem terminate_unknown_uid_idempotent_witness:
  "\<not> in_dict ''m-0'' (model_uid_to_model (init_worker [0]))
   \<and> terminate_model example_config example_terminate_env
        ((init_worker [0])\<lparr>model_uid_launching_guard := [(''m-0'', LaunchInfo)]\<rparr>) ''m-0'' True
      = ((init_worker [0])\<lparr>model_uid_launching_guard := [(''m-0'', LaunchInfo)]\<rparr>, Inl Busy)
   \<and> (\<exists>w' w''.
      terminate_model example_config example_terminate_env (init_worker [0]) ''m-0'' False
        = (w', Inr ())
    \<and> status_guard w' = [(''m'', TERMINATING), (''m'', TERMINATED)]
    \<and> terminate_model example_config example_terminate_env w' ''m-0'' True = (w'', Inr ())
    \<and> status_guard w'' = status_guard w' @ [(''m'', TERMINATING), (''m'', ERROR)]
    \<and> uid_absent w'' ''m-0'')
   \<and> terminate_model example_config example_terminate_env (init_worker [0]) ''mx'' False
        = (init_worker [0], Inl InvalidArg)
   \<and> (\<exists>w'. terminate_model example_config (example_terminate_env\<lparr>t_connect := Refused\<rparr>)
          (init_worker [0]) ''m-0'' False = (w', Inr ())
        \<and> status_guard w' = [(''m'', TERMINATED)]
        \<and> uid_absent w' ''m-0'')"
proof -
  note t = terminate_unknown_uid_idempotent
    [where w = "init_worker [0]" and cfg = example_config and origin_uid = "''m''"
       and e = InvalidArg]
  have n: "\<not> in_dict ''m-0'' (model_uid_to_model (init_worker [0]))"
    by (simp add: in_dict_def init_worker_def)
  have g: "\<not> in_dict u (model_uid_launching_guard (init_worker [0]))" for u
    by (simp add: in_dict_def init_worker_def)
  have p: "origin_of example_config ''m-0'' = Inr ''m''"
    by (simp add: origin_of_def example_config_def suffix_to_prefix)
  have q: "origin_of example_config ''mx'' = Inl InvalidArg"
    by (simp add: origin_of_def example_config_def suffix_to_prefix)
  have s: "status_guard_ref (fst (get_supervisor_ref (t_connect example_terminate_env) (init_worker [0])))"
    by (simp add: get_supervisor_ref_def example_terminate_env_def init_worker_def)
  have o: "t_terminating_ok example_terminate_env" "t_terminal_ok example_terminate_env"
    by (simp_all add: example_terminate_env_def)
  have r: "\<not> supervisor_ref (init_worker [0])" "\<not> status_guard_ref (init_worker [0])"
      "t_connect (example_terminate_env\<lparr>t_connect := Refused\<rparr>) = Refused"
      "t_reconnect (example_terminate_env\<lparr>t_connect := Refused\<rparr>) = Connected"
      "t_terminal_ok (example_terminate_env\<lparr>t_connect := Refused\<rparr>)"
    by (simp_all add: init_worker_def example_terminate_env_def)
  have e: "status_guard (init_worker [0]) = []" by (simp add: init_worker_def)
  have 1: "\<exists>w' w''.
      terminate_model example_config example_terminate_env (init_worker [0]) ''m-0'' False
        = (w', Inr ())
    \<and> status_guard w' = [(''m'', TERMINATING), (''m'', TERMINATED)]
    \<and> terminate_model example_config example_terminate_env w' ''m-0'' True = (w'', Inr ())
    \<and> status_guard w'' = status_guard w' @ [(''m'', TERMINATING), (''m'', ERROR)]
    \<and> uid_absent w'' ''m-0''"
    using t [where uid = "''m-0''" and env = example_terminate_env
               and ?env2.0 = example_terminate_env and die = False and ?die2.0 = True,
             THEN conjunct2, THEN conjunct2, THEN conjunct1, THEN mp] g p s o
    unfolding e by auto
  have 2: "terminate_model example_config example_terminate_env (init_worker [0]) ''mx'' False
        = (init_worker [0], Inl InvalidArg)"
    using t [where uid = "''mx''" and env = example_terminate_env and die = False,
             THEN conjunct2, THEN conjunct1, THEN mp] g q
    by simp
  have 3: "\<exists>w'. terminate_model example_config (example_terminate_env\<lparr>t_connect := Refused\<rparr>)
          (init_worker [0]) ''m-0'' False = (w', Inr ())
        \<and> status_guard w' = [(''m'', TERMINATED)]
        \<and> uid_absent w' ''m-0''"
    using t [where uid = "''m-0''" and env = "example_terminate_env\<lparr>t_connect := Refused\<rparr>"
               and die = False,
             THEN conjunct2, THEN conjunct2, THEN conjunct2, THEN mp] g p r
    unfolding e by auto
  have b: "in_dict ''m-0'' (model_uid_launching_guard
             ((init_worker [0])\<lparr>model_uid_launching_guard := [(''m-0'', LaunchInfo)]\<rparr>))"
    by (simp add: in_dict_def)
  have 0: "terminate_model example_config example_terminate_env
        ((init_worker [0])\<lparr>model_uid_launching_guard := [(''m-0'', LaunchInfo)]\<rparr>) ''m-0'' True
      = ((init_worker [0])\<lparr>model_uid_launching_guard := [(''m-0'', LaunchInfo)]\<rparr>, Inl Busy)"
    by (rule terminate_unknown_uid_idempotent
          [where w = "(init_worker [0])\<lparr>model_uid_launching_guard := [(''m-0'', LaunchInfo)]\<rparr>"
             and cfg = example_config and env = example_terminate_env and uid = "''m-0''"
             and die = True,
           THEN conjunct1, THEN mp, OF b])
  from n 0 1 2 3 show ?thesis by (intro conjI)
qed

theorem terminate_unknown_uid_idempotent_counterexample:
  "\<not> in_dict ''m-0'' (model_uid_to_model
        ((init_worker [0])\<lparr>model_uid_launching_guard := [(''m-0'', LaunchInfo)]\<rparr>))
   \<and> terminate_model example_config example_terminate_env
        ((init_worker [0])\<lparr>model_uid_launching_guard := [(''m-0'', LaunchInfo)]\<rparr>) ''m-0'' False
      = ((init_worker [0])\<lparr>model_uid_launching_guard := [(''m-0'', LaunchInfo)]\<rparr>, Inl Busy)
   \<and> \<not> in_dict ''mx'' (model_uid_to_model (init_worker [0]))
   \<and> terminate_model example_config example_terminate_env (init_worker [0]) ''mx'' False
      = (init_worker [0], Inl InvalidArg)
   \<and> snd (terminate_model example_config (example_terminate_env\<lparr>t_connect := Refused\<rparr>)
        (init_worker [0]) ''m-0'' False) = Inr ()
   \<and> status_guard (fst (terminate_model example_config
        (example_terminate_env\<lparr>t_connect := Refused\<rparr>) (init_worker [0]) ''m-0'' False))
      = [(''m'', TERMINATED)]"
  by (simp add: terminate_model_def in_dict_def init_worker_def example_config_def
        example_terminate_env_def origin_of_def suffix_to_prefix get_supervisor_ref_def
        push_terminal_def update_instance_info_def terminate_cleanup_def
        terminate_remove_pools_def release_devices_def Let_def)
text \<open>
  C10. A rank-0 launch that succeeds on a uid without description, status record, recovery
  counter and launch arguments, at an address no other model is recorded at, stores the
  model reference and the address and none of the other four; the uid is not listed by
  \<open>list_models\<close>, and no later launch under that uid changes the listing; and when the sub-pool at that address dies, the recover callback
  removes the address from the pool, calls \<open>recover_model\<close> for no uid and changes
  nothing else.
\<close>

theorem rank0_model_not_listed_not_recovered:
  assumes "k_subpool env = Inr a" and "k_create_actor env = None"
      and "\<not> in_dict uid (model_uid_to_model_spec w)"
      and "\<not> in_dict uid (model_uid_to_model_status w)"
      and "\<not> in_dict uid (model_uid_to_recover_count w)"
      and "\<not> in_dict uid (model_uid_to_launch_args w)"
      and "\<forall>(u, x) \<in> set (model_uid_to_addr w). x \<noteq> a"
  shows "\<exists>w'. launch_rank0_model env w uid = (w', Inr a)
           \<and> map_of (model_uid_to_model w') uid = Some a
           \<and> map_of (model_uid_to_addr w') uid = Some a
           \<and> \<not> in_dict uid (model_uid_to_model_spec w')
           \<and> \<not> in_dict uid (model_uid_to_model_status w')
           \<and> \<not> in_dict uid (model_uid_to_recover_count w')
           \<and> \<not> in_dict uid (model_uid_to_launch_args w')
           \<and> \<not> in_dict uid (list_models w')
           \<and> recover_sub_pool cfg renv w' a = (remove_sub_pools [a] w', None, Inr ())
           \<and> (\<forall>lenv args. model_uid args = uid \<longrightarrow>
                 list_models (fst (launch_builtin_model cfg lenv w' args)) = list_models w')"
proof -
  let ?w1 = "(append_sub_pool a w)\<lparr>model_uid_launching_guard :=
                 AList.update uid LaunchInfo (model_uid_launching_guard w)\<rparr>"
  let ?w' = "leave_guard (?w1\<lparr>model_uid_to_model := AList.update uid a (model_uid_to_model ?w1),
                  model_uid_to_addr := AList.update uid a (model_uid_to_addr ?w1)\<rparr>) uid"
  have l: "launch_rank0_model env w uid = (?w', Inr a)"
    using assms(1,2) by (simp add: launch_rank0_model_def Let_def)
  have addr: "model_uid_to_addr ?w' = AList.update uid a (model_uid_to_addr w)"
    by (simp add: leave_guard_def append_sub_pool_def)
  have la: "map_of (model_uid_to_launch_args ?w') uid = None"
    using assms(6) by (simp add: leave_guard_def append_sub_pool_def in_dict_map_of)
  have f: "find (\<lambda>(u, x). x = a) (model_uid_to_addr (remove_sub_pools [a] ?w')) = Some (uid, a)"
    using find_update_fresh [OF assms(7)] addr by (simp add: remove_sub_pools_def)
  have la': "map_of (model_uid_to_launch_args (remove_sub_pools [a] ?w')) uid = None"
    using la by (simp add: remove_sub_pools_def)
  have r: "recover_sub_pool cfg renv ?w' a = (remove_sub_pools [a] ?w', None, Inr ())"
    unfolding recover_sub_pool_def Let_def f using la' by simp
  have "in_dict uid (model_uid_to_model ?w')"
    by (simp add: leave_guard_def append_sub_pool_def)
  then have n: "list_models (fst (launch_builtin_model cfg lenv ?w' args)) = list_models ?w'"
    if "model_uid args = uid" for lenv args
    using launch_committed_uid_rejected [of args ?w' cfg lenv] that
    by (simp add: same_tables_def list_models_def)
  have "map_of (model_uid_to_model ?w') uid = Some a"
    "map_of (model_uid_to_addr ?w') uid = Some a"
    "\<not> in_dict uid (model_uid_to_model_spec ?w')"
    "\<not> in_dict uid (model_uid_to_model_status ?w')"
    "\<not> in_dict uid (model_uid_to_recover_count ?w')"
    "\<not> in_dict uid (model_uid_to_launch_args ?w')"
    "\<not> in_dict uid (list_models ?w')"
    using assms(3-6)
    by (simp_all add: leave_guard_def append_sub_pool_def update_conv' list_models_def)
  with l r n show ?thesis by blast
qed

theorem rank0_model_not_listed_not_recovered_witness:
  "\<exists>w'. launch_rank0_model example_rank0_env (init_worker [0]) ''m-rank0'' = (w', Inr ''addr-0'')
      \<and> map_of (model_uid_to_model w') ''m-rank0'' = Some ''addr-0''
      \<and> \<not> in_dict ''m-rank0'' (list_models w')
      \<and> recover_sub_pool example_config example_recover_env w' ''addr-0''
          = (remove_sub_pools [''addr-0''] w', None, Inr ())"
proof -
  have a: "k_subpool example_rank0_env = Inr ''addr-0''" "k_create_actor example_rank0_env = None"
    by (simp_all add: example_rank0_env_def)
  have b: "\<not> in_dict ''m-rank0'' (model_uid_to_model_spec (init_worker [0]))"
    "\<not> in_dict ''m-rank0'' (model_uid_to_model_status (init_worker [0]))"
    "\<not> in_dict ''m-rank0'' (model_uid_to_recover_count (init_worker [0]))"
    "\<not> in_dict ''m-rank0'' (model_uid_to_launch_args (init_worker [0]))"
    by (simp_all add: in_dict_def init_worker_def)
  have c: "\<forall>(u, x) \<in> set (model_uid_to_addr (init_worker [0])). x \<noteq> ''addr-0''"
    by (simp add: init_worker_def)
  from rank0_model_not_listed_not_recovered [OF a b c, of example_config example_recover_env]
  show ?thesis by blast
qed

end
